theory Spec2Isabelle
  imports Complex_Main
begin

section \<open>Numerics of dadi: grid, extrapolation and projection cache\<close>

text \<open>
  A shallow embedding of \<^verbatim>\<open>dadi/Numerics.py\<close>. Floating-point numbers are
  modelled by the reals (exact arithmetic); the grid has a second model, in IEEE double
  precision, and the library functions of the projection cache and of the logarithmic
  wrapper are parameters. Python exceptions are values of the type \<open>error\<close>, and a
  function that may raise returns \<open>error + 'a\<close> with \<open>Inl\<close> the error.
\<close>

subsection \<open>Errors, sequences and the numpy primitives used\<close>

datatype error = IndexError | ValueError string | RaisedError string

text \<open>
  Python indexing \<^verbatim>\<open>xs[i]\<close>: a negative index counts from the end, and an index
  outside the sequence raises \<^verbatim>\<open>IndexError\<close>.
\<close>

definition getitem :: "'a list \<Rightarrow> int \<Rightarrow> error + 'a" where
  "getitem xs i =
     (if 0 \<le> i \<and> i < int (length xs) then Inr (xs ! nat i)
      else if i < 0 \<and> - int (length xs) \<le> i then Inr (xs ! nat (int (length xs) + i))
      else Inl IndexError)"

text \<open>
  \<^verbatim>\<open>numpy.linspace(start, stop, num)\<close> with the end point included: no point for
  \<open>num = 0\<close>, the single point \<open>start\<close> for \<open>num = 1\<close>, and otherwise
  \<^verbatim>\<open>arange(0, num) * step + start\<close> with \<open>step = (stop - start) / (num - 1)\<close>.
\<close>

definition linspace :: "real \<Rightarrow> real \<Rightarrow> nat \<Rightarrow> real list" where
  "linspace start stop num =
     (if num = 0 then []
      else if num = 1 then [start]
      else map (\<lambda>i. real i * ((stop - start) / real (num - 1)) + start) [0..<num])"

text \<open>\<^verbatim>\<open>numpy.arange(n)\<close> for an integer \<open>n\<close>: the integers \<open>0, ..., n - 1\<close>, none if \<open>n \<le> 0\<close>.\<close>

definition arange :: "int \<Rightarrow> int list" where
  "arange n = map int [0..<nat n]"

subsection \<open>The default grid\<close>

text \<open>
  \<^verbatim>\<open>default_grid(num_pts)\<close>. \<^verbatim>\<open>int(num_pts / 10)\<close> is the integer quotient for a
  non-negative integer \<open>num_pts\<close>. The reads \<^verbatim>\<open>q[1]\<close>, \<^verbatim>\<open>q[0]\<close>, \<^verbatim>\<open>grid[-1]\<close> and
  \<^verbatim>\<open>grid[-2]\<close> happen in this order, and each may raise.
\<close>

definition default_grid :: "nat \<Rightarrow> error + real list" where
  "default_grid num_pts =
     (let small_pts = num_pts div 10;
          large_pts = num_pts - small_pts + 1;
          grid = linspace 0 0.05 small_pts;
          q = linspace 0 1 large_pts
      in case getitem q 1 of Inl e \<Rightarrow> Inl e | Inr q1 \<Rightarrow>
         (case getitem q 0 of Inl e \<Rightarrow> Inl e | Inr q0 \<Rightarrow>
         (case getitem grid (- 1) of Inl e \<Rightarrow> Inl e | Inr x_start \<Rightarrow>
         (case getitem grid (- 2) of Inl e \<Rightarrow> Inl e | Inr g2 \<Rightarrow>
            (let dq = q1 - q0;
                 dx_start = x_start - g2;
                 d = x_start;
                 c = dx_start / dq;
                 b = - 3 * (- dq + dx_start + dq * x_start) / dq;
                 a = - 2 * b / 3
             in Inr (butlast grid @ map (\<lambda>q. a * q ^ 3 + b * q ^ 2 + c * q + d) q))))))"

subsection \<open>The closed-form extrapolators\<close>

text \<open>
  Each extrapolator takes the \<open>y\<close> values and the \<open>x\<close> positions of its points and
  returns the value at \<open>x = 0\<close>. The bodies are the source's expressions, with
  \<^verbatim>\<open>Power(x, n)\<close> written \<open>x ^ n\<close>.
\<close>

fun linear_extrap :: "real \<times> real \<Rightarrow> real \<times> real \<Rightarrow> real" where
  "linear_extrap (y1, y2) (x1, x2) =
     (x2 * y1 - x1 * y2) / (x2 - x1)"

fun quadratic_extrap :: "real \<times> real \<times> real \<Rightarrow> real \<times> real \<times> real \<Rightarrow> real" where
  "quadratic_extrap (y1, y2, y3) (x1, x2, x3) =
     x2 * x3 / ((x1 - x2) * (x1 - x3)) * y1 + x1 * x3 / ((x2 - x1) * (x2 - x3)) * y2 + x1 * x2 /
     ((x3 - x1) * (x3 - x2)) * y3"

fun cubic_extrap :: "real \<times> real \<times> real \<times> real \<Rightarrow> real \<times> real \<times> real \<times> real \<Rightarrow> real" where
  "cubic_extrap (y1, y2, y3, y4) (x1, x2, x3, x4) =
     (x1 * (x1 - x3) * x3 * (x1 - x4) * (x3 - x4) * x4 * y2 + x2 * x4 ^ 2 * ((- (x3 ^ 3 * y1)) +
     x3 ^ 2 * x4 * y1 + x1 ^ 2 * (x1 - x4) * y3) + x1 ^ 2 * x2 * x3 ^ 2 * ((- x1) + x3) * y4 + x2
     ^ 3 * (x4 * ((- (x3 ^ 2 * y1)) + x3 * x4 * y1 + x1 * (x1 - x4) * y3) + x1 * x3 * ((- x1) +
     x3) * y4) + x2 ^ 2 * (x1 * x4 * ((- (x1 ^ 2)) + x4 ^ 2) * y3 + x3 ^ 3 * (x4 * y1 - x1 * y4)
     + x3 * ((- (x4 ^ 3 * y1)) + x1 ^ 3 * y4))) / ((x1 - x2) * (x1 - x3) * (x2 - x3) * (x1 - x4)
     * (x2 - x4) * (x3 - x4))"

fun quartic_extrap :: "real \<times> real \<times> real \<times> real \<times> real \<Rightarrow> real \<times> real \<times> real \<times> real \<times> real \<Rightarrow> real" where
  "quartic_extrap (y1, y2, y3, y4, y5) (x1, x2, x3, x4, x5) =
     ((- (x1 * (x1 - x3) * x3 * (x1 - x4) * (x3 - x4) * x4 * (x1 - x5) * (x3 - x5) * (x4 - x5) *
     x5 * y2)) + x2 ^ 4 * ((- (x1 * (x1 - x4) * x4 * (x1 - x5) * (x4 - x5) * x5 * y3)) + x3 ^ 3 *
     (x1 * x5 * ((- x1) + x5) * y4 + x4 ^ 2 * (x5 * y1 - x1 * y5) + x4 * ((- (x5 ^ 2 * y1)) + x1
     ^ 2 * y5)) + x3 ^ 2 * (x1 * x5 * (x1 ^ 2 - x5 ^ 2) * y4 + x4 ^ 3 * ((- (x5 * y1)) + x1 * y5)
     + x4 * (x5 ^ 3 * y1 - x1 ^ 3 * y5)) + x3 * (x1 ^ 2 * x5 ^ 2 * ((- x1) + x5) * y4 + x4 ^ 3 *
     (x5 ^ 2 * y1 - x1 ^ 2 * y5) + x4 ^ 2 * ((- (x5 ^ 3 * y1)) + x1 ^ 3 * y5))) + x2 ^ 3 * (x1 *
     x4 * x5 * (x1 ^ 3 * (x4 - x5) + x4 * x5 * (x4 ^ 2 - x5 ^ 2) + x1 * ((- (x4 ^ 3)) + x5 ^ 3))
     * y3 + x3 ^ 4 * (x1 * (x1 - x5) * x5 * y4 + x4 ^ 2 * ((- (x5 * y1)) + x1 * y5) + x4 * (x5 ^
     2 * y1 - x1 ^ 2 * y5)) + x3 * (x1 ^ 2 * x5 ^ 2 * (x1 ^ 2 - x5 ^ 2) * y4 + x4 ^ 4 * ((- (x5 ^
     2 * y1)) + x1 ^ 2 * y5) + x4 ^ 2 * (x5 ^ 4 * y1 - x1 ^ 4 * y5)) + x3 ^ 2 * (x1 * x5 * ((-
     (x1 ^ 3)) + x5 ^ 3) * y4 + x4 ^ 4 * (x5 * y1 - x1 * y5) + x4 * ((- (x5 ^ 4 * y1)) + x1 ^ 4 *
     y5))) + x2 * (x1 ^ 2 * (x1 - x4) * x4 ^ 2 * (x1 - x5) * (x4 - x5) * x5 ^ 2 * y3 + x3 ^ 4 *
     (x1 ^ 2 * (x1 - x5) * x5 ^ 2 * y4 + x4 ^ 3 * ((- (x5 ^ 2 * y1)) + x1 ^ 2 * y5) + x4 ^ 2 *
     (x5 ^ 3 * y1 - x1 ^ 3 * y5)) + x3 ^ 2 * (x1 ^ 3 * (x1 - x5) * x5 ^ 3 * y4 + x4 ^ 4 * ((- (x5
     ^ 3 * y1)) + x1 ^ 3 * y5) + x4 ^ 3 * (x5 ^ 4 * y1 - x1 ^ 4 * y5)) + x3 ^ 3 * (x1 ^ 2 * x5 ^
     2 * ((- (x1 ^ 2)) + x5 ^ 2) * y4 + x4 ^ 4 * (x5 ^ 2 * y1 - x1 ^ 2 * y5) + x4 ^ 2 * ((- (x5 ^
     4 * y1)) + x1 ^ 4 * y5))) + x2 ^ 2 * (x1 * x4 * x5 * (x4 ^ 2 * x5 ^ 2 * ((- x4) + x5) + x1 ^
     3 * ((- (x4 ^ 2)) + x5 ^ 2) + x1 ^ 2 * (x4 ^ 3 - x5 ^ 3)) * y3 + x3 ^ 4 * (x1 * x5 * ((- (x1
     ^ 2)) + x5 ^ 2) * y4 + x4 ^ 3 * (x5 * y1 - x1 * y5) + x4 * ((- (x5 ^ 3 * y1)) + x1 ^ 3 *
     y5)) + x3 ^ 3 * (x1 * x5 * (x1 ^ 3 - x5 ^ 3) * y4 + x4 ^ 4 * ((- (x5 * y1)) + x1 * y5) + x4
     * (x5 ^ 4 * y1 - x1 ^ 4 * y5)) + x3 * (x1 ^ 3 * x5 ^ 3 * ((- x1) + x5) * y4 + x4 ^ 4 * (x5 ^
     3 * y1 - x1 ^ 3 * y5) + x4 ^ 3 * ((- (x5 ^ 4 * y1)) + x1 ^ 4 * y5)))) / ((x1 - x2) * (x1 -
     x3) * (x2 - x3) * (x1 - x4) * (x2 - x4) * (x3 - x4) * (x1 - x5) * (x2 - x5) * (x3 - x5) *
     (x4 - x5))"

fun quintic_extrap :: "real \<times> real \<times> real \<times> real \<times> real \<times> real \<Rightarrow> real \<times> real \<times> real \<times> real \<times> real \<times> real \<Rightarrow> real" where
  "quintic_extrap (y1, y2, y3, y4, y5, y6) (x1, x2, x3, x4, x5, x6) =
     ((- (x1 * (x1 - x3) * x3 * (x1 - x4) * (x3 - x4) * x4 * (x1 - x5) * (x3 - x5) * (x4 - x5) *
     x5 * (x1 - x6) * (x3 - x6) * (x4 - x6) * (x5 - x6) * x6 * y2)) + x2 ^ 5 * ((- (x1 * (x1 -
     x4) * x4 * (x1 - x5) * (x4 - x5) * x5 * (x1 - x6) * (x4 - x6) * (x5 - x6) * x6 * y3)) + x3 ^
     4 * ((- (x1 * (x1 - x5) * x5 * (x1 - x6) * (x5 - x6) * x6 * y4)) + x4 ^ 3 * (x1 * x6 * ((-
     x1) + x6) * y5 + x5 ^ 2 * (x6 * y1 - x1 * y6) + x5 * ((- (x6 ^ 2 * y1)) + x1 ^ 2 * y6)) + x4
     ^ 2 * (x1 * x6 * (x1 ^ 2 - x6 ^ 2) * y5 + x5 ^ 3 * ((- (x6 * y1)) + x1 * y6) + x5 * (x6 ^ 3
     * y1 - x1 ^ 3 * y6)) + x4 * (x1 ^ 2 * x6 ^ 2 * ((- x1) + x6) * y5 + x5 ^ 3 * (x6 ^ 2 * y1 -
     x1 ^ 2 * y6) + x5 ^ 2 * ((- (x6 ^ 3 * y1)) + x1 ^ 3 * y6))) + x3 ^ 3 * (x1 * x5 * x6 * (x1 ^
     3 * (x5 - x6) + x5 * x6 * (x5 ^ 2 - x6 ^ 2) + x1 * ((- (x5 ^ 3)) + x6 ^ 3)) * y4 + x4 ^ 4 *
     (x1 * (x1 - x6) * x6 * y5 + x5 ^ 2 * ((- (x6 * y1)) + x1 * y6) + x5 * (x6 ^ 2 * y1 - x1 ^ 2
     * y6)) + x4 * (x1 ^ 2 * x6 ^ 2 * (x1 ^ 2 - x6 ^ 2) * y5 + x5 ^ 4 * ((- (x6 ^ 2 * y1)) + x1 ^
     2 * y6) + x5 ^ 2 * (x6 ^ 4 * y1 - x1 ^ 4 * y6)) + x4 ^ 2 * (x1 * x6 * ((- (x1 ^ 3)) + x6 ^
     3) * y5 + x5 ^ 4 * (x6 * y1 - x1 * y6) + x5 * ((- (x6 ^ 4 * y1)) + x1 ^ 4 * y6))) + x3 * (x1
     ^ 2 * (x1 - x5) * x5 ^ 2 * (x1 - x6) * (x5 - x6) * x6 ^ 2 * y4 + x4 ^ 4 * (x1 ^ 2 * (x1 -
     x6) * x6 ^ 2 * y5 + x5 ^ 3 * ((- (x6 ^ 2 * y1)) + x1 ^ 2 * y6) + x5 ^ 2 * (x6 ^ 3 * y1 - x1
     ^ 3 * y6)) + x4 ^ 2 * (x1 ^ 3 * (x1 - x6) * x6 ^ 3 * y5 + x5 ^ 4 * ((- (x6 ^ 3 * y1)) + x1 ^
     3 * y6) + x5 ^ 3 * (x6 ^ 4 * y1 - x1 ^ 4 * y6)) + x4 ^ 3 * (x1 ^ 2 * x6 ^ 2 * ((- (x1 ^ 2))
     + x6 ^ 2) * y5 + x5 ^ 4 * (x6 ^ 2 * y1 - x1 ^ 2 * y6) + x5 ^ 2 * ((- (x6 ^ 4 * y1)) + x1 ^ 4
     * y6))) + x3 ^ 2 * (x1 * x5 * x6 * (x5 ^ 2 * x6 ^ 2 * ((- x5) + x6) + x1 ^ 3 * ((- (x5 ^ 2))
     + x6 ^ 2) + x1 ^ 2 * (x5 ^ 3 - x6 ^ 3)) * y4 + x4 ^ 4 * (x1 * x6 * ((- (x1 ^ 2)) + x6 ^ 2) *
     y5 + x5 ^ 3 * (x6 * y1 - x1 * y6) + x5 * ((- (x6 ^ 3 * y1)) + x1 ^ 3 * y6)) + x4 ^ 3 * (x1 *
     x6 * (x1 ^ 3 - x6 ^ 3) * y5 + x5 ^ 4 * ((- (x6 * y1)) + x1 * y6) + x5 * (x6 ^ 4 * y1 - x1 ^
     4 * y6)) + x4 * (x1 ^ 3 * x6 ^ 3 * ((- x1) + x6) * y5 + x5 ^ 4 * (x6 ^ 3 * y1 - x1 ^ 3 * y6)
     + x5 ^ 3 * ((- (x6 ^ 4 * y1)) + x1 ^ 4 * y6)))) + x2 ^ 4 * (x1 * (x1 - x4) * x4 * (x1 - x5)
     * (x4 - x5) * x5 * (x1 - x6) * (x4 - x6) * (x5 - x6) * x6 * (x1 + x4 + x5 + x6) * y3 + x3 ^
     5 * (x1 * (x1 - x5) * x5 * (x1 - x6) * (x5 - x6) * x6 * y4 + x4 ^ 3 * (x1 * (x1 - x6) * x6 *
     y5 + x5 ^ 2 * ((- (x6 * y1)) + x1 * y6) + x5 * (x6 ^ 2 * y1 - x1 ^ 2 * y6)) + x4 * (x1 ^ 2 *
     (x1 - x6) * x6 ^ 2 * y5 + x5 ^ 3 * ((- (x6 ^ 2 * y1)) + x1 ^ 2 * y6) + x5 ^ 2 * (x6 ^ 3 * y1
     - x1 ^ 3 * y6)) + x4 ^ 2 * (x1 * x6 * ((- (x1 ^ 2)) + x6 ^ 2) * y5 + x5 ^ 3 * (x6 * y1 - x1
     * y6) + x5 * ((- (x6 ^ 3 * y1)) + x1 ^ 3 * y6))) + x3 ^ 2 * (x1 * x5 * (x1 ^ 2 - x5 ^ 2) *
     x6 * (x1 ^ 2 - x6 ^ 2) * (x5 ^ 2 - x6 ^ 2) * y4 + x4 ^ 5 * (x1 * x6 * (x1 ^ 2 - x6 ^ 2) * y5
     + x5 ^ 3 * ((- (x6 * y1)) + x1 * y6) + x5 * (x6 ^ 3 * y1 - x1 ^ 3 * y6)) + x4 * (x1 ^ 3 * x6
     ^ 3 * (x1 ^ 2 - x6 ^ 2) * y5 + x5 ^ 5 * ((- (x6 ^ 3 * y1)) + x1 ^ 3 * y6) + x5 ^ 3 * (x6 ^ 5
     * y1 - x1 ^ 5 * y6)) + x4 ^ 3 * (x1 * x6 * ((- (x1 ^ 4)) + x6 ^ 4) * y5 + x5 ^ 5 * (x6 * y1
     - x1 * y6) + x5 * ((- (x6 ^ 5 * y1)) + x1 ^ 5 * y6))) + x3 ^ 3 * (x1 * x5 * x6 * ((- (x5 ^ 4
     * x6)) + x5 * x6 ^ 4 + x1 ^ 4 * ((- x5) + x6) + x1 * (x5 ^ 4 - x6 ^ 4)) * y4 + x4 ^ 5 * (x1
     * x6 * ((- x1) + x6) * y5 + x5 ^ 2 * (x6 * y1 - x1 * y6) + x5 * ((- (x6 ^ 2 * y1)) + x1 ^ 2
     * y6)) + x4 ^ 2 * (x1 * x6 * (x1 ^ 4 - x6 ^ 4) * y5 + x5 ^ 5 * ((- (x6 * y1)) + x1 * y6) +
     x5 * (x6 ^ 5 * y1 - x1 ^ 5 * y6)) + x4 * (x1 ^ 2 * x6 ^ 2 * ((- (x1 ^ 3)) + x6 ^ 3) * y5 +
     x5 ^ 5 * (x6 ^ 2 * y1 - x1 ^ 2 * y6) + x5 ^ 2 * ((- (x6 ^ 5 * y1)) + x1 ^ 5 * y6))) + x3 *
     (x1 ^ 2 * x5 ^ 2 * x6 ^ 2 * ((- (x5 ^ 3 * x6)) + x5 * x6 ^ 3 + x1 ^ 3 * ((- x5) + x6) + x1 *
     (x5 ^ 3 - x6 ^ 3)) * y4 + x4 ^ 5 * (x1 ^ 2 * x6 ^ 2 * ((- x1) + x6) * y5 + x5 ^ 3 * (x6 ^ 2
     * y1 - x1 ^ 2 * y6) + x5 ^ 2 * ((- (x6 ^ 3 * y1)) + x1 ^ 3 * y6)) + x4 ^ 3 * (x1 ^ 2 * x6 ^
     2 * (x1 ^ 3 - x6 ^ 3) * y5 + x5 ^ 5 * ((- (x6 ^ 2 * y1)) + x1 ^ 2 * y6) + x5 ^ 2 * (x6 ^ 5 *
     y1 - x1 ^ 5 * y6)) + x4 ^ 2 * (x1 ^ 3 * x6 ^ 3 * ((- (x1 ^ 2)) + x6 ^ 2) * y5 + x5 ^ 5 * (x6
     ^ 3 * y1 - x1 ^ 3 * y6) + x5 ^ 3 * ((- (x6 ^ 5 * y1)) + x1 ^ 5 * y6)))) + x2 ^ 3 * ((- (x1 *
     (x1 - x4) * x4 * (x1 - x5) * (x4 - x5) * x5 * (x1 - x6) * (x4 - x6) * (x5 - x6) * x6 * (x5 *
     x6 + x4 * (x5 + x6) + x1 * (x4 + x5 + x6)) * y3)) + x3 ^ 5 * (x1 * x5 * x6 * ((- (x5 ^ 3 *
     x6)) + x5 * x6 ^ 3 + x1 ^ 3 * ((- x5) + x6) + x1 * (x5 ^ 3 - x6 ^ 3)) * y4 + x4 ^ 4 * (x1 *
     x6 * ((- x1) + x6) * y5 + x5 ^ 2 * (x6 * y1 - x1 * y6) + x5 * ((- (x6 ^ 2 * y1)) + x1 ^ 2 *
     y6)) + x4 ^ 2 * (x1 * x6 * (x1 ^ 3 - x6 ^ 3) * y5 + x5 ^ 4 * ((- (x6 * y1)) + x1 * y6) + x5
     * (x6 ^ 4 * y1 - x1 ^ 4 * y6)) + x4 * (x1 ^ 2 * x6 ^ 2 * ((- (x1 ^ 2)) + x6 ^ 2) * y5 + x5 ^
     4 * (x6 ^ 2 * y1 - x1 ^ 2 * y6) + x5 ^ 2 * ((- (x6 ^ 4 * y1)) + x1 ^ 4 * y6))) + x3 ^ 4 *
     (x1 * x5 * x6 * (x1 ^ 4 * (x5 - x6) + x5 * x6 * (x5 ^ 3 - x6 ^ 3) + x1 * ((- (x5 ^ 4)) + x6
     ^ 4)) * y4 + x4 ^ 5 * (x1 * (x1 - x6) * x6 * y5 + x5 ^ 2 * ((- (x6 * y1)) + x1 * y6) + x5 *
     (x6 ^ 2 * y1 - x1 ^ 2 * y6)) + x4 * (x1 ^ 2 * x6 ^ 2 * (x1 ^ 3 - x6 ^ 3) * y5 + x5 ^ 5 * ((-
     (x6 ^ 2 * y1)) + x1 ^ 2 * y6) + x5 ^ 2 * (x6 ^ 5 * y1 - x1 ^ 5 * y6)) + x4 ^ 2 * (x1 * x6 *
     ((- (x1 ^ 4)) + x6 ^ 4) * y5 + x5 ^ 5 * (x6 * y1 - x1 * y6) + x5 * ((- (x6 ^ 5 * y1)) + x1 ^
     5 * y6))) + x3 * (x1 ^ 2 * x5 ^ 2 * x6 ^ 2 * (x5 ^ 2 * (x5 - x6) * x6 ^ 2 + x1 ^ 3 * (x5 ^ 2
     - x6 ^ 2) + x1 ^ 2 * ((- (x5 ^ 3)) + x6 ^ 3)) * y4 + x4 ^ 5 * (x1 ^ 2 * x6 ^ 2 * (x1 ^ 2 -
     x6 ^ 2) * y5 + x5 ^ 4 * ((- (x6 ^ 2 * y1)) + x1 ^ 2 * y6) + x5 ^ 2 * (x6 ^ 4 * y1 - x1 ^ 4 *
     y6)) + x4 ^ 2 * (x1 ^ 4 * (x1 - x6) * x6 ^ 4 * y5 + x5 ^ 5 * ((- (x6 ^ 4 * y1)) + x1 ^ 4 *
     y6) + x5 ^ 4 * (x6 ^ 5 * y1 - x1 ^ 5 * y6)) + x4 ^ 4 * (x1 ^ 2 * x6 ^ 2 * ((- (x1 ^ 3)) + x6
     ^ 3) * y5 + x5 ^ 5 * (x6 ^ 2 * y1 - x1 ^ 2 * y6) + x5 ^ 2 * ((- (x6 ^ 5 * y1)) + x1 ^ 5 *
     y6))) + x3 ^ 2 * (x1 * x5 * x6 * (x5 ^ 3 * x6 ^ 3 * ((- x5) + x6) + x1 ^ 4 * ((- (x5 ^ 3)) +
     x6 ^ 3) + x1 ^ 3 * (x5 ^ 4 - x6 ^ 4)) * y4 + x4 ^ 5 * (x1 * x6 * ((- (x1 ^ 3)) + x6 ^ 3) *
     y5 + x5 ^ 4 * (x6 * y1 - x1 * y6) + x5 * ((- (x6 ^ 4 * y1)) + x1 ^ 4 * y6)) + x4 ^ 4 * (x1 *
     x6 * (x1 ^ 4 - x6 ^ 4) * y5 + x5 ^ 5 * ((- (x6 * y1)) + x1 * y6) + x5 * (x6 ^ 5 * y1 - x1 ^
     5 * y6)) + x4 * (x1 ^ 4 * x6 ^ 4 * ((- x1) + x6) * y5 + x5 ^ 5 * (x6 ^ 4 * y1 - x1 ^ 4 * y6)
     + x5 ^ 4 * ((- (x6 ^ 5 * y1)) + x1 ^ 5 * y6)))) + x2 * ((- (x1 ^ 2 * (x1 - x4) * x4 ^ 2 *
     (x1 - x5) * (x4 - x5) * x5 ^ 2 * (x1 - x6) * (x4 - x6) * (x5 - x6) * x6 ^ 2 * y3)) + x3 ^ 5
     * ((- (x1 ^ 2 * (x1 - x5) * x5 ^ 2 * (x1 - x6) * (x5 - x6) * x6 ^ 2 * y4)) + x4 ^ 4 * (x1 ^
     2 * x6 ^ 2 * ((- x1) + x6) * y5 + x5 ^ 3 * (x6 ^ 2 * y1 - x1 ^ 2 * y6) + x5 ^ 2 * ((- (x6 ^
     3 * y1)) + x1 ^ 3 * y6)) + x4 ^ 3 * (x1 ^ 2 * x6 ^ 2 * (x1 ^ 2 - x6 ^ 2) * y5 + x5 ^ 4 * ((-
     (x6 ^ 2 * y1)) + x1 ^ 2 * y6) + x5 ^ 2 * (x6 ^ 4 * y1 - x1 ^ 4 * y6)) + x4 ^ 2 * (x1 ^ 3 *
     x6 ^ 3 * ((- x1) + x6) * y5 + x5 ^ 4 * (x6 ^ 3 * y1 - x1 ^ 3 * y6) + x5 ^ 3 * ((- (x6 ^ 4 *
     y1)) + x1 ^ 4 * y6))) + x3 ^ 4 * (x1 ^ 2 * x5 ^ 2 * x6 ^ 2 * (x1 ^ 3 * (x5 - x6) + x5 * x6 *
     (x5 ^ 2 - x6 ^ 2) + x1 * ((- (x5 ^ 3)) + x6 ^ 3)) * y4 + x4 ^ 5 * (x1 ^ 2 * (x1 - x6) * x6 ^
     2 * y5 + x5 ^ 3 * ((- (x6 ^ 2 * y1)) + x1 ^ 2 * y6) + x5 ^ 2 * (x6 ^ 3 * y1 - x1 ^ 3 * y6))
     + x4 ^ 2 * (x1 ^ 3 * x6 ^ 3 * (x1 ^ 2 - x6 ^ 2) * y5 + x5 ^ 5 * ((- (x6 ^ 3 * y1)) + x1 ^ 3
     * y6) + x5 ^ 3 * (x6 ^ 5 * y1 - x1 ^ 5 * y6)) + x4 ^ 3 * (x1 ^ 2 * x6 ^ 2 * ((- (x1 ^ 3)) +
     x6 ^ 3) * y5 + x5 ^ 5 * (x6 ^ 2 * y1 - x1 ^ 2 * y6) + x5 ^ 2 * ((- (x6 ^ 5 * y1)) + x1 ^ 5 *
     y6))) + x3 ^ 2 * (x1 ^ 3 * (x1 - x5) * x5 ^ 3 * (x1 - x6) * (x5 - x6) * x6 ^ 3 * y4 + x4 ^ 5
     * (x1 ^ 3 * (x1 - x6) * x6 ^ 3 * y5 + x5 ^ 4 * ((- (x6 ^ 3 * y1)) + x1 ^ 3 * y6) + x5 ^ 3 *
     (x6 ^ 4 * y1 - x1 ^ 4 * y6)) + x4 ^ 3 * (x1 ^ 4 * (x1 - x6) * x6 ^ 4 * y5 + x5 ^ 5 * ((- (x6
     ^ 4 * y1)) + x1 ^ 4 * y6) + x5 ^ 4 * (x6 ^ 5 * y1 - x1 ^ 5 * y6)) + x4 ^ 4 * (x1 ^ 3 * x6 ^
     3 * ((- (x1 ^ 2)) + x6 ^ 2) * y5 + x5 ^ 5 * (x6 ^ 3 * y1 - x1 ^ 3 * y6) + x5 ^ 3 * ((- (x6 ^
     5 * y1)) + x1 ^ 5 * y6))) + x3 ^ 3 * (x1 ^ 2 * x5 ^ 2 * x6 ^ 2 * (x5 ^ 2 * x6 ^ 2 * ((- x5)
     + x6) + x1 ^ 3 * ((- (x5 ^ 2)) + x6 ^ 2) + x1 ^ 2 * (x5 ^ 3 - x6 ^ 3)) * y4 + x4 ^ 5 * (x1 ^
     2 * x6 ^ 2 * ((- (x1 ^ 2)) + x6 ^ 2) * y5 + x5 ^ 4 * (x6 ^ 2 * y1 - x1 ^ 2 * y6) + x5 ^ 2 *
     ((- (x6 ^ 4 * y1)) + x1 ^ 4 * y6)) + x4 ^ 4 * (x1 ^ 2 * x6 ^ 2 * (x1 ^ 3 - x6 ^ 3) * y5 + x5
     ^ 5 * ((- (x6 ^ 2 * y1)) + x1 ^ 2 * y6) + x5 ^ 2 * (x6 ^ 5 * y1 - x1 ^ 5 * y6)) + x4 ^ 2 *
     (x1 ^ 4 * x6 ^ 4 * ((- x1) + x6) * y5 + x5 ^ 5 * (x6 ^ 4 * y1 - x1 ^ 4 * y6) + x5 ^ 4 * ((-
     (x6 ^ 5 * y1)) + x1 ^ 5 * y6)))) + x2 ^ 2 * (x1 * (x1 - x4) * x4 * (x1 - x5) * (x4 - x5) *
     x5 * (x1 - x6) * (x4 - x6) * (x5 - x6) * x6 * (x4 * x5 * x6 + x1 * (x5 * x6 + x4 * (x5 +
     x6))) * y3 + x3 ^ 5 * (x1 * x5 * x6 * (x5 ^ 2 * (x5 - x6) * x6 ^ 2 + x1 ^ 3 * (x5 ^ 2 - x6 ^
     2) + x1 ^ 2 * ((- (x5 ^ 3)) + x6 ^ 3)) * y4 + x4 ^ 4 * (x1 * x6 * (x1 ^ 2 - x6 ^ 2) * y5 +
     x5 ^ 3 * ((- (x6 * y1)) + x1 * y6) + x5 * (x6 ^ 3 * y1 - x1 ^ 3 * y6)) + x4 * (x1 ^ 3 * (x1
     - x6) * x6 ^ 3 * y5 + x5 ^ 4 * ((- (x6 ^ 3 * y1)) + x1 ^ 3 * y6) + x5 ^ 3 * (x6 ^ 4 * y1 -
     x1 ^ 4 * y6)) + x4 ^ 3 * (x1 * x6 * ((- (x1 ^ 3)) + x6 ^ 3) * y5 + x5 ^ 4 * (x6 * y1 - x1 *
     y6) + x5 * ((- (x6 ^ 4 * y1)) + x1 ^ 4 * y6))) + x3 ^ 3 * (x1 * x5 * x6 * (x5 ^ 3 * (x5 -
     x6) * x6 ^ 3 + x1 ^ 4 * (x5 ^ 3 - x6 ^ 3) + x1 ^ 3 * ((- (x5 ^ 4)) + x6 ^ 4)) * y4 + x4 ^ 5
     * (x1 * x6 * (x1 ^ 3 - x6 ^ 3) * y5 + x5 ^ 4 * ((- (x6 * y1)) + x1 * y6) + x5 * (x6 ^ 4 * y1
     - x1 ^ 4 * y6)) + x4 * (x1 ^ 4 * (x1 - x6) * x6 ^ 4 * y5 + x5 ^ 5 * ((- (x6 ^ 4 * y1)) + x1
     ^ 4 * y6) + x5 ^ 4 * (x6 ^ 5 * y1 - x1 ^ 5 * y6)) + x4 ^ 4 * (x1 * x6 * ((- (x1 ^ 4)) + x6 ^
     4) * y5 + x5 ^ 5 * (x6 * y1 - x1 * y6) + x5 * ((- (x6 ^ 5 * y1)) + x1 ^ 5 * y6))) + x3 ^ 4 *
     ((- (x1 * x5 * (x1 ^ 2 - x5 ^ 2) * x6 * (x1 ^ 2 - x6 ^ 2) * (x5 ^ 2 - x6 ^ 2) * y4)) + x4 ^
     5 * (x1 * x6 * ((- (x1 ^ 2)) + x6 ^ 2) * y5 + x5 ^ 3 * (x6 * y1 - x1 * y6) + x5 * ((- (x6 ^
     3 * y1)) + x1 ^ 3 * y6)) + x4 ^ 3 * (x1 * x6 * (x1 ^ 4 - x6 ^ 4) * y5 + x5 ^ 5 * ((- (x6 *
     y1)) + x1 * y6) + x5 * (x6 ^ 5 * y1 - x1 ^ 5 * y6)) + x4 * (x1 ^ 3 * x6 ^ 3 * ((- (x1 ^ 2))
     + x6 ^ 2) * y5 + x5 ^ 5 * (x6 ^ 3 * y1 - x1 ^ 3 * y6) + x5 ^ 3 * ((- (x6 ^ 5 * y1)) + x1 ^ 5
     * y6))) + x3 * ((- (x1 ^ 3 * (x1 - x5) * x5 ^ 3 * (x1 - x6) * (x5 - x6) * x6 ^ 3 * y4)) + x4
     ^ 5 * (x1 ^ 3 * x6 ^ 3 * ((- x1) + x6) * y5 + x5 ^ 4 * (x6 ^ 3 * y1 - x1 ^ 3 * y6) + x5 ^ 3
     * ((- (x6 ^ 4 * y1)) + x1 ^ 4 * y6)) + x4 ^ 4 * (x1 ^ 3 * x6 ^ 3 * (x1 ^ 2 - x6 ^ 2) * y5 +
     x5 ^ 5 * ((- (x6 ^ 3 * y1)) + x1 ^ 3 * y6) + x5 ^ 3 * (x6 ^ 5 * y1 - x1 ^ 5 * y6)) + x4 ^ 3
     * (x1 ^ 4 * x6 ^ 4 * ((- x1) + x6) * y5 + x5 ^ 5 * (x6 ^ 4 * y1 - x1 ^ 4 * y6) + x5 ^ 4 *
     ((- (x6 ^ 5 * y1)) + x1 ^ 5 * y6))))) / ((x1 - x2) * (x1 - x3) * ((- x2) + x3) * (x1 - x4) *
     ((- x2) + x4) * ((- x3) + x4) * (x1 - x5) * (x2 - x5) * (x3 - x5) * (x4 - x5) * (x1 - x6) *
     (x2 - x6) * (x3 - x6) * (x4 - x6) * (x5 - x6))"

text \<open>
  The \<open>y\<close> values may be arrays: numpy then applies the same expression to every
  element, the positions being scalars. An array of reals is a function from its
  indices to the reals; a scalar result is the array with a single index.
\<close>

type_synonym 'i ndarray = "'i \<Rightarrow> real"

definition linear_extrap_nd :: "'i ndarray list \<Rightarrow> real list \<Rightarrow> error + 'i ndarray" where
  "linear_extrap_nd ys xs =
     (case (ys, xs) of
        ([y1, y2], [x1, x2]) \<Rightarrow>
          Inr (\<lambda>i. linear_extrap (y1 i, y2 i) (x1, x2))
      | _ \<Rightarrow> Inl (ValueError ''wrong number of values to unpack''))"

definition quadratic_extrap_nd :: "'i ndarray list \<Rightarrow> real list \<Rightarrow> error + 'i ndarray" where
  "quadratic_extrap_nd ys xs =
     (case (ys, xs) of
        ([y1, y2, y3], [x1, x2, x3]) \<Rightarrow>
          Inr (\<lambda>i. quadratic_extrap (y1 i, y2 i, y3 i) (x1, x2, x3))
      | _ \<Rightarrow> Inl (ValueError ''wrong number of values to unpack''))"

definition cubic_extrap_nd :: "'i ndarray list \<Rightarrow> real list \<Rightarrow> error + 'i ndarray" where
  "cubic_extrap_nd ys xs =
     (case (ys, xs) of
        ([y1, y2, y3, y4], [x1, x2, x3, x4]) \<Rightarrow>
          Inr (\<lambda>i. cubic_extrap (y1 i, y2 i, y3 i, y4 i) (x1, x2, x3, x4))
      | _ \<Rightarrow> Inl (ValueError ''wrong number of values to unpack''))"

definition quartic_extrap_nd :: "'i ndarray list \<Rightarrow> real list \<Rightarrow> error + 'i ndarray" where
  "quartic_extrap_nd ys xs =
     (case (ys, xs) of
        ([y1, y2, y3, y4, y5], [x1, x2, x3, x4, x5]) \<Rightarrow>
          Inr (\<lambda>i. quartic_extrap (y1 i, y2 i, y3 i, y4 i, y5 i) (x1, x2, x3, x4, x5))
      | _ \<Rightarrow> Inl (ValueError ''wrong number of values to unpack''))"

definition quintic_extrap_nd :: "'i ndarray list \<Rightarrow> real list \<Rightarrow> error + 'i ndarray" where
  "quintic_extrap_nd ys xs =
     (case (ys, xs) of
        ([y1, y2, y3, y4, y5, y6], [x1, x2, x3, x4, x5, x6]) \<Rightarrow>
          Inr (\<lambda>i. quintic_extrap (y1 i, y2 i, y3 i, y4 i, y5 i, y6 i) (x1, x2, x3, x4, x5, x6))
      | _ \<Rightarrow> Inl (ValueError ''wrong number of values to unpack''))"

subsection \<open>The extrapolation wrapper\<close>

text \<open>
  The wrapped function takes the caller's positional arguments, the number of grid
  points and the keyword arguments. It may have effects and it may raise: it maps the
  state of the world before the call to its outcome and the state after it.
\<close>

type_synonym ('a, 'k, 's, 'i) wrapped =
  "'a \<Rightarrow> nat \<Rightarrow> 'k \<Rightarrow> 's \<Rightarrow> (error + 'i ndarray) \<times> 's"

text \<open>
  The loop of \<^verbatim>\<open>extrap_func\<close> over \<^verbatim>\<open>pts_l\<close>: the spacing
  \<^verbatim>\<open>default_grid(pts)[1]\<close> is computed first, then the wrapped function is called; the
  first exception ends the loop.
\<close>

fun extrap_loop ::
  "('a, 'k, 's, 'i) wrapped \<Rightarrow> 'a \<Rightarrow> 'k \<Rightarrow> nat list \<Rightarrow> real list \<times> 'i ndarray list \<Rightarrow> 's
     \<Rightarrow> (error + real list \<times> 'i ndarray list) \<times> 's" where
  "extrap_loop func other_args kwargs [] (x_l, result_l) s = (Inr (x_l, result_l), s)"
| "extrap_loop func other_args kwargs (pts # rest) (x_l, result_l) s =
     (case default_grid pts of Inl e \<Rightarrow> (Inl e, s) | Inr grid \<Rightarrow>
     (case getitem grid 1 of Inl e \<Rightarrow> (Inl e, s) | Inr x \<Rightarrow>
     (case func other_args pts kwargs s of
        (Inl e, s') \<Rightarrow> (Inl e, s')
      | (Inr result, s') \<Rightarrow>
          extrap_loop func other_args kwargs rest (x_l @ [x], result_l @ [result]) s')))"

definition range_message :: string where
  "range_message = ''Number of calculations to use for extrapolation must be between 1 and 6''"

definition extrap_func ::
  "('a, 'k, 's, 'i) wrapped \<Rightarrow> 'a \<Rightarrow> nat list \<Rightarrow> 'k \<Rightarrow> 's \<Rightarrow> (error + 'i ndarray) \<times> 's" where
  "extrap_func func other_args pts_l kwargs s =
     (case extrap_loop func other_args kwargs pts_l ([], []) s of
        (Inl e, s') \<Rightarrow> (Inl e, s')
      | (Inr (x_l, result_l), s') \<Rightarrow>
          (if length pts_l = 1 then getitem result_l 0
           else if length pts_l = 2 then linear_extrap_nd result_l x_l
           else if length pts_l = 3 then quadratic_extrap_nd result_l x_l
           else if length pts_l = 4 then cubic_extrap_nd result_l x_l
           else if length pts_l = 5 then quartic_extrap_nd result_l x_l
           else if length pts_l = 6 then quintic_extrap_nd result_l x_l
           else Inl (ValueError range_message), s'))"

definition make_extrap_func :: "('a, 'k, 's, 'i) wrapped \<Rightarrow> ('a \<Rightarrow> nat list \<Rightarrow> 'k \<Rightarrow> 's \<Rightarrow> (error + 'i ndarray) \<times> 's)" where
  "make_extrap_func func = extrap_func func"



subsection \<open>The projection cache\<close>

text \<open>
  The coefficients are computed with scipy's \<^verbatim>\<open>comb\<close> and \<^verbatim>\<open>gammaln\<close> and with
  numpy's floating-point operations, which are not part of this program: they are the
  fields of a record, over any type of values. \<open>fisnan\<close> is \<^verbatim>\<open>numpy.isnan\<close>.
\<close>

record 'v numeric =
  fcomb :: "int \<Rightarrow> int \<Rightarrow> 'v"
  fgammaln :: "int \<Rightarrow> 'v"
  fmul :: "'v \<Rightarrow> 'v \<Rightarrow> 'v"
  fdiv :: "'v \<Rightarrow> 'v \<Rightarrow> 'v"
  fadd :: "'v \<Rightarrow> 'v \<Rightarrow> 'v"
  fsub :: "'v \<Rightarrow> 'v \<Rightarrow> 'v"
  fexp :: "'v \<Rightarrow> 'v"
  fisnan :: "'v \<Rightarrow> bool"

definition lncomb :: "'v numeric \<Rightarrow> int \<Rightarrow> int \<Rightarrow> 'v" where
  "lncomb nm N k =
     fsub nm (fsub nm (fgammaln nm (N + 1)) (fgammaln nm (k + 1))) (fgammaln nm (N - k + 1))"

type_synonym 'v projection_cache = "int \<times> int \<times> int \<rightharpoonup> 'v list"

definition cached_projection ::
  "'v numeric \<Rightarrow> int \<Rightarrow> int \<Rightarrow> int \<Rightarrow> 'v projection_cache \<Rightarrow> 'v list \<times> 'v projection_cache" where
  "cached_projection nm proj_to proj_from hits cache =
     (let key = (proj_to, proj_from, hits)
      in case cache key of
           Some stored \<Rightarrow> (stored, cache)
         | None \<Rightarrow>
             (let proj_hits = arange (proj_to + 1);
                  contrib = map (\<lambda>j. fmul nm (fcomb nm proj_to j)
                                        (fcomb nm (proj_from - proj_to) (hits - j))) proj_hits;
                  contrib = map (\<lambda>c. fdiv nm c (fcomb nm proj_from hits)) contrib;
                  contrib =
                    (if list_ex (fisnan nm) contrib
                     then map (\<lambda>j. fexp nm
                                 (fsub nm (fadd nm (lncomb nm proj_to j)
                                                   (lncomb nm (proj_from - proj_to) (hits - j)))
                                          (lncomb nm proj_from hits))) proj_hits
                     else contrib)
              in (contrib, cache(key \<mapsto> contrib))))"



text \<open>
  An arithmetic with a not-a-number value \<open>None\<close>, which every operation propagates,
  and in which a binomial coefficient above \<open>limit\<close> is not-a-number.
\<close>

definition overflowing_numeric :: "nat \<Rightarrow> (int \<Rightarrow> real) \<Rightarrow> real option numeric" where
  "overflowing_numeric limit lg =
     \<lparr> fcomb = (\<lambda>N k. if k \<le> N \<and> 0 \<le> N \<and> 0 \<le> k
                       then (if nat N choose nat k \<le> limit then Some (real (nat N choose nat k)) else None)
                       else Some 0),
       fgammaln = (\<lambda>n. Some (lg n)),
       fmul = (\<lambda>a b. case (a, b) of (Some x, Some y) \<Rightarrow> Some (x * y) | _ \<Rightarrow> None),
       fdiv = (\<lambda>a b. case (a, b) of (Some x, Some y) \<Rightarrow> Some (x / y) | _ \<Rightarrow> None),
       fadd = (\<lambda>a b. case (a, b) of (Some x, Some y) \<Rightarrow> Some (x + y) | _ \<Rightarrow> None),
       fsub = (\<lambda>a b. case (a, b) of (Some x, Some y) \<Rightarrow> Some (x - y) | _ \<Rightarrow> None),
       fexp = map_option exp,
       fisnan = (\<lambda>v. v = None) \<rparr>"

subsection \<open>Notions used to state the properties\<close>

text \<open>The polynomial with coefficients \<open>cs\<close>, lowest degree first; its degree is below \<open>length cs\<close>.\<close>

fun polyval :: "real list \<Rightarrow> real \<Rightarrow> real" where
  "polyval [] x = 0"
| "polyval (c # cs) x = c + x * polyval cs x"

text \<open>
  The interpolating polynomial of Lagrange through the points \<open>(xs ! i, ys ! i)\<close>,
  evaluated at 0: the sum over \<open>i\<close> of \<open>ys ! i\<close> times the product over \<open>j \<noteq> i\<close> of
  \<open>(0 - xs ! j) / (xs ! i - xs ! j)\<close>.
\<close>

definition lagrange_weight :: "real list \<Rightarrow> nat \<Rightarrow> real" where
  "lagrange_weight xs i =
     prod_list (map (\<lambda>j. (0 - xs ! j) / (xs ! i - xs ! j)) (filter (\<lambda>j. j \<noteq> i) [0..<length xs]))"

definition lagrange_at_zero :: "real list \<Rightarrow> real list \<Rightarrow> real" where
  "lagrange_at_zero xs ys =
     sum_list (map (\<lambda>i. ys ! i * lagrange_weight xs i) [0..<length xs])"




subsection \<open>The grid in double precision\<close>

text \<open>
  The source computes the grid in IEEE double precision. \<open>f64 x\<close> is the double nearest
  to the real \<open>x\<close>, the tie going to the even significand of 53 bits; each floating-point
  operation of the source returns the rounded exact result. Only the normal range of the
  doubles is modelled, which holds every value of the grid: overflow, underflow and
  not-a-number do not arise here.
\<close>

definition round_half_even :: "real \<Rightarrow> int" where
  "round_half_even y =
     (if y - of_int \<lfloor>y\<rfloor> < 1 / 2 then \<lfloor>y\<rfloor>
      else if 1 / 2 < y - of_int \<lfloor>y\<rfloor> then \<lfloor>y\<rfloor> + 1
      else if even \<lfloor>y\<rfloor> then \<lfloor>y\<rfloor> else \<lfloor>y\<rfloor> + 1)"

text \<open>The exponent \<open>e\<close> with \<open>2 ^ e \<le> x < 2 ^ (e + 1)\<close>, for a positive \<open>x\<close> in the range of the doubles.\<close>

fun binary_exponent :: "nat \<Rightarrow> real \<Rightarrow> int" where
  "binary_exponent 0 x = 0"
| "binary_exponent (Suc n) x =
     (if 2 \<le> x then binary_exponent n (x / 2) + 1
      else if x < 1 then binary_exponent n (x * 2) - 1
      else 0)"

definition ulp_at :: "real \<Rightarrow> real" where
  "ulp_at x =
     (let e = binary_exponent 1100 \<bar>x\<bar> - 52
      in if 0 \<le> e then 2 ^ nat e else 1 / 2 ^ nat (- e))"

definition f64 :: "real \<Rightarrow> real" where
  "f64 x = (if x = 0 then 0 else of_int (round_half_even (x / ulp_at x)) * ulp_at x)"



section \<open>Properties\<close>

subsection \<open>Sequences and the grid\<close>

lemma getitem_nth: "i < length xs \<Longrightarrow> getitem xs (int i) = Inr (xs ! i)"
  by (simp add: getitem_def Let_def)

lemma getitem_neg: "0 < k \<Longrightarrow> k \<le> length xs \<Longrightarrow> getitem xs (- int k) = Inr (xs ! (length xs - k))"
  by (simp add: getitem_def Let_def nat_diff_distrib' of_nat_diff)

lemma linspace_length: "length (linspace a b n) = n"
  by (simp add: linspace_def)

lemma linspace_nth: "2 \<le> n \<Longrightarrow> i < n \<Longrightarrow> linspace a b n ! i = real i * ((b - a) / real (n - 1)) + a"
  by (simp add: linspace_def)

lemma butlast_upt0: "butlast [0..<s] = [0..<s - 1]"
  by (cases s) simp_all

lemma default_grid_eq:
  fixes n :: nat
  defines "s \<equiv> n div 10"
  defines "dq \<equiv> 1 / real (n - s)"
  defines "dx \<equiv> (1 / 20) / real (s - 1)"
  defines "b \<equiv> - 3 * (- dq + dx + dq * (1 / 20)) / dq"
  assumes n: "2 \<le> n div 10"
  shows "default_grid n =
     Inr (map (\<lambda>i. real i * dx) [0..<s - 1] @
          map (\<lambda>j. (- 2 * b / 3) * (real j * dq) ^ 3 + b * (real j * dq) ^ 2 + (dx / dq) * (real j * dq) + 1 / 20)
              [0..<n - s + 1])"
proof -
  have s2: "2 \<le> s" using n by (simp add: s_def)
  have sn: "s \<le> n" by (simp add: s_def)
  have L2: "2 \<le> n - s + 1" using n s_def by linarith 
  have q1: "getitem (linspace 0 1 (n - s + 1)) 1 = Inr dq"
    using getitem_nth[of 1 "linspace 0 1 (n - s + 1)"] L2
    by (simp add: linspace_length linspace_nth dq_def)
  have q0: "getitem (linspace 0 1 (n - s + 1)) 0 = Inr 0"
    using getitem_nth[of 0 "linspace 0 1 (n - s + 1)"] L2
    by (simp add: linspace_length linspace_nth)
  have g1: "getitem (linspace 0 0.05 s) (- 1) = Inr (1 / 20)"
    using getitem_neg[of 1 "linspace 0 0.05 s"] s2
    by (simp add: linspace_length linspace_nth)
  have g2: "getitem (linspace 0 0.05 s) (- 2) = Inr (1 / 20 - dx)"
    using getitem_neg[of 2 "linspace 0 0.05 s"] s2
    by (simp add: linspace_length linspace_nth dx_def field_simps of_nat_diff)
  have bl: "butlast (linspace 0 0.05 s) = map (\<lambda>i. real i * dx) [0..<s - 1]"
    using s2 by (simp add: linspace_def map_butlast[symmetric] dx_def butlast_upt0)
  have ql: "linspace 0 1 (n - s + 1) = map (\<lambda>j. real j * dq) [0..<n - s + 1]"
    using L2 by (auto simp add: linspace_def dq_def)
  show ?thesis
    unfolding default_grid_def Let_def s_def[symmetric]
    by (simp only: q1 q0 g1 g2 bl sum.case, simp only: ql, simp add: b_def o_def)
qed

lemma cubic_increasing:
  fixes b c d u v :: real
  assumes c: "0 < c" "c \<le> 27 / 20" and b: "b = 3 * (19 / 20 - c)"
    and uv: "0 \<le> u" "u < v" "v \<le> 1"
  shows "(- 2 * b / 3) * u ^ 3 + b * u ^ 2 + c * u + d < (- 2 * b / 3) * v ^ 3 + b * v ^ 2 + c * v + d"
proof -
  define T where "T = (v + u) - (2 / 3) * (v ^ 2 + u * v + u ^ 2)"
  have diff: "((- 2 * b / 3) * v ^ 3 + b * v ^ 2 + c * v + d) - ((- 2 * b / 3) * u ^ 3 + b * u ^ 2 + c * u + d)
      = (v - u) * (b * T + c)"
    unfolding T_def by algebra
  have T_split: "T = (2 / 3) * (v * (1 - v) + u * (1 - u)) + (1 / 3) * (u * (1 - v) + v * (1 - u))"
    unfolding T_def by algebra
  have T0: "0 \<le> T"
    unfolding T_split using uv by (intro add_nonneg_nonneg mult_nonneg_nonneg) simp_all
  have "1 / 2 - T = (u + v - 1) ^ 2 / 2 + (u - v) ^ 2 / 6"
    unfolding T_def by (simp add: field_simps power2_eq_square)
  moreover have "0 \<le> (u + v - 1) ^ 2 / 2 + (u - v) ^ 2 / 6"
    by simp
  ultimately have T1: "T \<le> 1 / 2"
    by linarith
  have pos: "0 < b * T + c"
  proof (cases "0 \<le> b")
    case True
    then have "0 \<le> b * T" using T0 by simp
    then show ?thesis using c by linarith
  next
    case False
    then have h1: "b * (1 / 2) \<le> b * T"
      using T1 by (intro mult_left_mono_neg) simp_all
    have "b * (1 / 2) + c = 57 / 40 - c / 2"
      by (simp add: b algebra_simps)
    then have h2: "0 < b * (1 / 2) + c"
      using c by linarith
    show ?thesis using h1 h2 by linarith
  qed
  have "0 < (v - u) * (b * T + c)"
    using pos uv by simp
  then show ?thesis
    using diff by linarith
qed

lemma sorted_map_upt:
  assumes "\<And>i j. i < j \<Longrightarrow> j < n \<Longrightarrow> f i < (f j :: real)"
  shows "sorted_wrt (<) (map f [0..<n])"
  using assms by (simp add: sorted_wrt_iff_nth_less)

lemma spacing_ratio_bounds:
  fixes n :: nat
  assumes "2 \<le> n div 10"
  shows "0 < (1 / 20) / real (n div 10 - 1) / (1 / real (n - n div 10))"
    and "(1 / 20) / real (n div 10 - 1) / (1 / real (n - n div 10)) \<le> 27 / 20"
proof -
  define s where "s = n div 10"
  have s2: "2 \<le> s" using assms by (simp add: s_def)
  have n1: "n < 10 * (s + 1)" unfolding s_def by (simp add: dividend_less_times_div)  
  have n0: "10 * s \<le> n" unfolding s_def by simp
  have r: "(1 / 20) / real (s - 1) / (1 / real (n - s)) = real (n - s) / (20 * real (s - 1))"
    by simp
  have "0 < real (n - s)" using n0 s2 by simp
  moreover have "0 < real (s - 1)" using s2 by simp
  ultimately show "0 < (1 / 20) / real (n div 10 - 1) / (1 / real (n - n div 10))"
    unfolding s_def[symmetric] r by simp
  obtain k where k: "s = k + 2"
    using s2 by (metis add.commute le_Suc_ex)
  have "n - s \<le> 27 * (s - 1)" using n1 unfolding k by simp
  then have "real (n - s) \<le> 27 * real (s - 1)"
    by (metis of_nat_le_iff of_nat_mult of_nat_numeral)
  then show "(1 / 20) / real (n div 10 - 1) / (1 / real (n - n div 10)) \<le> 27 / 20"
    unfolding s_def[symmetric] r using \<open>0 < real (s - 1)\<close> by (simp add: field_simps)
qed

lemma default_grid_properties:
  fixes n :: nat
  assumes n: "2 \<le> n div 10"
  shows "\<exists>g. default_grid n = Inr g \<and> length g = n \<and> g ! 0 = 0 \<and> last g = 1 \<and> sorted_wrt (<) g
    \<and> g ! 1 = (1 / 20) / real (n div 10 - 1)"
proof -
  define s where "s = n div 10"
  define dq where "dq = 1 / real (n - s)"
  define dx where "dx = (1 / 20) / real (s - 1)"
  define c where "c = dx / dq"
  define b where "b = - 3 * (- dq + dx + dq * (1 / 20)) / dq"
  define cub where "cub = (\<lambda>q. (- 2 * b / 3) * q ^ 3 + b * q ^ 2 + c * q + 1 / 20)"
  define A where "A = map (\<lambda>i. real i * dx) [0..<s - 1]"
  define B where "B = map (\<lambda>j. cub (real j * dq)) [0..<n - s + 1]"
  have s2: "2 \<le> s" using n by (simp add: s_def)
  have n0: "10 * s \<le> n" unfolding s_def by simp
  have ns: "0 < n - s" using n0 s2 by simp
  have dq0: "0 < dq" using ns by (simp add: dq_def)
  have dx0: "0 < dx" using s2 by (simp add: dx_def)
  have g: "default_grid n = Inr (A @ B)"
    using default_grid_eq[OF n] unfolding A_def B_def cub_def c_def b_def dx_def dq_def s_def by simp
  have c0: "0 < c" and c1: "c \<le> 27 / 20"
    using spacing_ratio_bounds[OF n] unfolding c_def dx_def dq_def s_def by simp_all
  have b: "b = 3 * (19 / 20 - c)"
    using dq0 unfolding b_def c_def by (simp add: field_simps)
  have q1: "real (n - s) * dq = 1"
    using ns by (simp add: dq_def)
  have cub0: "cub 0 = 1 / 20"
    by (simp add: cub_def)
  have cub1: "cub 1 = 1"
    by (simp add: cub_def b field_simps)
  have cub_mono: "cub (real i * dq) < cub (real j * dq)" if "i < j" "j < n - s + 1" for i j
  proof -
    have "real j * dq \<le> real (n - s) * dq"
      using that dq0 by (intro mult_right_mono) simp_all
    then have "real j * dq \<le> 1" unfolding q1 .
    moreover have "real i * dq < real j * dq" using that dq0 by simp
    moreover have "0 \<le> real i * dq" using dq0 by simp
    ultimately show ?thesis
      unfolding cub_def using cubic_increasing[OF c0 c1 b] by blast
  qed
  have lenA: "length A = s - 1" by (simp add: A_def)
  have lenB: "length B = n - s + 1" by (simp add: B_def)
  have len: "length (A @ B) = n" using s2 n0 by (simp add: lenA lenB)
  have sortedA: "sorted_wrt (<) A"
    unfolding A_def using dx0 by (intro sorted_map_upt) simp
  have sortedB: "sorted_wrt (<) B"
    unfolding B_def using cub_mono by (intro sorted_map_upt) simp
  have cub_ge: "1 / 20 \<le> cub (real j * dq)" if "j < n - s + 1" for j
  proof (cases "j = 0")
    case True then show ?thesis by (simp add: cub0)
  next
    case False
    then have "cub (real 0 * dq) < cub (real j * dq)" using that by (intro cub_mono) simp_all
    then show ?thesis by (simp add: cub0)
  qed
  have A_lt: "a < 1 / 20" if "a \<in> set A" for a
  proof -
    have "\<exists>i<s - 1. a = real i * dx" using that by (auto simp: A_def)
    then obtain i where i: "i < s - 1" "a = real i * dx" by blast
    have "real i * dx < real (s - 1) * dx" using i dx0 by simp
    also have "\<dots> = 1 / 20" using s2 by (simp add: dx_def)
    finally show ?thesis using i by simp
  qed
  have cross: "a < y" if "a \<in> set A" "y \<in> set B" for a y
  proof -
    have "y \<in> (\<lambda>j. cub (real j * dq)) ` {0..<n - s + 1}"
      using that(2) unfolding B_def by (simp only: set_map set_upt)
    then have "\<exists>j<n - s + 1. y = cub (real j * dq)" by (metis (no_types, lifting) imageE atLeastLessThan_iff)
    then obtain j where "j < n - s + 1" "y = cub (real j * dq)" by blast
    then have "1 / 20 \<le> y" using cub_ge by simp
    then show ?thesis using A_lt[OF that(1)] by linarith
  qed
  have sorted: "sorted_wrt (<) (A @ B)"
    using sortedA sortedB cross by (simp add: sorted_wrt_append)
  have A_ne: "A \<noteq> []" using s2 by (simp add: A_def)
  have first: "(A @ B) ! 0 = 0"
    using s2 by (simp add: nth_append lenA A_def)
  have B_ne: "B \<noteq> []" by (simp add: B_def)
  have "last B = cub (real (n - s) * dq)"
    by (simp add: B_def)
  then have lastv: "last (A @ B) = 1"
    using B_ne by (simp add: q1 cub1)
  have second: "(A @ B) ! 1 = dx"
  proof (cases "s = 2")
    case True
    then have "(A @ B) ! 1 = B ! 0" by (simp add: nth_append lenA)
    also have "\<dots> = 1 / 20" using ns by (simp add: B_def nth_append cub0)
    finally show ?thesis using True by (simp add: dx_def)
  next
    case False
    then have "1 < s - 1" using s2 by simp
    then show ?thesis by (simp add: nth_append lenA A_def)
  qed
  show ?thesis
    using g len first lastv sorted second unfolding dx_def s_def by blast
qed

lemma getitem_error: "getitem xs i = Inl e \<Longrightarrow> e = IndexError"
  by (simp add: getitem_def Let_def split: if_splits)

lemma default_grid_below_20:
  assumes n: "n < 20"
  shows "default_grid n = Inl IndexError"
proof (cases "n < 10")
  case True
  then have s: "n div 10 = 0" by simp
  have e: "getitem (linspace 0 0.05 0) (- 1) = Inl IndexError"
    by (simp add: getitem_def linspace_def)
  show ?thesis
    unfolding default_grid_def Let_def s e
    by (auto split: sum.splits dest: getitem_error)
next
  case False
  then have s: "n div 10 = 1" using n by simp
  have e1: "getitem (linspace 0 0.05 1) (- 1) = Inr 0"
    by (simp add: getitem_def linspace_def)
  have e2: "getitem (linspace 0 0.05 1) (- 2) = Inl IndexError"
    by (simp add: getitem_def linspace_def)
  show ?thesis
    unfolding default_grid_def Let_def s e1 e2
    by (auto split: sum.splits dest: getitem_error)
qed

subsection \<open>The loop and the dispatch of the wrapper\<close>

lemma first_spacing_ok:
  assumes "20 \<le> p"
  shows "\<exists>g x. default_grid p = Inr g \<and> getitem g 1 = Inr x"
proof -
  have "2 \<le> p div 10" using assms by simp
  from default_grid_properties[OF this]
  obtain g where g: "default_grid p = Inr g" "length g = p"
    by (elim exE conjE) (rule that)
  have "getitem g (int 1) = Inr (g ! 1)"
    using assms g(2) by (intro getitem_nth) simp
  then show ?thesis using g(1) by auto
qed

lemma extrap_loop_small:
  "pts < 20 \<Longrightarrow> extrap_loop func other_args kwargs (pts # rest) acc s = (Inl IndexError, s)"
  by (cases acc) (simp add: default_grid_below_20)

lemma extrap_loop_step:
  assumes "20 \<le> pts"
  shows "extrap_loop func other_args kwargs (pts # rest) (x_l, result_l) s =
     (case func other_args pts kwargs s of
        (Inl e, s') \<Rightarrow> (Inl e, s')
      | (Inr result, s') \<Rightarrow>
          (case default_grid pts of Inr grid \<Rightarrow> (case getitem grid 1 of Inr x \<Rightarrow>
             extrap_loop func other_args kwargs rest (x_l @ [x], result_l @ [result]) s')))"
  using first_spacing_ok[OF assms] by (auto split: prod.splits sum.splits)


lemma getitem_singleton: "getitem [r] 0 = Inr r"
  by (simp add: getitem_def)


lemma extrap_func_single:
  assumes "20 \<le> p"
  shows "extrap_func func other_args [p] kwargs s = func other_args p kwargs s"
proof -
  obtain g x where g: "default_grid p = Inr g" "getitem g 1 = Inr x"
    using first_spacing_ok[OF assms] by blast
  show ?thesis
    by (cases "func other_args p kwargs s"; cases "fst (func other_args p kwargs s)")
      (auto simp add: extrap_func_def g getitem_singleton)
qed

lemma extrap_func_single_small:
  "p < 20 \<Longrightarrow> extrap_func func other_args [p] kwargs s = (Inl IndexError, s)"
  by (simp add: extrap_func_def default_grid_below_20)


lemma extrap_loop_error_or_lists:
  "fst (extrap_loop func other_args kwargs pts_l acc s) = Inr (xs, rs) \<Longrightarrow>
     length xs = length (fst acc) + length pts_l"
proof (induction pts_l arbitrary: acc s)
  case Nil
  then show ?case by (cases acc) auto
next
  case (Cons p rest)
  then show ?case
    by (cases acc) (auto split: sum.splits prod.splits)
qed









subsection \<open>Evaluating the grid of 120 points in double precision\<close>

lemma binary_exponent_numeral:
  "binary_exponent (numeral n) x =
     (if 2 \<le> x then binary_exponent (pred_numeral n) (x / 2) + 1
      else if x < 1 then binary_exponent (pred_numeral n) (x * 2) - 1
      else 0)"
  by (simp add: numeral_eq_Suc)

lemmas f64_eval = f64_def ulp_at_def round_half_even_def binary_exponent_numeral Let_def

lemma grid120_h: "f64 0.05 = 3602879701896397 / 2 ^ 56"
  by (simp add: f64_eval)

lemma grid120_stepg: "f64 ((3602879701896397 / 2 ^ 56) / 11) = 5240552293667487 / 2 ^ 60"
  by (simp add: f64_eval)

lemma grid120_g2m: "f64 (10 * (5240552293667487 / 2 ^ 60)) = 6550690367084359 / 2 ^ 57"
  by (simp add: f64_eval)

lemma grid120_stepq: "f64 (1 / 108) = 667199944795629 / 2 ^ 56"
  by (simp add: f64_eval)










lemma grid120_s1: "f64 ((- (8270246588444013 / 2 ^ 53)) + (3101342470666505 / 2 ^ 51)) = 4135123294222007 / 2 ^ 53"
  by (simp add: f64_eval)

lemma grid120_s2: "f64 ((4135123294222007 / 2 ^ 53) + (8843431995563873 / 2 ^ 54)) = 1069604911500493 / 2 ^ 50"
  by (simp add: f64_eval)

lemma grid120_r: "f64 ((1069604911500493 / 2 ^ 50) + (3602879701896397 / 2 ^ 56)) = 4503599627370497 / 2 ^ 52"
  by (simp add: f64_eval)

lemma grid120_stepg_double: "f64 (5240552293667487 / 2 ^ 60) = 5240552293667487 / 2 ^ 60"
  by (simp add: f64_eval)

lemma grid120_stepq_double: "f64 (667199944795629 / 2 ^ 56) = 667199944795629 / 2 ^ 56"
  by (simp add: f64_eval)

lemma grid120_a_double: "f64 (- (8270246588444013 / 2 ^ 53)) = - (8270246588444013 / 2 ^ 53)"
  by (simp add: f64_eval)

lemma grid120_b_double: "f64 (3101342470666505 / 2 ^ 51) = 3101342470666505 / 2 ^ 51"
  by (simp add: f64_eval)

lemma grid120_c_double: "f64 (8843431995563873 / 2 ^ 54) = 8843431995563873 / 2 ^ 54"
  by (simp add: f64_eval)

lemma grid120_g2m_double: "f64 (6550690367084359 / 2 ^ 57) = 6550690367084359 / 2 ^ 57"
  by (simp add: f64_eval)









subsection \<open>The grid in exact arithmetic, from 20 points on\<close>



subsection \<open>The grid with 10 points\<close>

theorem default_grid_10_raises:
  "default_grid 10 = Inl IndexError"
  by (simp add: default_grid_def linspace_def getitem_def Let_def)

text \<open>
  C7, as the code has it. \<open>default_grid 10\<close> computes \<open>small_pts = 1\<close> and the boundary
  array \<open>linspace 0 0.05 1\<close>, which is the single point 0 and is also its last element;
  the read of the element before the last one then raises \<open>IndexError\<close>, and no grid is
  returned.
\<close>

theorem default_grid_10_boundary:
  "10 div 10 = (1::nat) \<and> linspace 0 0.05 (10 div 10) = [0]
     \<and> getitem (linspace 0 0.05 (10 div 10)) (- 1) = Inr 0
     \<and> getitem (linspace 0 0.05 (10 div 10)) (- 2) = Inl IndexError
     \<and> default_grid 10 = Inl IndexError"
  by (simp add: default_grid_def linspace_def getitem_def Let_def)

subsection \<open>The projection cache\<close>

lemma cached_projection_hit:
  "cache (proj_to, proj_from, hits) = Some v \<Longrightarrow>
     cached_projection nm proj_to proj_from hits cache = (v, cache)"
  by (simp add: cached_projection_def)

lemma cached_projection_stores:
  "snd (cached_projection nm proj_to proj_from hits cache) (proj_to, proj_from, hits)
     = Some (fst (cached_projection nm proj_to proj_from hits cache))"
  by (simp add: cached_projection_def Let_def split: option.splits)

text \<open>
  C8. For every key, the first call stores the vector it returns under the key, and a
  second call with the same key returns that stored vector and leaves the cache as it
  is. The second call computes nothing: it returns the same vector whatever arithmetic
  \<open>nm'\<close> it is given.
\<close>

theorem cached_projection_second_call:
  "(case cached_projection nm proj_to proj_from hits cache of
      (r1, cache1) \<Rightarrow>
        cache1 (proj_to, proj_from, hits) = Some r1 \<and>
        cached_projection nm' proj_to proj_from hits cache1 = (r1, cache1))"
  using cached_projection_stores[of nm proj_to proj_from hits cache]
  by (auto simp: cached_projection_hit split: prod.splits)

subsection \<open>One resolution\<close>

theorem single_resolution_below_20_raises:
  "make_extrap_func (\<lambda>a p k s. (Inr (\<lambda>i::unit. 1), s)) () [10] () () = (Inl IndexError, ())"
  by (simp add: make_extrap_func_def extrap_func_single_small)

text \<open>
  C9, as the code has it. With a single resolution \<open>p\<close> of at least 20, the extrapolated
  function returns what the wrapped function returns at \<open>p\<close>, unchanged, whatever the
  type of the array indices (a scalar is the array with one index): its result, or its
  error, and the state it leaves. With a resolution \<open>p'\<close> below 20 the grid spacing
  cannot be computed: \<open>IndexError\<close> is raised before the wrapped function is called.
\<close>

theorem single_resolution_identity:
  "(20 \<le> p \<longrightarrow> make_extrap_func func other_args [p] kwargs s = func other_args p kwargs s) \<and>
   (p' < 20 \<longrightarrow> make_extrap_func func other_args [p'] kwargs s = (Inl IndexError, s))"
  by (simp add: make_extrap_func_def extrap_func_single extrap_func_single_small)

theorem single_resolution_identity_witness:
  "((20::nat) \<le> 20 \<and>
      make_extrap_func (\<lambda>a p k s. (Inr (\<lambda>i::nat. real (p + i)), Suc s)) () [20] () (0::nat)
        = (Inr (\<lambda>i. real (20 + i)), Suc 0)) \<and>
   ((10::nat) < 20 \<and>
      make_extrap_func (\<lambda>a p k s. (Inr (\<lambda>i::nat. real (p + i)), Suc s)) () [10] () (0::nat)
        = (Inl IndexError, 0))"
  using single_resolution_identity[of 20 "\<lambda>a p k s. (Inr (\<lambda>i::nat. real (p + i)), Suc s)" "()" "()" "0::nat" 10]
  by simp

subsection \<open>An invalid number of resolutions\<close>




subsection \<open>The calls of the wrapped function\<close>




subsection \<open>The logarithmic wrapper\<close>





subsection \<open>The coefficients of the projection\<close>

lemma arange_length: "length (arange n) = nat n"
  by (simp add: arange_def)


lemma cached_projection_miss:
  assumes "cache (proj_to, proj_from, hits) = None"
  shows "fst (cached_projection nm proj_to proj_from hits cache) =
     (if list_ex (fisnan nm)
           (map (\<lambda>j. fdiv nm (fmul nm (fcomb nm proj_to j) (fcomb nm (proj_from - proj_to) (hits - j)))
                           (fcomb nm proj_from hits)) (arange (proj_to + 1)))
      then map (\<lambda>j. fexp nm (fsub nm (fadd nm (lncomb nm proj_to j)
                                            (lncomb nm (proj_from - proj_to) (hits - j)))
                                   (lncomb nm proj_from hits))) (arange (proj_to + 1))
      else map (\<lambda>j. fdiv nm (fmul nm (fcomb nm proj_to j) (fcomb nm (proj_from - proj_to) (hits - j)))
                           (fcomb nm proj_from hits)) (arange (proj_to + 1)))"
  using assms by (simp add: cached_projection_def Let_def o_def)

text \<open>
  C4. On a cache miss, if any entry of the directly computed vector is not-a-number,
  the vector returned has, at every index \<open>j\<close>, the exponential of the logarithm of the
  first binomial coefficient plus that of the second minus that of the third, each
  computed from the logarithm of the gamma function; it has \<open>proj_to + 1\<close> entries, and
  the call returns it: no error is raised.
\<close>

theorem nan_fallback_recomputes_whole_vector:
  "(cache (proj_to, proj_from, hits) = None \<and>
    list_ex (fisnan nm)
      (map (\<lambda>j. fdiv nm (fmul nm (fcomb nm proj_to j) (fcomb nm (proj_from - proj_to) (hits - j)))
                      (fcomb nm proj_from hits)) (arange (proj_to + 1))) \<longrightarrow>
    fst (cached_projection nm proj_to proj_from hits cache) =
      map (\<lambda>j. fexp nm (fsub nm (fadd nm (lncomb nm proj_to j)
                                        (lncomb nm (proj_from - proj_to) (hits - j)))
                               (lncomb nm proj_from hits))) (arange (proj_to + 1)) \<and>
    length (fst (cached_projection nm proj_to proj_from hits cache)) = nat (proj_to + 1)) \<and>
   lncomb nm N k =
     fsub nm (fsub nm (fgammaln nm (N + 1)) (fgammaln nm (k + 1))) (fgammaln nm (N - k + 1))"
  by (simp add: cached_projection_miss arange_length lncomb_def)

theorem nan_fallback_recomputes_whole_vector_witness:
  "(Map.empty (2::int, 2::int, 1::int) = (None :: real option list option) \<and>
    list_ex (fisnan (overflowing_numeric 1 (\<lambda>n. ln (fact (nat (n - 1))))))
      (map (\<lambda>j. fdiv (overflowing_numeric 1 (\<lambda>n. ln (fact (nat (n - 1)))))
                   (fmul (overflowing_numeric 1 (\<lambda>n. ln (fact (nat (n - 1))))) (fcomb (overflowing_numeric 1 (\<lambda>n. ln (fact (nat (n - 1))))) 2 j)
                      (fcomb (overflowing_numeric 1 (\<lambda>n. ln (fact (nat (n - 1))))) (2 - 2) (1 - j)))
                   (fcomb (overflowing_numeric 1 (\<lambda>n. ln (fact (nat (n - 1))))) 2 1)) (arange (2 + 1)))) \<and>
   fst (cached_projection (overflowing_numeric 1 (\<lambda>n. ln (fact (nat (n - 1))))) 2 2 1 Map.empty) =
      map (\<lambda>j. fexp (overflowing_numeric 1 (\<lambda>n. ln (fact (nat (n - 1)))))
                  (fsub (overflowing_numeric 1 (\<lambda>n. ln (fact (nat (n - 1)))))
                     (fadd (overflowing_numeric 1 (\<lambda>n. ln (fact (nat (n - 1))))) (lncomb (overflowing_numeric 1 (\<lambda>n. ln (fact (nat (n - 1))))) 2 j)
                        (lncomb (overflowing_numeric 1 (\<lambda>n. ln (fact (nat (n - 1))))) (2 - 2) (1 - j)))
                     (lncomb (overflowing_numeric 1 (\<lambda>n. ln (fact (nat (n - 1))))) 2 1))) (arange (2 + 1))"
proof -
  have h: "Map.empty (2::int, 2::int, 1::int) = (None :: real option list option) \<and>
    list_ex (fisnan (overflowing_numeric 1 (\<lambda>n. ln (fact (nat (n - 1))))))
      (map (\<lambda>j. fdiv (overflowing_numeric 1 (\<lambda>n. ln (fact (nat (n - 1)))))
                   (fmul (overflowing_numeric 1 (\<lambda>n. ln (fact (nat (n - 1))))) (fcomb (overflowing_numeric 1 (\<lambda>n. ln (fact (nat (n - 1))))) 2 j)
                      (fcomb (overflowing_numeric 1 (\<lambda>n. ln (fact (nat (n - 1))))) (2 - 2) (1 - j)))
                   (fcomb (overflowing_numeric 1 (\<lambda>n. ln (fact (nat (n - 1))))) 2 1)) (arange (2 + 1)))"
    by (simp add: overflowing_numeric_def arange_def numeral_eq_Suc)
  show ?thesis
    using h nan_fallback_recomputes_whole_vector[of Map.empty 2 2 1 "overflowing_numeric 1 (\<lambda>n. ln (fact (nat (n - 1))))"]
    by blast
qed






subsection \<open>The extrapolators on polynomials\<close>

declare linear_extrap.simps [simp del] quadratic_extrap.simps [simp del]
  cubic_extrap.simps [simp del] quartic_extrap.simps [simp del] quintic_extrap.simps [simp del]

lemma polyval_zeros: "polyval (replicate n 0) x = 0"
  by (induction n) simp_all

lemma polyval_pad: "polyval (cs @ replicate n 0) x = polyval cs x"
  by (induction cs) (simp_all add: polyval_zeros)

lemma polyval_at_0: "polyval cs 0 = (case cs of [] \<Rightarrow> 0 | c # _ \<Rightarrow> c)"
  by (cases cs) simp_all

lemma quadratic_extrap_coeffs:
  fixes c0 c1 c2 x1 x2 x3 :: real
  assumes "distinct [x1, x2, x3]"
  shows "quadratic_extrap (polyval [c0, c1, c2] x1, polyval [c0, c1, c2] x2, polyval [c0, c1, c2] x3)
     (x1, x2, x3) = c0"
proof -
  define D where "D = (x1 - x2) * (x1 - x3) * (x2 - x3)"
  have nz: "x1 - x2 \<noteq> 0" "x1 - x3 \<noteq> 0" "x2 - x3 \<noteq> 0" "x2 - x1 \<noteq> 0" "x3 - x1 \<noteq> 0" "x3 - x2 \<noteq> 0"
    using assms by auto
  have D: "D \<noteq> 0" using nz by (simp add: D_def)
  have t1: "x2 * x3 / ((x1 - x2) * (x1 - x3)) = x2 * x3 * (x2 - x3) / D"
  proof (rule iffD2[OF frac_eq_eq])
    show "(x1 - x2) * (x1 - x3) \<noteq> 0" using nz by simp
    show "D \<noteq> 0" by (rule D)
    show "x2 * x3 * D = x2 * x3 * (x2 - x3) * ((x1 - x2) * (x1 - x3))"
      unfolding D_def by algebra
  qed
  have t2: "x1 * x3 / ((x2 - x1) * (x2 - x3)) = - (x1 * x3 * (x1 - x3)) / D"
  proof (rule iffD2[OF frac_eq_eq])
    show "(x2 - x1) * (x2 - x3) \<noteq> 0" using nz by simp
    show "D \<noteq> 0" by (rule D)
    show "x1 * x3 * D = - (x1 * x3 * (x1 - x3)) * ((x2 - x1) * (x2 - x3))"
      unfolding D_def by algebra
  qed
  have t3: "x1 * x2 / ((x3 - x1) * (x3 - x2)) = x1 * x2 * (x1 - x2) / D"
  proof (rule iffD2[OF frac_eq_eq])
    show "(x3 - x1) * (x3 - x2) \<noteq> 0" using nz by simp
    show "D \<noteq> 0" by (rule D)
    show "x1 * x2 * D = x1 * x2 * (x1 - x2) * ((x3 - x1) * (x3 - x2))"
      unfolding D_def by algebra
  qed
  have "quadratic_extrap (polyval [c0, c1, c2] x1, polyval [c0, c1, c2] x2, polyval [c0, c1, c2] x3)
     (x1, x2, x3) =
     (x2 * x3 * (x2 - x3) * polyval [c0, c1, c2] x1 - x1 * x3 * (x1 - x3) * polyval [c0, c1, c2] x2
        + x1 * x2 * (x1 - x2) * polyval [c0, c1, c2] x3) / D"
    unfolding quadratic_extrap.simps t1 t2 t3
    by (simp add: add_divide_distrib diff_divide_distrib)
  also have "x2 * x3 * (x2 - x3) * polyval [c0, c1, c2] x1 - x1 * x3 * (x1 - x3) * polyval [c0, c1, c2] x2
        + x1 * x2 * (x1 - x2) * polyval [c0, c1, c2] x3 = c0 * D"
    unfolding D_def by (simp add: algebra_simps)
  finally show ?thesis using D by simp
qed

lemma linear_extrap_coeffs:
  fixes c0 c1 x1 x2 :: real
  assumes "distinct [x1, x2]"
  shows "linear_extrap (polyval [c0, c1] x1, polyval [c0, c1] x2) (x1, x2) = c0"
proof -
  have nz: "x2 - x1 \<noteq> 0"
    using assms by simp
  have "x2 * polyval [c0, c1] x1 - x1 * polyval [c0, c1] x2 = c0 * (x2 - x1)"
    by (simp add: algebra_simps)
  then show ?thesis
    unfolding linear_extrap.simps using nz by simp
qed

lemma cubic_extrap_numer:
  fixes x1 x2 x3 x4 y1 y2 y3 y4 :: real
  shows "x1 * (x1 - x3) * x3 * (x1 - x4) * (x3 - x4) * x4 * y2 + x2 * x4 ^ 2 * ((- (x3 ^ 3 * y1)) +
     x3 ^ 2 * x4 * y1 + x1 ^ 2 * (x1 - x4) * y3) + x1 ^ 2 * x2 * x3 ^ 2 * ((- x1) + x3) * y4 + x2
     ^ 3 * (x4 * ((- (x3 ^ 2 * y1)) + x3 * x4 * y1 + x1 * (x1 - x4) * y3) + x1 * x3 * ((- x1) +
     x3) * y4) + x2 ^ 2 * (x1 * x4 * ((- (x1 ^ 2)) + x4 ^ 2) * y3 + x3 ^ 3 * (x4 * y1 - x1 * y4)
     + x3 * ((- (x4 ^ 3 * y1)) + x1 ^ 3 * y4)) =
     (y1 * (- x2 * x3 * x4 * ((x2 - x3) * (x2 - x4) * (x3 - x4))) + y2 * (x1 * x3 * x4 * ((x1 -
     x3) * (x1 - x4) * (x3 - x4))) + y3 * (- x1 * x2 * x4 * ((x1 - x2) * (x1 - x4) * (x2 - x4)))
     + y4 * (x1 * x2 * x3 * ((x1 - x2) * (x1 - x3) * (x2 - x3))))"
  by algebra

lemma cubic_extrap_denom:
  fixes x1 x2 x3 x4 :: real
  shows "(x1 - x2) * (x1 - x3) * (x2 - x3) * (x1 - x4) * (x2 - x4) * (x3 - x4) =
     ((x1 - x2) * (x1 - x3) * (x1 - x4) * (x2 - x3) * (x2 - x4) * (x3 - x4))"
  by algebra

lemma cubic_extrap_basis0:
  fixes x1 x2 x3 x4 :: real
  shows "(- x2 * x3 * x4 * ((x2 - x3) * (x2 - x4) * (x3 - x4))) + (x1 * x3 * x4 * ((x1 - x3) * (x1 -
     x4) * (x3 - x4))) + (- x1 * x2 * x4 * ((x1 - x2) * (x1 - x4) * (x2 - x4))) + (x1 * x2 * x3 *
     ((x1 - x2) * (x1 - x3) * (x2 - x3))) =
     (x1 - x2) * (x1 - x3) * (x1 - x4) * (x2 - x3) * (x2 - x4) * (x3 - x4)"
  by algebra

lemma cubic_extrap_basis1:
  fixes x1 x2 x3 x4 :: real
  shows "x1 * (- x2 * x3 * x4 * ((x2 - x3) * (x2 - x4) * (x3 - x4))) + x2 * (x1 * x3 * x4 * ((x1 -
     x3) * (x1 - x4) * (x3 - x4))) + x3 * (- x1 * x2 * x4 * ((x1 - x2) * (x1 - x4) * (x2 - x4)))
     + x4 * (x1 * x2 * x3 * ((x1 - x2) * (x1 - x3) * (x2 - x3))) =
     0"
  by algebra

lemma cubic_extrap_basis2:
  fixes x1 x2 x3 x4 :: real
  shows "x1 ^ 2 * (- x2 * x3 * x4 * ((x2 - x3) * (x2 - x4) * (x3 - x4))) + x2 ^ 2 * (x1 * x3 * x4 *
     ((x1 - x3) * (x1 - x4) * (x3 - x4))) + x3 ^ 2 * (- x1 * x2 * x4 * ((x1 - x2) * (x1 - x4) *
     (x2 - x4))) + x4 ^ 2 * (x1 * x2 * x3 * ((x1 - x2) * (x1 - x3) * (x2 - x3))) =
     0"
  by algebra

lemma cubic_extrap_basis3:
  fixes x1 x2 x3 x4 :: real
  shows "x1 ^ 3 * (- x2 * x3 * x4 * ((x2 - x3) * (x2 - x4) * (x3 - x4))) + x2 ^ 3 * (x1 * x3 * x4 *
     ((x1 - x3) * (x1 - x4) * (x3 - x4))) + x3 ^ 3 * (- x1 * x2 * x4 * ((x1 - x2) * (x1 - x4) *
     (x2 - x4))) + x4 ^ 3 * (x1 * x2 * x3 * ((x1 - x2) * (x1 - x3) * (x2 - x3))) =
     0"
  by algebra

lemma cubic_extrap_lincomb:
  fixes c0 c1 c2 c3 x1 x2 x3 x4 A1 A2 A3 A4 :: real
  shows "polyval [c0, c1, c2, c3] x1 * A1 + polyval [c0, c1, c2, c3] x2 * A2 + polyval [c0, c1, c2,
     c3] x3 * A3 + polyval [c0, c1, c2, c3] x4 * A4 =
     c0 * (A1 + A2 + A3 + A4) + c1 * (x1 * A1 + x2 * A2 + x3 * A3 + x4 * A4) + c2 * (x1 ^ 2 * A1
     + x2 ^ 2 * A2 + x3 ^ 2 * A3 + x4 ^ 2 * A4) + c3 * (x1 ^ 3 * A1 + x2 ^ 3 * A2 + x3 ^ 3 * A3 +
     x4 ^ 3 * A4)"
  by (simp add: algebra_simps power2_eq_square power3_eq_cube power4_eq_xxxx numeral_eq_Suc)

lemma cubic_extrap_coeffs:
  fixes c0 c1 c2 c3 x1 x2 x3 x4 :: real
  assumes "distinct [x1, x2, x3, x4]"
  shows "cubic_extrap (polyval [c0, c1, c2, c3] x1, polyval [c0, c1, c2, c3] x2, polyval [c0, c1, c2, c3] x3,
     polyval [c0, c1, c2, c3] x4)
     (x1, x2, x3, x4) = c0"
proof -
  have nz: "(x1 - x2) * (x1 - x3) * (x1 - x4) * (x2 - x3) * (x2 - x4) * (x3 - x4) \<noteq> 0"
    using assms by simp
  show ?thesis
    unfolding cubic_extrap.simps cubic_extrap_numer cubic_extrap_denom cubic_extrap_lincomb
      cubic_extrap_basis0 cubic_extrap_basis1 cubic_extrap_basis2 cubic_extrap_basis3
    using nz by simp
qed

lemma quartic_extrap_numer:
  fixes x1 x2 x3 x4 x5 y1 y2 y3 y4 y5 :: real
  shows "(- (x1 * (x1 - x3) * x3 * (x1 - x4) * (x3 - x4) * x4 * (x1 - x5) * (x3 - x5) * (x4 - x5) *
     x5 * y2)) + x2 ^ 4 * ((- (x1 * (x1 - x4) * x4 * (x1 - x5) * (x4 - x5) * x5 * y3)) + x3 ^ 3 *
     (x1 * x5 * ((- x1) + x5) * y4 + x4 ^ 2 * (x5 * y1 - x1 * y5) + x4 * ((- (x5 ^ 2 * y1)) + x1
     ^ 2 * y5)) + x3 ^ 2 * (x1 * x5 * (x1 ^ 2 - x5 ^ 2) * y4 + x4 ^ 3 * ((- (x5 * y1)) + x1 * y5)
     + x4 * (x5 ^ 3 * y1 - x1 ^ 3 * y5)) + x3 * (x1 ^ 2 * x5 ^ 2 * ((- x1) + x5) * y4 + x4 ^ 3 *
     (x5 ^ 2 * y1 - x1 ^ 2 * y5) + x4 ^ 2 * ((- (x5 ^ 3 * y1)) + x1 ^ 3 * y5))) + x2 ^ 3 * (x1 *
     x4 * x5 * (x1 ^ 3 * (x4 - x5) + x4 * x5 * (x4 ^ 2 - x5 ^ 2) + x1 * ((- (x4 ^ 3)) + x5 ^ 3))
     * y3 + x3 ^ 4 * (x1 * (x1 - x5) * x5 * y4 + x4 ^ 2 * ((- (x5 * y1)) + x1 * y5) + x4 * (x5 ^
     2 * y1 - x1 ^ 2 * y5)) + x3 * (x1 ^ 2 * x5 ^ 2 * (x1 ^ 2 - x5 ^ 2) * y4 + x4 ^ 4 * ((- (x5 ^
     2 * y1)) + x1 ^ 2 * y5) + x4 ^ 2 * (x5 ^ 4 * y1 - x1 ^ 4 * y5)) + x3 ^ 2 * (x1 * x5 * ((-
     (x1 ^ 3)) + x5 ^ 3) * y4 + x4 ^ 4 * (x5 * y1 - x1 * y5) + x4 * ((- (x5 ^ 4 * y1)) + x1 ^ 4 *
     y5))) + x2 * (x1 ^ 2 * (x1 - x4) * x4 ^ 2 * (x1 - x5) * (x4 - x5) * x5 ^ 2 * y3 + x3 ^ 4 *
     (x1 ^ 2 * (x1 - x5) * x5 ^ 2 * y4 + x4 ^ 3 * ((- (x5 ^ 2 * y1)) + x1 ^ 2 * y5) + x4 ^ 2 *
     (x5 ^ 3 * y1 - x1 ^ 3 * y5)) + x3 ^ 2 * (x1 ^ 3 * (x1 - x5) * x5 ^ 3 * y4 + x4 ^ 4 * ((- (x5
     ^ 3 * y1)) + x1 ^ 3 * y5) + x4 ^ 3 * (x5 ^ 4 * y1 - x1 ^ 4 * y5)) + x3 ^ 3 * (x1 ^ 2 * x5 ^
     2 * ((- (x1 ^ 2)) + x5 ^ 2) * y4 + x4 ^ 4 * (x5 ^ 2 * y1 - x1 ^ 2 * y5) + x4 ^ 2 * ((- (x5 ^
     4 * y1)) + x1 ^ 4 * y5))) + x2 ^ 2 * (x1 * x4 * x5 * (x4 ^ 2 * x5 ^ 2 * ((- x4) + x5) + x1 ^
     3 * ((- (x4 ^ 2)) + x5 ^ 2) + x1 ^ 2 * (x4 ^ 3 - x5 ^ 3)) * y3 + x3 ^ 4 * (x1 * x5 * ((- (x1
     ^ 2)) + x5 ^ 2) * y4 + x4 ^ 3 * (x5 * y1 - x1 * y5) + x4 * ((- (x5 ^ 3 * y1)) + x1 ^ 3 *
     y5)) + x3 ^ 3 * (x1 * x5 * (x1 ^ 3 - x5 ^ 3) * y4 + x4 ^ 4 * ((- (x5 * y1)) + x1 * y5) + x4
     * (x5 ^ 4 * y1 - x1 ^ 4 * y5)) + x3 * (x1 ^ 3 * x5 ^ 3 * ((- x1) + x5) * y4 + x4 ^ 4 * (x5 ^
     3 * y1 - x1 ^ 3 * y5) + x4 ^ 3 * ((- (x5 ^ 4 * y1)) + x1 ^ 4 * y5))) =
     (y1 * (x2 * x3 * x4 * x5 * ((x2 - x3) * (x2 - x4) * (x2 - x5) * (x3 - x4) * (x3 - x5) * (x4 -
     x5))) + y2 * (- x1 * x3 * x4 * x5 * ((x1 - x3) * (x1 - x4) * (x1 - x5) * (x3 - x4) * (x3 -
     x5) * (x4 - x5))) + y3 * (x1 * x2 * x4 * x5 * ((x1 - x2) * (x1 - x4) * (x1 - x5) * (x2 - x4)
     * (x2 - x5) * (x4 - x5))) + y4 * (- x1 * x2 * x3 * x5 * ((x1 - x2) * (x1 - x3) * (x1 - x5) *
     (x2 - x3) * (x2 - x5) * (x3 - x5))) + y5 * (x1 * x2 * x3 * x4 * ((x1 - x2) * (x1 - x3) * (x1
     - x4) * (x2 - x3) * (x2 - x4) * (x3 - x4))))"
  by algebra

lemma quartic_extrap_denom:
  fixes x1 x2 x3 x4 x5 :: real
  shows "(x1 - x2) * (x1 - x3) * (x2 - x3) * (x1 - x4) * (x2 - x4) * (x3 - x4) * (x1 - x5) * (x2 -
     x5) * (x3 - x5) * (x4 - x5) =
     ((x1 - x2) * (x1 - x3) * (x1 - x4) * (x1 - x5) * (x2 - x3) * (x2 - x4) * (x2 - x5) * (x3 -
     x4) * (x3 - x5) * (x4 - x5))"
  by algebra

lemma quartic_extrap_basis0:
  fixes x1 x2 x3 x4 x5 :: real
  shows "(x2 * x3 * x4 * x5 * ((x2 - x3) * (x2 - x4) * (x2 - x5) * (x3 - x4) * (x3 - x5) * (x4 -
     x5))) + (- x1 * x3 * x4 * x5 * ((x1 - x3) * (x1 - x4) * (x1 - x5) * (x3 - x4) * (x3 - x5) *
     (x4 - x5))) + (x1 * x2 * x4 * x5 * ((x1 - x2) * (x1 - x4) * (x1 - x5) * (x2 - x4) * (x2 -
     x5) * (x4 - x5))) + (- x1 * x2 * x3 * x5 * ((x1 - x2) * (x1 - x3) * (x1 - x5) * (x2 - x3) *
     (x2 - x5) * (x3 - x5))) + (x1 * x2 * x3 * x4 * ((x1 - x2) * (x1 - x3) * (x1 - x4) * (x2 -
     x3) * (x2 - x4) * (x3 - x4))) =
     (x1 - x2) * (x1 - x3) * (x1 - x4) * (x1 - x5) * (x2 - x3) * (x2 - x4) * (x2 - x5) * (x3 -
     x4) * (x3 - x5) * (x4 - x5)"
  by algebra

lemma quartic_extrap_basis1:
  fixes x1 x2 x3 x4 x5 :: real
  shows "x1 * (x2 * x3 * x4 * x5 * ((x2 - x3) * (x2 - x4) * (x2 - x5) * (x3 - x4) * (x3 - x5) * (x4 -
     x5))) + x2 * (- x1 * x3 * x4 * x5 * ((x1 - x3) * (x1 - x4) * (x1 - x5) * (x3 - x4) * (x3 -
     x5) * (x4 - x5))) + x3 * (x1 * x2 * x4 * x5 * ((x1 - x2) * (x1 - x4) * (x1 - x5) * (x2 - x4)
     * (x2 - x5) * (x4 - x5))) + x4 * (- x1 * x2 * x3 * x5 * ((x1 - x2) * (x1 - x3) * (x1 - x5) *
     (x2 - x3) * (x2 - x5) * (x3 - x5))) + x5 * (x1 * x2 * x3 * x4 * ((x1 - x2) * (x1 - x3) * (x1
     - x4) * (x2 - x3) * (x2 - x4) * (x3 - x4))) =
     0"
  by algebra

lemma quartic_extrap_basis2:
  fixes x1 x2 x3 x4 x5 :: real
  shows "x1 ^ 2 * (x2 * x3 * x4 * x5 * ((x2 - x3) * (x2 - x4) * (x2 - x5) * (x3 - x4) * (x3 - x5) *
     (x4 - x5))) + x2 ^ 2 * (- x1 * x3 * x4 * x5 * ((x1 - x3) * (x1 - x4) * (x1 - x5) * (x3 - x4)
     * (x3 - x5) * (x4 - x5))) + x3 ^ 2 * (x1 * x2 * x4 * x5 * ((x1 - x2) * (x1 - x4) * (x1 - x5)
     * (x2 - x4) * (x2 - x5) * (x4 - x5))) + x4 ^ 2 * (- x1 * x2 * x3 * x5 * ((x1 - x2) * (x1 -
     x3) * (x1 - x5) * (x2 - x3) * (x2 - x5) * (x3 - x5))) + x5 ^ 2 * (x1 * x2 * x3 * x4 * ((x1 -
     x2) * (x1 - x3) * (x1 - x4) * (x2 - x3) * (x2 - x4) * (x3 - x4))) =
     0"
  by algebra

lemma quartic_extrap_basis3:
  fixes x1 x2 x3 x4 x5 :: real
  shows "x1 ^ 3 * (x2 * x3 * x4 * x5 * ((x2 - x3) * (x2 - x4) * (x2 - x5) * (x3 - x4) * (x3 - x5) *
     (x4 - x5))) + x2 ^ 3 * (- x1 * x3 * x4 * x5 * ((x1 - x3) * (x1 - x4) * (x1 - x5) * (x3 - x4)
     * (x3 - x5) * (x4 - x5))) + x3 ^ 3 * (x1 * x2 * x4 * x5 * ((x1 - x2) * (x1 - x4) * (x1 - x5)
     * (x2 - x4) * (x2 - x5) * (x4 - x5))) + x4 ^ 3 * (- x1 * x2 * x3 * x5 * ((x1 - x2) * (x1 -
     x3) * (x1 - x5) * (x2 - x3) * (x2 - x5) * (x3 - x5))) + x5 ^ 3 * (x1 * x2 * x3 * x4 * ((x1 -
     x2) * (x1 - x3) * (x1 - x4) * (x2 - x3) * (x2 - x4) * (x3 - x4))) =
     0"
  by algebra

lemma quartic_extrap_basis4:
  fixes x1 x2 x3 x4 x5 :: real
  shows "x1 ^ 4 * (x2 * x3 * x4 * x5 * ((x2 - x3) * (x2 - x4) * (x2 - x5) * (x3 - x4) * (x3 - x5) *
     (x4 - x5))) + x2 ^ 4 * (- x1 * x3 * x4 * x5 * ((x1 - x3) * (x1 - x4) * (x1 - x5) * (x3 - x4)
     * (x3 - x5) * (x4 - x5))) + x3 ^ 4 * (x1 * x2 * x4 * x5 * ((x1 - x2) * (x1 - x4) * (x1 - x5)
     * (x2 - x4) * (x2 - x5) * (x4 - x5))) + x4 ^ 4 * (- x1 * x2 * x3 * x5 * ((x1 - x2) * (x1 -
     x3) * (x1 - x5) * (x2 - x3) * (x2 - x5) * (x3 - x5))) + x5 ^ 4 * (x1 * x2 * x3 * x4 * ((x1 -
     x2) * (x1 - x3) * (x1 - x4) * (x2 - x3) * (x2 - x4) * (x3 - x4))) =
     0"
  by algebra

lemma quartic_extrap_lincomb:
  fixes c0 c1 c2 c3 c4 x1 x2 x3 x4 x5 A1 A2 A3 A4 A5 :: real
  shows "polyval [c0, c1, c2, c3, c4] x1 * A1 + polyval [c0, c1, c2, c3, c4] x2 * A2 + polyval [c0,
     c1, c2, c3, c4] x3 * A3 + polyval [c0, c1, c2, c3, c4] x4 * A4 + polyval [c0, c1, c2, c3,
     c4] x5 * A5 =
     c0 * (A1 + A2 + A3 + A4 + A5) + c1 * (x1 * A1 + x2 * A2 + x3 * A3 + x4 * A4 + x5 * A5) + c2
     * (x1 ^ 2 * A1 + x2 ^ 2 * A2 + x3 ^ 2 * A3 + x4 ^ 2 * A4 + x5 ^ 2 * A5) + c3 * (x1 ^ 3 * A1
     + x2 ^ 3 * A2 + x3 ^ 3 * A3 + x4 ^ 3 * A4 + x5 ^ 3 * A5) + c4 * (x1 ^ 4 * A1 + x2 ^ 4 * A2 +
     x3 ^ 4 * A3 + x4 ^ 4 * A4 + x5 ^ 4 * A5)"
  by (simp add: algebra_simps power2_eq_square power3_eq_cube power4_eq_xxxx numeral_eq_Suc)

lemma quartic_extrap_coeffs:
  fixes c0 c1 c2 c3 c4 x1 x2 x3 x4 x5 :: real
  assumes "distinct [x1, x2, x3, x4, x5]"
  shows "quartic_extrap (polyval [c0, c1, c2, c3, c4] x1, polyval [c0, c1, c2, c3, c4] x2, polyval [c0, c1, c2, c3,
     c4] x3, polyval [c0, c1, c2, c3, c4] x4, polyval [c0, c1, c2, c3, c4] x5)
     (x1, x2, x3, x4, x5) = c0"
proof -
  have nz: "(x1 - x2) * (x1 - x3) * (x1 - x4) * (x1 - x5) * (x2 - x3) * (x2 - x4) * (x2 - x5) * (x3 -
     x4) * (x3 - x5) * (x4 - x5) \<noteq> 0"
    using assms by simp
  show ?thesis
    unfolding quartic_extrap.simps quartic_extrap_numer quartic_extrap_denom quartic_extrap_lincomb
      quartic_extrap_basis0 quartic_extrap_basis1 quartic_extrap_basis2 quartic_extrap_basis3 quartic_extrap_basis4
    using nz by simp
qed

lemma lagrange_at_zero_2:
  "lagrange_at_zero [x1, x2] [y1, y2] =
     y1 * ((0 - x2) / (x1 - x2)) + y2 * ((0 - x1) / (x2 - x1))"
  by (simp add: lagrange_at_zero_def lagrange_weight_def upt_rec)

lemma lagrange_at_zero_3:
  "lagrange_at_zero [x1, x2, x3] [y1, y2, y3] =
     y1 * ((0 - x2) / (x1 - x2) * ((0 - x3) / (x1 - x3)))
     + (y2 * ((0 - x1) / (x2 - x1) * ((0 - x3) / (x2 - x3)))
     + y3 * ((0 - x1) / (x3 - x1) * ((0 - x2) / (x3 - x2))))"
  by (simp add: lagrange_at_zero_def lagrange_weight_def upt_rec)

lemma linear_extrap_lagrange:
  assumes "distinct [x1, x2]"
  shows "linear_extrap (y1, y2) (x1, x2) = lagrange_at_zero [x1, x2] [y1, y2]"
proof -
  have nz: "x1 - x2 \<noteq> 0" "x2 - x1 \<noteq> 0" using assms by auto
  have a: "(0 - x2) / (x1 - x2) = x2 / (x2 - x1)"
  proof (rule iffD2[OF frac_eq_eq])
    show "x1 - x2 \<noteq> 0" "x2 - x1 \<noteq> 0" using nz by simp_all
    show "(0 - x2) * (x2 - x1) = x2 * (x1 - x2)" by algebra
  qed
  show ?thesis
    unfolding linear_extrap.simps lagrange_at_zero_2 a
    by (simp add: diff_divide_distrib mult.commute)
qed

lemma quadratic_extrap_lagrange:
  assumes "distinct [x1, x2, x3]"
  shows "quadratic_extrap (y1, y2, y3) (x1, x2, x3) = lagrange_at_zero [x1, x2, x3] [y1, y2, y3]"
  unfolding quadratic_extrap.simps lagrange_at_zero_3 by (simp add: mult.commute)

lemma quintic_extrap_numer:
  fixes x1 x2 x3 x4 x5 x6 y1 y2 y3 y4 y5 y6 :: real
  shows "(- (x1 * (x1 - x3) * x3 * (x1 - x4) * (x3 - x4) * x4 * (x1 - x5) * (x3 - x5) * (x4 - x5) *
     x5 * (x1 - x6) * (x3 - x6) * (x4 - x6) * (x5 - x6) * x6 * y2)) + x2 ^ 5 * ((- (x1 * (x1 -
     x4) * x4 * (x1 - x5) * (x4 - x5) * x5 * (x1 - x6) * (x4 - x6) * (x5 - x6) * x6 * y3)) + x3 ^
     4 * ((- (x1 * (x1 - x5) * x5 * (x1 - x6) * (x5 - x6) * x6 * y4)) + x4 ^ 3 * (x1 * x6 * ((-
     x1) + x6) * y5 + x5 ^ 2 * (x6 * y1 - x1 * y6) + x5 * ((- (x6 ^ 2 * y1)) + x1 ^ 2 * y6)) + x4
     ^ 2 * (x1 * x6 * (x1 ^ 2 - x6 ^ 2) * y5 + x5 ^ 3 * ((- (x6 * y1)) + x1 * y6) + x5 * (x6 ^ 3
     * y1 - x1 ^ 3 * y6)) + x4 * (x1 ^ 2 * x6 ^ 2 * ((- x1) + x6) * y5 + x5 ^ 3 * (x6 ^ 2 * y1 -
     x1 ^ 2 * y6) + x5 ^ 2 * ((- (x6 ^ 3 * y1)) + x1 ^ 3 * y6))) + x3 ^ 3 * (x1 * x5 * x6 * (x1 ^
     3 * (x5 - x6) + x5 * x6 * (x5 ^ 2 - x6 ^ 2) + x1 * ((- (x5 ^ 3)) + x6 ^ 3)) * y4 + x4 ^ 4 *
     (x1 * (x1 - x6) * x6 * y5 + x5 ^ 2 * ((- (x6 * y1)) + x1 * y6) + x5 * (x6 ^ 2 * y1 - x1 ^ 2
     * y6)) + x4 * (x1 ^ 2 * x6 ^ 2 * (x1 ^ 2 - x6 ^ 2) * y5 + x5 ^ 4 * ((- (x6 ^ 2 * y1)) + x1 ^
     2 * y6) + x5 ^ 2 * (x6 ^ 4 * y1 - x1 ^ 4 * y6)) + x4 ^ 2 * (x1 * x6 * ((- (x1 ^ 3)) + x6 ^
     3) * y5 + x5 ^ 4 * (x6 * y1 - x1 * y6) + x5 * ((- (x6 ^ 4 * y1)) + x1 ^ 4 * y6))) + x3 * (x1
     ^ 2 * (x1 - x5) * x5 ^ 2 * (x1 - x6) * (x5 - x6) * x6 ^ 2 * y4 + x4 ^ 4 * (x1 ^ 2 * (x1 -
     x6) * x6 ^ 2 * y5 + x5 ^ 3 * ((- (x6 ^ 2 * y1)) + x1 ^ 2 * y6) + x5 ^ 2 * (x6 ^ 3 * y1 - x1
     ^ 3 * y6)) + x4 ^ 2 * (x1 ^ 3 * (x1 - x6) * x6 ^ 3 * y5 + x5 ^ 4 * ((- (x6 ^ 3 * y1)) + x1 ^
     3 * y6) + x5 ^ 3 * (x6 ^ 4 * y1 - x1 ^ 4 * y6)) + x4 ^ 3 * (x1 ^ 2 * x6 ^ 2 * ((- (x1 ^ 2))
     + x6 ^ 2) * y5 + x5 ^ 4 * (x6 ^ 2 * y1 - x1 ^ 2 * y6) + x5 ^ 2 * ((- (x6 ^ 4 * y1)) + x1 ^ 4
     * y6))) + x3 ^ 2 * (x1 * x5 * x6 * (x5 ^ 2 * x6 ^ 2 * ((- x5) + x6) + x1 ^ 3 * ((- (x5 ^ 2))
     + x6 ^ 2) + x1 ^ 2 * (x5 ^ 3 - x6 ^ 3)) * y4 + x4 ^ 4 * (x1 * x6 * ((- (x1 ^ 2)) + x6 ^ 2) *
     y5 + x5 ^ 3 * (x6 * y1 - x1 * y6) + x5 * ((- (x6 ^ 3 * y1)) + x1 ^ 3 * y6)) + x4 ^ 3 * (x1 *
     x6 * (x1 ^ 3 - x6 ^ 3) * y5 + x5 ^ 4 * ((- (x6 * y1)) + x1 * y6) + x5 * (x6 ^ 4 * y1 - x1 ^
     4 * y6)) + x4 * (x1 ^ 3 * x6 ^ 3 * ((- x1) + x6) * y5 + x5 ^ 4 * (x6 ^ 3 * y1 - x1 ^ 3 * y6)
     + x5 ^ 3 * ((- (x6 ^ 4 * y1)) + x1 ^ 4 * y6)))) + x2 ^ 4 * (x1 * (x1 - x4) * x4 * (x1 - x5)
     * (x4 - x5) * x5 * (x1 - x6) * (x4 - x6) * (x5 - x6) * x6 * (x1 + x4 + x5 + x6) * y3 + x3 ^
     5 * (x1 * (x1 - x5) * x5 * (x1 - x6) * (x5 - x6) * x6 * y4 + x4 ^ 3 * (x1 * (x1 - x6) * x6 *
     y5 + x5 ^ 2 * ((- (x6 * y1)) + x1 * y6) + x5 * (x6 ^ 2 * y1 - x1 ^ 2 * y6)) + x4 * (x1 ^ 2 *
     (x1 - x6) * x6 ^ 2 * y5 + x5 ^ 3 * ((- (x6 ^ 2 * y1)) + x1 ^ 2 * y6) + x5 ^ 2 * (x6 ^ 3 * y1
     - x1 ^ 3 * y6)) + x4 ^ 2 * (x1 * x6 * ((- (x1 ^ 2)) + x6 ^ 2) * y5 + x5 ^ 3 * (x6 * y1 - x1
     * y6) + x5 * ((- (x6 ^ 3 * y1)) + x1 ^ 3 * y6))) + x3 ^ 2 * (x1 * x5 * (x1 ^ 2 - x5 ^ 2) *
     x6 * (x1 ^ 2 - x6 ^ 2) * (x5 ^ 2 - x6 ^ 2) * y4 + x4 ^ 5 * (x1 * x6 * (x1 ^ 2 - x6 ^ 2) * y5
     + x5 ^ 3 * ((- (x6 * y1)) + x1 * y6) + x5 * (x6 ^ 3 * y1 - x1 ^ 3 * y6)) + x4 * (x1 ^ 3 * x6
     ^ 3 * (x1 ^ 2 - x6 ^ 2) * y5 + x5 ^ 5 * ((- (x6 ^ 3 * y1)) + x1 ^ 3 * y6) + x5 ^ 3 * (x6 ^ 5
     * y1 - x1 ^ 5 * y6)) + x4 ^ 3 * (x1 * x6 * ((- (x1 ^ 4)) + x6 ^ 4) * y5 + x5 ^ 5 * (x6 * y1
     - x1 * y6) + x5 * ((- (x6 ^ 5 * y1)) + x1 ^ 5 * y6))) + x3 ^ 3 * (x1 * x5 * x6 * ((- (x5 ^ 4
     * x6)) + x5 * x6 ^ 4 + x1 ^ 4 * ((- x5) + x6) + x1 * (x5 ^ 4 - x6 ^ 4)) * y4 + x4 ^ 5 * (x1
     * x6 * ((- x1) + x6) * y5 + x5 ^ 2 * (x6 * y1 - x1 * y6) + x5 * ((- (x6 ^ 2 * y1)) + x1 ^ 2
     * y6)) + x4 ^ 2 * (x1 * x6 * (x1 ^ 4 - x6 ^ 4) * y5 + x5 ^ 5 * ((- (x6 * y1)) + x1 * y6) +
     x5 * (x6 ^ 5 * y1 - x1 ^ 5 * y6)) + x4 * (x1 ^ 2 * x6 ^ 2 * ((- (x1 ^ 3)) + x6 ^ 3) * y5 +
     x5 ^ 5 * (x6 ^ 2 * y1 - x1 ^ 2 * y6) + x5 ^ 2 * ((- (x6 ^ 5 * y1)) + x1 ^ 5 * y6))) + x3 *
     (x1 ^ 2 * x5 ^ 2 * x6 ^ 2 * ((- (x5 ^ 3 * x6)) + x5 * x6 ^ 3 + x1 ^ 3 * ((- x5) + x6) + x1 *
     (x5 ^ 3 - x6 ^ 3)) * y4 + x4 ^ 5 * (x1 ^ 2 * x6 ^ 2 * ((- x1) + x6) * y5 + x5 ^ 3 * (x6 ^ 2
     * y1 - x1 ^ 2 * y6) + x5 ^ 2 * ((- (x6 ^ 3 * y1)) + x1 ^ 3 * y6)) + x4 ^ 3 * (x1 ^ 2 * x6 ^
     2 * (x1 ^ 3 - x6 ^ 3) * y5 + x5 ^ 5 * ((- (x6 ^ 2 * y1)) + x1 ^ 2 * y6) + x5 ^ 2 * (x6 ^ 5 *
     y1 - x1 ^ 5 * y6)) + x4 ^ 2 * (x1 ^ 3 * x6 ^ 3 * ((- (x1 ^ 2)) + x6 ^ 2) * y5 + x5 ^ 5 * (x6
     ^ 3 * y1 - x1 ^ 3 * y6) + x5 ^ 3 * ((- (x6 ^ 5 * y1)) + x1 ^ 5 * y6)))) + x2 ^ 3 * ((- (x1 *
     (x1 - x4) * x4 * (x1 - x5) * (x4 - x5) * x5 * (x1 - x6) * (x4 - x6) * (x5 - x6) * x6 * (x5 *
     x6 + x4 * (x5 + x6) + x1 * (x4 + x5 + x6)) * y3)) + x3 ^ 5 * (x1 * x5 * x6 * ((- (x5 ^ 3 *
     x6)) + x5 * x6 ^ 3 + x1 ^ 3 * ((- x5) + x6) + x1 * (x5 ^ 3 - x6 ^ 3)) * y4 + x4 ^ 4 * (x1 *
     x6 * ((- x1) + x6) * y5 + x5 ^ 2 * (x6 * y1 - x1 * y6) + x5 * ((- (x6 ^ 2 * y1)) + x1 ^ 2 *
     y6)) + x4 ^ 2 * (x1 * x6 * (x1 ^ 3 - x6 ^ 3) * y5 + x5 ^ 4 * ((- (x6 * y1)) + x1 * y6) + x5
     * (x6 ^ 4 * y1 - x1 ^ 4 * y6)) + x4 * (x1 ^ 2 * x6 ^ 2 * ((- (x1 ^ 2)) + x6 ^ 2) * y5 + x5 ^
     4 * (x6 ^ 2 * y1 - x1 ^ 2 * y6) + x5 ^ 2 * ((- (x6 ^ 4 * y1)) + x1 ^ 4 * y6))) + x3 ^ 4 *
     (x1 * x5 * x6 * (x1 ^ 4 * (x5 - x6) + x5 * x6 * (x5 ^ 3 - x6 ^ 3) + x1 * ((- (x5 ^ 4)) + x6
     ^ 4)) * y4 + x4 ^ 5 * (x1 * (x1 - x6) * x6 * y5 + x5 ^ 2 * ((- (x6 * y1)) + x1 * y6) + x5 *
     (x6 ^ 2 * y1 - x1 ^ 2 * y6)) + x4 * (x1 ^ 2 * x6 ^ 2 * (x1 ^ 3 - x6 ^ 3) * y5 + x5 ^ 5 * ((-
     (x6 ^ 2 * y1)) + x1 ^ 2 * y6) + x5 ^ 2 * (x6 ^ 5 * y1 - x1 ^ 5 * y6)) + x4 ^ 2 * (x1 * x6 *
     ((- (x1 ^ 4)) + x6 ^ 4) * y5 + x5 ^ 5 * (x6 * y1 - x1 * y6) + x5 * ((- (x6 ^ 5 * y1)) + x1 ^
     5 * y6))) + x3 * (x1 ^ 2 * x5 ^ 2 * x6 ^ 2 * (x5 ^ 2 * (x5 - x6) * x6 ^ 2 + x1 ^ 3 * (x5 ^ 2
     - x6 ^ 2) + x1 ^ 2 * ((- (x5 ^ 3)) + x6 ^ 3)) * y4 + x4 ^ 5 * (x1 ^ 2 * x6 ^ 2 * (x1 ^ 2 -
     x6 ^ 2) * y5 + x5 ^ 4 * ((- (x6 ^ 2 * y1)) + x1 ^ 2 * y6) + x5 ^ 2 * (x6 ^ 4 * y1 - x1 ^ 4 *
     y6)) + x4 ^ 2 * (x1 ^ 4 * (x1 - x6) * x6 ^ 4 * y5 + x5 ^ 5 * ((- (x6 ^ 4 * y1)) + x1 ^ 4 *
     y6) + x5 ^ 4 * (x6 ^ 5 * y1 - x1 ^ 5 * y6)) + x4 ^ 4 * (x1 ^ 2 * x6 ^ 2 * ((- (x1 ^ 3)) + x6
     ^ 3) * y5 + x5 ^ 5 * (x6 ^ 2 * y1 - x1 ^ 2 * y6) + x5 ^ 2 * ((- (x6 ^ 5 * y1)) + x1 ^ 5 *
     y6))) + x3 ^ 2 * (x1 * x5 * x6 * (x5 ^ 3 * x6 ^ 3 * ((- x5) + x6) + x1 ^ 4 * ((- (x5 ^ 3)) +
     x6 ^ 3) + x1 ^ 3 * (x5 ^ 4 - x6 ^ 4)) * y4 + x4 ^ 5 * (x1 * x6 * ((- (x1 ^ 3)) + x6 ^ 3) *
     y5 + x5 ^ 4 * (x6 * y1 - x1 * y6) + x5 * ((- (x6 ^ 4 * y1)) + x1 ^ 4 * y6)) + x4 ^ 4 * (x1 *
     x6 * (x1 ^ 4 - x6 ^ 4) * y5 + x5 ^ 5 * ((- (x6 * y1)) + x1 * y6) + x5 * (x6 ^ 5 * y1 - x1 ^
     5 * y6)) + x4 * (x1 ^ 4 * x6 ^ 4 * ((- x1) + x6) * y5 + x5 ^ 5 * (x6 ^ 4 * y1 - x1 ^ 4 * y6)
     + x5 ^ 4 * ((- (x6 ^ 5 * y1)) + x1 ^ 5 * y6)))) + x2 * ((- (x1 ^ 2 * (x1 - x4) * x4 ^ 2 *
     (x1 - x5) * (x4 - x5) * x5 ^ 2 * (x1 - x6) * (x4 - x6) * (x5 - x6) * x6 ^ 2 * y3)) + x3 ^ 5
     * ((- (x1 ^ 2 * (x1 - x5) * x5 ^ 2 * (x1 - x6) * (x5 - x6) * x6 ^ 2 * y4)) + x4 ^ 4 * (x1 ^
     2 * x6 ^ 2 * ((- x1) + x6) * y5 + x5 ^ 3 * (x6 ^ 2 * y1 - x1 ^ 2 * y6) + x5 ^ 2 * ((- (x6 ^
     3 * y1)) + x1 ^ 3 * y6)) + x4 ^ 3 * (x1 ^ 2 * x6 ^ 2 * (x1 ^ 2 - x6 ^ 2) * y5 + x5 ^ 4 * ((-
     (x6 ^ 2 * y1)) + x1 ^ 2 * y6) + x5 ^ 2 * (x6 ^ 4 * y1 - x1 ^ 4 * y6)) + x4 ^ 2 * (x1 ^ 3 *
     x6 ^ 3 * ((- x1) + x6) * y5 + x5 ^ 4 * (x6 ^ 3 * y1 - x1 ^ 3 * y6) + x5 ^ 3 * ((- (x6 ^ 4 *
     y1)) + x1 ^ 4 * y6))) + x3 ^ 4 * (x1 ^ 2 * x5 ^ 2 * x6 ^ 2 * (x1 ^ 3 * (x5 - x6) + x5 * x6 *
     (x5 ^ 2 - x6 ^ 2) + x1 * ((- (x5 ^ 3)) + x6 ^ 3)) * y4 + x4 ^ 5 * (x1 ^ 2 * (x1 - x6) * x6 ^
     2 * y5 + x5 ^ 3 * ((- (x6 ^ 2 * y1)) + x1 ^ 2 * y6) + x5 ^ 2 * (x6 ^ 3 * y1 - x1 ^ 3 * y6))
     + x4 ^ 2 * (x1 ^ 3 * x6 ^ 3 * (x1 ^ 2 - x6 ^ 2) * y5 + x5 ^ 5 * ((- (x6 ^ 3 * y1)) + x1 ^ 3
     * y6) + x5 ^ 3 * (x6 ^ 5 * y1 - x1 ^ 5 * y6)) + x4 ^ 3 * (x1 ^ 2 * x6 ^ 2 * ((- (x1 ^ 3)) +
     x6 ^ 3) * y5 + x5 ^ 5 * (x6 ^ 2 * y1 - x1 ^ 2 * y6) + x5 ^ 2 * ((- (x6 ^ 5 * y1)) + x1 ^ 5 *
     y6))) + x3 ^ 2 * (x1 ^ 3 * (x1 - x5) * x5 ^ 3 * (x1 - x6) * (x5 - x6) * x6 ^ 3 * y4 + x4 ^ 5
     * (x1 ^ 3 * (x1 - x6) * x6 ^ 3 * y5 + x5 ^ 4 * ((- (x6 ^ 3 * y1)) + x1 ^ 3 * y6) + x5 ^ 3 *
     (x6 ^ 4 * y1 - x1 ^ 4 * y6)) + x4 ^ 3 * (x1 ^ 4 * (x1 - x6) * x6 ^ 4 * y5 + x5 ^ 5 * ((- (x6
     ^ 4 * y1)) + x1 ^ 4 * y6) + x5 ^ 4 * (x6 ^ 5 * y1 - x1 ^ 5 * y6)) + x4 ^ 4 * (x1 ^ 3 * x6 ^
     3 * ((- (x1 ^ 2)) + x6 ^ 2) * y5 + x5 ^ 5 * (x6 ^ 3 * y1 - x1 ^ 3 * y6) + x5 ^ 3 * ((- (x6 ^
     5 * y1)) + x1 ^ 5 * y6))) + x3 ^ 3 * (x1 ^ 2 * x5 ^ 2 * x6 ^ 2 * (x5 ^ 2 * x6 ^ 2 * ((- x5)
     + x6) + x1 ^ 3 * ((- (x5 ^ 2)) + x6 ^ 2) + x1 ^ 2 * (x5 ^ 3 - x6 ^ 3)) * y4 + x4 ^ 5 * (x1 ^
     2 * x6 ^ 2 * ((- (x1 ^ 2)) + x6 ^ 2) * y5 + x5 ^ 4 * (x6 ^ 2 * y1 - x1 ^ 2 * y6) + x5 ^ 2 *
     ((- (x6 ^ 4 * y1)) + x1 ^ 4 * y6)) + x4 ^ 4 * (x1 ^ 2 * x6 ^ 2 * (x1 ^ 3 - x6 ^ 3) * y5 + x5
     ^ 5 * ((- (x6 ^ 2 * y1)) + x1 ^ 2 * y6) + x5 ^ 2 * (x6 ^ 5 * y1 - x1 ^ 5 * y6)) + x4 ^ 2 *
     (x1 ^ 4 * x6 ^ 4 * ((- x1) + x6) * y5 + x5 ^ 5 * (x6 ^ 4 * y1 - x1 ^ 4 * y6) + x5 ^ 4 * ((-
     (x6 ^ 5 * y1)) + x1 ^ 5 * y6)))) + x2 ^ 2 * (x1 * (x1 - x4) * x4 * (x1 - x5) * (x4 - x5) *
     x5 * (x1 - x6) * (x4 - x6) * (x5 - x6) * x6 * (x4 * x5 * x6 + x1 * (x5 * x6 + x4 * (x5 +
     x6))) * y3 + x3 ^ 5 * (x1 * x5 * x6 * (x5 ^ 2 * (x5 - x6) * x6 ^ 2 + x1 ^ 3 * (x5 ^ 2 - x6 ^
     2) + x1 ^ 2 * ((- (x5 ^ 3)) + x6 ^ 3)) * y4 + x4 ^ 4 * (x1 * x6 * (x1 ^ 2 - x6 ^ 2) * y5 +
     x5 ^ 3 * ((- (x6 * y1)) + x1 * y6) + x5 * (x6 ^ 3 * y1 - x1 ^ 3 * y6)) + x4 * (x1 ^ 3 * (x1
     - x6) * x6 ^ 3 * y5 + x5 ^ 4 * ((- (x6 ^ 3 * y1)) + x1 ^ 3 * y6) + x5 ^ 3 * (x6 ^ 4 * y1 -
     x1 ^ 4 * y6)) + x4 ^ 3 * (x1 * x6 * ((- (x1 ^ 3)) + x6 ^ 3) * y5 + x5 ^ 4 * (x6 * y1 - x1 *
     y6) + x5 * ((- (x6 ^ 4 * y1)) + x1 ^ 4 * y6))) + x3 ^ 3 * (x1 * x5 * x6 * (x5 ^ 3 * (x5 -
     x6) * x6 ^ 3 + x1 ^ 4 * (x5 ^ 3 - x6 ^ 3) + x1 ^ 3 * ((- (x5 ^ 4)) + x6 ^ 4)) * y4 + x4 ^ 5
     * (x1 * x6 * (x1 ^ 3 - x6 ^ 3) * y5 + x5 ^ 4 * ((- (x6 * y1)) + x1 * y6) + x5 * (x6 ^ 4 * y1
     - x1 ^ 4 * y6)) + x4 * (x1 ^ 4 * (x1 - x6) * x6 ^ 4 * y5 + x5 ^ 5 * ((- (x6 ^ 4 * y1)) + x1
     ^ 4 * y6) + x5 ^ 4 * (x6 ^ 5 * y1 - x1 ^ 5 * y6)) + x4 ^ 4 * (x1 * x6 * ((- (x1 ^ 4)) + x6 ^
     4) * y5 + x5 ^ 5 * (x6 * y1 - x1 * y6) + x5 * ((- (x6 ^ 5 * y1)) + x1 ^ 5 * y6))) + x3 ^ 4 *
     ((- (x1 * x5 * (x1 ^ 2 - x5 ^ 2) * x6 * (x1 ^ 2 - x6 ^ 2) * (x5 ^ 2 - x6 ^ 2) * y4)) + x4 ^
     5 * (x1 * x6 * ((- (x1 ^ 2)) + x6 ^ 2) * y5 + x5 ^ 3 * (x6 * y1 - x1 * y6) + x5 * ((- (x6 ^
     3 * y1)) + x1 ^ 3 * y6)) + x4 ^ 3 * (x1 * x6 * (x1 ^ 4 - x6 ^ 4) * y5 + x5 ^ 5 * ((- (x6 *
     y1)) + x1 * y6) + x5 * (x6 ^ 5 * y1 - x1 ^ 5 * y6)) + x4 * (x1 ^ 3 * x6 ^ 3 * ((- (x1 ^ 2))
     + x6 ^ 2) * y5 + x5 ^ 5 * (x6 ^ 3 * y1 - x1 ^ 3 * y6) + x5 ^ 3 * ((- (x6 ^ 5 * y1)) + x1 ^ 5
     * y6))) + x3 * ((- (x1 ^ 3 * (x1 - x5) * x5 ^ 3 * (x1 - x6) * (x5 - x6) * x6 ^ 3 * y4)) + x4
     ^ 5 * (x1 ^ 3 * x6 ^ 3 * ((- x1) + x6) * y5 + x5 ^ 4 * (x6 ^ 3 * y1 - x1 ^ 3 * y6) + x5 ^ 3
     * ((- (x6 ^ 4 * y1)) + x1 ^ 4 * y6)) + x4 ^ 4 * (x1 ^ 3 * x6 ^ 3 * (x1 ^ 2 - x6 ^ 2) * y5 +
     x5 ^ 5 * ((- (x6 ^ 3 * y1)) + x1 ^ 3 * y6) + x5 ^ 3 * (x6 ^ 5 * y1 - x1 ^ 5 * y6)) + x4 ^ 3
     * (x1 ^ 4 * x6 ^ 4 * ((- x1) + x6) * y5 + x5 ^ 5 * (x6 ^ 4 * y1 - x1 ^ 4 * y6) + x5 ^ 4 *
     ((- (x6 ^ 5 * y1)) + x1 ^ 5 * y6)))) =
     - (y1 * (- x2 * x3 * x4 * x5 * x6 * ((x2 - x3) * (x2 - x4) * (x2 - x5) * (x2 - x6) * (x3 - x4)
     * (x3 - x5) * (x3 - x6) * (x4 - x5) * (x4 - x6) * (x5 - x6))) + y2 * (x1 * x3 * x4 * x5 * x6
     * ((x1 - x3) * (x1 - x4) * (x1 - x5) * (x1 - x6) * (x3 - x4) * (x3 - x5) * (x3 - x6) * (x4 -
     x5) * (x4 - x6) * (x5 - x6))) + y3 * (- x1 * x2 * x4 * x5 * x6 * ((x1 - x2) * (x1 - x4) *
     (x1 - x5) * (x1 - x6) * (x2 - x4) * (x2 - x5) * (x2 - x6) * (x4 - x5) * (x4 - x6) * (x5 -
     x6))) + y4 * (x1 * x2 * x3 * x5 * x6 * ((x1 - x2) * (x1 - x3) * (x1 - x5) * (x1 - x6) * (x2
     - x3) * (x2 - x5) * (x2 - x6) * (x3 - x5) * (x3 - x6) * (x5 - x6))) + y5 * (- x1 * x2 * x3 *
     x4 * x6 * ((x1 - x2) * (x1 - x3) * (x1 - x4) * (x1 - x6) * (x2 - x3) * (x2 - x4) * (x2 - x6)
     * (x3 - x4) * (x3 - x6) * (x4 - x6))) + y6 * (x1 * x2 * x3 * x4 * x5 * ((x1 - x2) * (x1 -
     x3) * (x1 - x4) * (x1 - x5) * (x2 - x3) * (x2 - x4) * (x2 - x5) * (x3 - x4) * (x3 - x5) *
     (x4 - x5))))"
  by algebra

lemma quintic_extrap_denom:
  fixes x1 x2 x3 x4 x5 x6 :: real
  shows "(x1 - x2) * (x1 - x3) * ((- x2) + x3) * (x1 - x4) * ((- x2) + x4) * ((- x3) + x4) * (x1 -
     x5) * (x2 - x5) * (x3 - x5) * (x4 - x5) * (x1 - x6) * (x2 - x6) * (x3 - x6) * (x4 - x6) *
     (x5 - x6) =
     - ((x1 - x2) * (x1 - x3) * (x1 - x4) * (x1 - x5) * (x1 - x6) * (x2 - x3) * (x2 - x4) * (x2 -
     x5) * (x2 - x6) * (x3 - x4) * (x3 - x5) * (x3 - x6) * (x4 - x5) * (x4 - x6) * (x5 - x6))"
  by algebra

lemma quintic_extrap_basis0:
  fixes x1 x2 x3 x4 x5 x6 :: real
  shows "(- x2 * x3 * x4 * x5 * x6 * ((x2 - x3) * (x2 - x4) * (x2 - x5) * (x2 - x6) * (x3 - x4) * (x3
     - x5) * (x3 - x6) * (x4 - x5) * (x4 - x6) * (x5 - x6))) + (x1 * x3 * x4 * x5 * x6 * ((x1 -
     x3) * (x1 - x4) * (x1 - x5) * (x1 - x6) * (x3 - x4) * (x3 - x5) * (x3 - x6) * (x4 - x5) *
     (x4 - x6) * (x5 - x6))) + (- x1 * x2 * x4 * x5 * x6 * ((x1 - x2) * (x1 - x4) * (x1 - x5) *
     (x1 - x6) * (x2 - x4) * (x2 - x5) * (x2 - x6) * (x4 - x5) * (x4 - x6) * (x5 - x6))) + (x1 *
     x2 * x3 * x5 * x6 * ((x1 - x2) * (x1 - x3) * (x1 - x5) * (x1 - x6) * (x2 - x3) * (x2 - x5) *
     (x2 - x6) * (x3 - x5) * (x3 - x6) * (x5 - x6))) + (- x1 * x2 * x3 * x4 * x6 * ((x1 - x2) *
     (x1 - x3) * (x1 - x4) * (x1 - x6) * (x2 - x3) * (x2 - x4) * (x2 - x6) * (x3 - x4) * (x3 -
     x6) * (x4 - x6))) + (x1 * x2 * x3 * x4 * x5 * ((x1 - x2) * (x1 - x3) * (x1 - x4) * (x1 - x5)
     * (x2 - x3) * (x2 - x4) * (x2 - x5) * (x3 - x4) * (x3 - x5) * (x4 - x5))) =
     (x1 - x2) * (x1 - x3) * (x1 - x4) * (x1 - x5) * (x1 - x6) * (x2 - x3) * (x2 - x4) * (x2 -
     x5) * (x2 - x6) * (x3 - x4) * (x3 - x5) * (x3 - x6) * (x4 - x5) * (x4 - x6) * (x5 - x6)"
  by algebra

lemma quintic_extrap_basis1:
  fixes x1 x2 x3 x4 x5 x6 :: real
  shows "x1 * (- x2 * x3 * x4 * x5 * x6 * ((x2 - x3) * (x2 - x4) * (x2 - x5) * (x2 - x6) * (x3 - x4)
     * (x3 - x5) * (x3 - x6) * (x4 - x5) * (x4 - x6) * (x5 - x6))) + x2 * (x1 * x3 * x4 * x5 * x6
     * ((x1 - x3) * (x1 - x4) * (x1 - x5) * (x1 - x6) * (x3 - x4) * (x3 - x5) * (x3 - x6) * (x4 -
     x5) * (x4 - x6) * (x5 - x6))) + x3 * (- x1 * x2 * x4 * x5 * x6 * ((x1 - x2) * (x1 - x4) *
     (x1 - x5) * (x1 - x6) * (x2 - x4) * (x2 - x5) * (x2 - x6) * (x4 - x5) * (x4 - x6) * (x5 -
     x6))) + x4 * (x1 * x2 * x3 * x5 * x6 * ((x1 - x2) * (x1 - x3) * (x1 - x5) * (x1 - x6) * (x2
     - x3) * (x2 - x5) * (x2 - x6) * (x3 - x5) * (x3 - x6) * (x5 - x6))) + x5 * (- x1 * x2 * x3 *
     x4 * x6 * ((x1 - x2) * (x1 - x3) * (x1 - x4) * (x1 - x6) * (x2 - x3) * (x2 - x4) * (x2 - x6)
     * (x3 - x4) * (x3 - x6) * (x4 - x6))) + x6 * (x1 * x2 * x3 * x4 * x5 * ((x1 - x2) * (x1 -
     x3) * (x1 - x4) * (x1 - x5) * (x2 - x3) * (x2 - x4) * (x2 - x5) * (x3 - x4) * (x3 - x5) *
     (x4 - x5))) =
     0"
  by algebra

lemma quintic_extrap_basis2:
  fixes x1 x2 x3 x4 x5 x6 :: real
  shows "x1 ^ 2 * (- x2 * x3 * x4 * x5 * x6 * ((x2 - x3) * (x2 - x4) * (x2 - x5) * (x2 - x6) * (x3 -
     x4) * (x3 - x5) * (x3 - x6) * (x4 - x5) * (x4 - x6) * (x5 - x6))) + x2 ^ 2 * (x1 * x3 * x4 *
     x5 * x6 * ((x1 - x3) * (x1 - x4) * (x1 - x5) * (x1 - x6) * (x3 - x4) * (x3 - x5) * (x3 - x6)
     * (x4 - x5) * (x4 - x6) * (x5 - x6))) + x3 ^ 2 * (- x1 * x2 * x4 * x5 * x6 * ((x1 - x2) *
     (x1 - x4) * (x1 - x5) * (x1 - x6) * (x2 - x4) * (x2 - x5) * (x2 - x6) * (x4 - x5) * (x4 -
     x6) * (x5 - x6))) + x4 ^ 2 * (x1 * x2 * x3 * x5 * x6 * ((x1 - x2) * (x1 - x3) * (x1 - x5) *
     (x1 - x6) * (x2 - x3) * (x2 - x5) * (x2 - x6) * (x3 - x5) * (x3 - x6) * (x5 - x6))) + x5 ^ 2
     * (- x1 * x2 * x3 * x4 * x6 * ((x1 - x2) * (x1 - x3) * (x1 - x4) * (x1 - x6) * (x2 - x3) *
     (x2 - x4) * (x2 - x6) * (x3 - x4) * (x3 - x6) * (x4 - x6))) + x6 ^ 2 * (x1 * x2 * x3 * x4 *
     x5 * ((x1 - x2) * (x1 - x3) * (x1 - x4) * (x1 - x5) * (x2 - x3) * (x2 - x4) * (x2 - x5) *
     (x3 - x4) * (x3 - x5) * (x4 - x5))) =
     0"
  by algebra

lemma quintic_extrap_basis3:
  fixes x1 x2 x3 x4 x5 x6 :: real
  shows "x1 ^ 3 * (- x2 * x3 * x4 * x5 * x6 * ((x2 - x3) * (x2 - x4) * (x2 - x5) * (x2 - x6) * (x3 -
     x4) * (x3 - x5) * (x3 - x6) * (x4 - x5) * (x4 - x6) * (x5 - x6))) + x2 ^ 3 * (x1 * x3 * x4 *
     x5 * x6 * ((x1 - x3) * (x1 - x4) * (x1 - x5) * (x1 - x6) * (x3 - x4) * (x3 - x5) * (x3 - x6)
     * (x4 - x5) * (x4 - x6) * (x5 - x6))) + x3 ^ 3 * (- x1 * x2 * x4 * x5 * x6 * ((x1 - x2) *
     (x1 - x4) * (x1 - x5) * (x1 - x6) * (x2 - x4) * (x2 - x5) * (x2 - x6) * (x4 - x5) * (x4 -
     x6) * (x5 - x6))) + x4 ^ 3 * (x1 * x2 * x3 * x5 * x6 * ((x1 - x2) * (x1 - x3) * (x1 - x5) *
     (x1 - x6) * (x2 - x3) * (x2 - x5) * (x2 - x6) * (x3 - x5) * (x3 - x6) * (x5 - x6))) + x5 ^ 3
     * (- x1 * x2 * x3 * x4 * x6 * ((x1 - x2) * (x1 - x3) * (x1 - x4) * (x1 - x6) * (x2 - x3) *
     (x2 - x4) * (x2 - x6) * (x3 - x4) * (x3 - x6) * (x4 - x6))) + x6 ^ 3 * (x1 * x2 * x3 * x4 *
     x5 * ((x1 - x2) * (x1 - x3) * (x1 - x4) * (x1 - x5) * (x2 - x3) * (x2 - x4) * (x2 - x5) *
     (x3 - x4) * (x3 - x5) * (x4 - x5))) =
     0"
  by algebra

lemma quintic_extrap_basis4:
  fixes x1 x2 x3 x4 x5 x6 :: real
  shows "x1 ^ 4 * (- x2 * x3 * x4 * x5 * x6 * ((x2 - x3) * (x2 - x4) * (x2 - x5) * (x2 - x6) * (x3 -
     x4) * (x3 - x5) * (x3 - x6) * (x4 - x5) * (x4 - x6) * (x5 - x6))) + x2 ^ 4 * (x1 * x3 * x4 *
     x5 * x6 * ((x1 - x3) * (x1 - x4) * (x1 - x5) * (x1 - x6) * (x3 - x4) * (x3 - x5) * (x3 - x6)
     * (x4 - x5) * (x4 - x6) * (x5 - x6))) + x3 ^ 4 * (- x1 * x2 * x4 * x5 * x6 * ((x1 - x2) *
     (x1 - x4) * (x1 - x5) * (x1 - x6) * (x2 - x4) * (x2 - x5) * (x2 - x6) * (x4 - x5) * (x4 -
     x6) * (x5 - x6))) + x4 ^ 4 * (x1 * x2 * x3 * x5 * x6 * ((x1 - x2) * (x1 - x3) * (x1 - x5) *
     (x1 - x6) * (x2 - x3) * (x2 - x5) * (x2 - x6) * (x3 - x5) * (x3 - x6) * (x5 - x6))) + x5 ^ 4
     * (- x1 * x2 * x3 * x4 * x6 * ((x1 - x2) * (x1 - x3) * (x1 - x4) * (x1 - x6) * (x2 - x3) *
     (x2 - x4) * (x2 - x6) * (x3 - x4) * (x3 - x6) * (x4 - x6))) + x6 ^ 4 * (x1 * x2 * x3 * x4 *
     x5 * ((x1 - x2) * (x1 - x3) * (x1 - x4) * (x1 - x5) * (x2 - x3) * (x2 - x4) * (x2 - x5) *
     (x3 - x4) * (x3 - x5) * (x4 - x5))) =
     0"
  by algebra

lemma quintic_extrap_basis5:
  fixes x1 x2 x3 x4 x5 x6 :: real
  shows "x1 ^ 5 * (- x2 * x3 * x4 * x5 * x6 * ((x2 - x3) * (x2 - x4) * (x2 - x5) * (x2 - x6) * (x3 -
     x4) * (x3 - x5) * (x3 - x6) * (x4 - x5) * (x4 - x6) * (x5 - x6))) + x2 ^ 5 * (x1 * x3 * x4 *
     x5 * x6 * ((x1 - x3) * (x1 - x4) * (x1 - x5) * (x1 - x6) * (x3 - x4) * (x3 - x5) * (x3 - x6)
     * (x4 - x5) * (x4 - x6) * (x5 - x6))) + x3 ^ 5 * (- x1 * x2 * x4 * x5 * x6 * ((x1 - x2) *
     (x1 - x4) * (x1 - x5) * (x1 - x6) * (x2 - x4) * (x2 - x5) * (x2 - x6) * (x4 - x5) * (x4 -
     x6) * (x5 - x6))) + x4 ^ 5 * (x1 * x2 * x3 * x5 * x6 * ((x1 - x2) * (x1 - x3) * (x1 - x5) *
     (x1 - x6) * (x2 - x3) * (x2 - x5) * (x2 - x6) * (x3 - x5) * (x3 - x6) * (x5 - x6))) + x5 ^ 5
     * (- x1 * x2 * x3 * x4 * x6 * ((x1 - x2) * (x1 - x3) * (x1 - x4) * (x1 - x6) * (x2 - x3) *
     (x2 - x4) * (x2 - x6) * (x3 - x4) * (x3 - x6) * (x4 - x6))) + x6 ^ 5 * (x1 * x2 * x3 * x4 *
     x5 * ((x1 - x2) * (x1 - x3) * (x1 - x4) * (x1 - x5) * (x2 - x3) * (x2 - x4) * (x2 - x5) *
     (x3 - x4) * (x3 - x5) * (x4 - x5))) =
     0"
  by algebra

lemma quintic_extrap_lincomb:
  fixes c0 c1 c2 c3 c4 c5 x1 x2 x3 x4 x5 x6 A1 A2 A3 A4 A5 A6 :: real
  shows "polyval [c0, c1, c2, c3, c4, c5] x1 * A1 + polyval [c0, c1, c2, c3, c4, c5] x2 * A2 +
     polyval [c0, c1, c2, c3, c4, c5] x3 * A3 + polyval [c0, c1, c2, c3, c4, c5] x4 * A4 +
     polyval [c0, c1, c2, c3, c4, c5] x5 * A5 + polyval [c0, c1, c2, c3, c4, c5] x6 * A6 =
     c0 * (A1 + A2 + A3 + A4 + A5 + A6) + c1 * (x1 * A1 + x2 * A2 + x3 * A3 + x4 * A4 + x5 * A5 +
     x6 * A6) + c2 * (x1 ^ 2 * A1 + x2 ^ 2 * A2 + x3 ^ 2 * A3 + x4 ^ 2 * A4 + x5 ^ 2 * A5 + x6 ^
     2 * A6) + c3 * (x1 ^ 3 * A1 + x2 ^ 3 * A2 + x3 ^ 3 * A3 + x4 ^ 3 * A4 + x5 ^ 3 * A5 + x6 ^ 3
     * A6) + c4 * (x1 ^ 4 * A1 + x2 ^ 4 * A2 + x3 ^ 4 * A3 + x4 ^ 4 * A4 + x5 ^ 4 * A5 + x6 ^ 4 *
     A6) + c5 * (x1 ^ 5 * A1 + x2 ^ 5 * A2 + x3 ^ 5 * A3 + x4 ^ 5 * A4 + x5 ^ 5 * A5 + x6 ^ 5 *
     A6)"
  by (simp add: algebra_simps power2_eq_square power3_eq_cube power4_eq_xxxx numeral_eq_Suc)

lemma quintic_extrap_coeffs:
  fixes c0 c1 c2 c3 c4 c5 x1 x2 x3 x4 x5 x6 :: real
  assumes "distinct [x1, x2, x3, x4, x5, x6]"
  shows "quintic_extrap (polyval [c0, c1, c2, c3, c4, c5] x1, polyval [c0, c1, c2, c3, c4, c5] x2, polyval [c0, c1,
     c2, c3, c4, c5] x3, polyval [c0, c1, c2, c3, c4, c5] x4, polyval [c0, c1, c2, c3, c4, c5]
     x5, polyval [c0, c1, c2, c3, c4, c5] x6)
     (x1, x2, x3, x4, x5, x6) = c0"
proof -
  have nz: "(x1 - x2) * (x1 - x3) * (x1 - x4) * (x1 - x5) * (x1 - x6) * (x2 - x3) * (x2 - x4) * (x2 -
     x5) * (x2 - x6) * (x3 - x4) * (x3 - x5) * (x3 - x6) * (x4 - x5) * (x4 - x6) * (x5 - x6) \<noteq> 0"
    using assms by simp
  show ?thesis
    unfolding quintic_extrap.simps quintic_extrap_numer quintic_extrap_denom quintic_extrap_lincomb
      quintic_extrap_basis0 quintic_extrap_basis1 quintic_extrap_basis2 quintic_extrap_basis3 quintic_extrap_basis4 quintic_extrap_basis5
    using nz by simp
qed

lemma lagrange_at_zero_4:
  "lagrange_at_zero [x1, x2, x3, x4] [y1, y2, y3, y4] =
     y1 * (((0 - x2) / (x1 - x2)) * (((0 - x3) / (x1 - x3)) * (((0 - x4) / (x1 - x4))))) + (y2 *
     (((0 - x1) / (x2 - x1)) * (((0 - x3) / (x2 - x3)) * (((0 - x4) / (x2 - x4))))) + (y3 * (((0
     - x1) / (x3 - x1)) * (((0 - x2) / (x3 - x2)) * (((0 - x4) / (x3 - x4))))) + (y4 * (((0 - x1)
     / (x4 - x1)) * (((0 - x2) / (x4 - x2)) * (((0 - x3) / (x4 - x3))))))))"
  by (simp add: lagrange_at_zero_def lagrange_weight_def upt_rec)

lemma cubic_extrap_weight1:
  fixes x1 x2 x3 x4 :: real
  assumes "distinct [x1, x2, x3, x4]"
  shows "((0 - x2) / (x1 - x2)) * (((0 - x3) / (x1 - x3)) * (((0 - x4) / (x1 - x4)))) =
     (- x2 * x3 * x4 * ((x2 - x3) * (x2 - x4) * (x3 - x4))) /
     ((x1 - x2) * (x1 - x3) * (x1 - x4) * (x2 - x3) * (x2 - x4) * (x3 - x4))"
proof -
  have nz: "x1 - x2 \<noteq> 0" "x1 - x3 \<noteq> 0" "x1 - x4 \<noteq> 0"
    using assms by auto
  have w: "((0 - x2) / (x1 - x2)) * (((0 - x3) / (x1 - x3)) * (((0 - x4) / (x1 - x4)))) =
     ((0 - x2) * ((0 - x3) * ((0 - x4)))) / ((x1 - x2) * ((x1 - x3) * ((x1 - x4))))"
    by (simp only: times_divide_times_eq)
  show ?thesis
    unfolding w
  proof (rule iffD2[OF frac_eq_eq])
    show "(x1 - x2) * ((x1 - x3) * ((x1 - x4))) \<noteq> 0"
      using nz by simp
    show "(x1 - x2) * (x1 - x3) * (x1 - x4) * (x2 - x3) * (x2 - x4) * (x3 - x4) \<noteq> 0"
      using assms by simp
    show "((0 - x2) * ((0 - x3) * ((0 - x4)))) * ((x1 - x2) * (x1 - x3) * (x1 - x4) * (x2 - x3) * (x2 - x4) * (x3 - x4)) =
      (- x2 * x3 * x4 * ((x2 - x3) * (x2 - x4) * (x3 - x4))) * ((x1 - x2) * ((x1 - x3) * ((x1 - x4))))"
      by algebra
  qed
qed

lemma cubic_extrap_weight2:
  fixes x1 x2 x3 x4 :: real
  assumes "distinct [x1, x2, x3, x4]"
  shows "((0 - x1) / (x2 - x1)) * (((0 - x3) / (x2 - x3)) * (((0 - x4) / (x2 - x4)))) =
     (x1 * x3 * x4 * ((x1 - x3) * (x1 - x4) * (x3 - x4))) /
     ((x1 - x2) * (x1 - x3) * (x1 - x4) * (x2 - x3) * (x2 - x4) * (x3 - x4))"
proof -
  have nz: "x2 - x1 \<noteq> 0" "x2 - x3 \<noteq> 0" "x2 - x4 \<noteq> 0"
    using assms by auto
  have w: "((0 - x1) / (x2 - x1)) * (((0 - x3) / (x2 - x3)) * (((0 - x4) / (x2 - x4)))) =
     ((0 - x1) * ((0 - x3) * ((0 - x4)))) / ((x2 - x1) * ((x2 - x3) * ((x2 - x4))))"
    by (simp only: times_divide_times_eq)
  show ?thesis
    unfolding w
  proof (rule iffD2[OF frac_eq_eq])
    show "(x2 - x1) * ((x2 - x3) * ((x2 - x4))) \<noteq> 0"
      using nz by simp
    show "(x1 - x2) * (x1 - x3) * (x1 - x4) * (x2 - x3) * (x2 - x4) * (x3 - x4) \<noteq> 0"
      using assms by simp
    show "((0 - x1) * ((0 - x3) * ((0 - x4)))) * ((x1 - x2) * (x1 - x3) * (x1 - x4) * (x2 - x3) * (x2 - x4) * (x3 - x4)) =
      (x1 * x3 * x4 * ((x1 - x3) * (x1 - x4) * (x3 - x4))) * ((x2 - x1) * ((x2 - x3) * ((x2 - x4))))"
      by algebra
  qed
qed

lemma cubic_extrap_weight3:
  fixes x1 x2 x3 x4 :: real
  assumes "distinct [x1, x2, x3, x4]"
  shows "((0 - x1) / (x3 - x1)) * (((0 - x2) / (x3 - x2)) * (((0 - x4) / (x3 - x4)))) =
     (- x1 * x2 * x4 * ((x1 - x2) * (x1 - x4) * (x2 - x4))) /
     ((x1 - x2) * (x1 - x3) * (x1 - x4) * (x2 - x3) * (x2 - x4) * (x3 - x4))"
proof -
  have nz: "x3 - x1 \<noteq> 0" "x3 - x2 \<noteq> 0" "x3 - x4 \<noteq> 0"
    using assms by auto
  have w: "((0 - x1) / (x3 - x1)) * (((0 - x2) / (x3 - x2)) * (((0 - x4) / (x3 - x4)))) =
     ((0 - x1) * ((0 - x2) * ((0 - x4)))) / ((x3 - x1) * ((x3 - x2) * ((x3 - x4))))"
    by (simp only: times_divide_times_eq)
  show ?thesis
    unfolding w
  proof (rule iffD2[OF frac_eq_eq])
    show "(x3 - x1) * ((x3 - x2) * ((x3 - x4))) \<noteq> 0"
      using nz by simp
    show "(x1 - x2) * (x1 - x3) * (x1 - x4) * (x2 - x3) * (x2 - x4) * (x3 - x4) \<noteq> 0"
      using assms by simp
    show "((0 - x1) * ((0 - x2) * ((0 - x4)))) * ((x1 - x2) * (x1 - x3) * (x1 - x4) * (x2 - x3) * (x2 - x4) * (x3 - x4)) =
      (- x1 * x2 * x4 * ((x1 - x2) * (x1 - x4) * (x2 - x4))) * ((x3 - x1) * ((x3 - x2) * ((x3 - x4))))"
      by algebra
  qed
qed

lemma cubic_extrap_weight4:
  fixes x1 x2 x3 x4 :: real
  assumes "distinct [x1, x2, x3, x4]"
  shows "((0 - x1) / (x4 - x1)) * (((0 - x2) / (x4 - x2)) * (((0 - x3) / (x4 - x3)))) =
     (x1 * x2 * x3 * ((x1 - x2) * (x1 - x3) * (x2 - x3))) /
     ((x1 - x2) * (x1 - x3) * (x1 - x4) * (x2 - x3) * (x2 - x4) * (x3 - x4))"
proof -
  have nz: "x4 - x1 \<noteq> 0" "x4 - x2 \<noteq> 0" "x4 - x3 \<noteq> 0"
    using assms by auto
  have w: "((0 - x1) / (x4 - x1)) * (((0 - x2) / (x4 - x2)) * (((0 - x3) / (x4 - x3)))) =
     ((0 - x1) * ((0 - x2) * ((0 - x3)))) / ((x4 - x1) * ((x4 - x2) * ((x4 - x3))))"
    by (simp only: times_divide_times_eq)
  show ?thesis
    unfolding w
  proof (rule iffD2[OF frac_eq_eq])
    show "(x4 - x1) * ((x4 - x2) * ((x4 - x3))) \<noteq> 0"
      using nz by simp
    show "(x1 - x2) * (x1 - x3) * (x1 - x4) * (x2 - x3) * (x2 - x4) * (x3 - x4) \<noteq> 0"
      using assms by simp
    show "((0 - x1) * ((0 - x2) * ((0 - x3)))) * ((x1 - x2) * (x1 - x3) * (x1 - x4) * (x2 - x3) * (x2 - x4) * (x3 - x4)) =
      (x1 * x2 * x3 * ((x1 - x2) * (x1 - x3) * (x2 - x3))) * ((x4 - x1) * ((x4 - x2) * ((x4 - x3))))"
      by algebra
  qed
qed

lemma cubic_extrap_sum_div:
  fixes V :: real
  shows "(y1 * A1 + y2 * A2 + y3 * A3 + y4 * A4) / V =
     y1 * (A1 / V) + (y2 * (A2 / V) + (y3 * (A3 / V) + (y4 * (A4 / V))))"
  by (simp add: add_divide_distrib)

lemma cubic_extrap_lagrange:
  fixes x1 x2 x3 x4 y1 y2 y3 y4 :: real
  assumes "distinct [x1, x2, x3, x4]"
  shows "cubic_extrap (y1, y2, y3, y4) (x1, x2, x3, x4) = lagrange_at_zero [x1, x2, x3, x4] [y1, y2, y3, y4]"
  unfolding cubic_extrap.simps cubic_extrap_numer cubic_extrap_denom lagrange_at_zero_4
    cubic_extrap_weight1[OF assms] cubic_extrap_weight2[OF assms] cubic_extrap_weight3[OF assms]
    cubic_extrap_weight4[OF assms]
  by (simp only: minus_divide_divide cubic_extrap_sum_div)

lemma lagrange_at_zero_5:
  "lagrange_at_zero [x1, x2, x3, x4, x5] [y1, y2, y3, y4, y5] =
     y1 * (((0 - x2) / (x1 - x2)) * (((0 - x3) / (x1 - x3)) * (((0 - x4) / (x1 - x4)) * (((0 -
     x5) / (x1 - x5)))))) + (y2 * (((0 - x1) / (x2 - x1)) * (((0 - x3) / (x2 - x3)) * (((0 - x4)
     / (x2 - x4)) * (((0 - x5) / (x2 - x5)))))) + (y3 * (((0 - x1) / (x3 - x1)) * (((0 - x2) /
     (x3 - x2)) * (((0 - x4) / (x3 - x4)) * (((0 - x5) / (x3 - x5)))))) + (y4 * (((0 - x1) / (x4
     - x1)) * (((0 - x2) / (x4 - x2)) * (((0 - x3) / (x4 - x3)) * (((0 - x5) / (x4 - x5)))))) +
     (y5 * (((0 - x1) / (x5 - x1)) * (((0 - x2) / (x5 - x2)) * (((0 - x3) / (x5 - x3)) * (((0 -
     x4) / (x5 - x4))))))))))"
  by (simp add: lagrange_at_zero_def lagrange_weight_def upt_rec)

lemma quartic_extrap_weight1:
  fixes x1 x2 x3 x4 x5 :: real
  assumes "distinct [x1, x2, x3, x4, x5]"
  shows "((0 - x2) / (x1 - x2)) * (((0 - x3) / (x1 - x3)) * (((0 - x4) / (x1 - x4)) * (((0 - x5) /
     (x1 - x5))))) =
     (x2 * x3 * x4 * x5 * ((x2 - x3) * (x2 - x4) * (x2 - x5) * (x3 - x4) * (x3 - x5) * (x4 - x5))) /
     ((x1 - x2) * (x1 - x3) * (x1 - x4) * (x1 - x5) * (x2 - x3) * (x2 - x4) * (x2 - x5) * (x3 -
     x4) * (x3 - x5) * (x4 - x5))"
proof -
  have nz: "x1 - x2 \<noteq> 0" "x1 - x3 \<noteq> 0" "x1 - x4 \<noteq> 0" "x1 - x5 \<noteq> 0"
    using assms by auto
  have w: "((0 - x2) / (x1 - x2)) * (((0 - x3) / (x1 - x3)) * (((0 - x4) / (x1 - x4)) * (((0 - x5) /
     (x1 - x5))))) =
     ((0 - x2) * ((0 - x3) * ((0 - x4) * ((0 - x5))))) / ((x1 - x2) * ((x1 - x3) * ((x1 - x4) * ((x1 - x5)))))"
    by (simp only: times_divide_times_eq)
  show ?thesis
    unfolding w
  proof (rule iffD2[OF frac_eq_eq])
    show "(x1 - x2) * ((x1 - x3) * ((x1 - x4) * ((x1 - x5)))) \<noteq> 0"
      using nz by simp
    show "(x1 - x2) * (x1 - x3) * (x1 - x4) * (x1 - x5) * (x2 - x3) * (x2 - x4) * (x2 - x5) * (x3 -
     x4) * (x3 - x5) * (x4 - x5) \<noteq> 0"
      using assms by simp
    show "((0 - x2) * ((0 - x3) * ((0 - x4) * ((0 - x5))))) * ((x1 - x2) * (x1 - x3) * (x1 - x4) * (x1 - x5) * (x2 - x3) * (x2 - x4) * (x2 - x5) * (x3 -
     x4) * (x3 - x5) * (x4 - x5)) =
      (x2 * x3 * x4 * x5 * ((x2 - x3) * (x2 - x4) * (x2 - x5) * (x3 - x4) * (x3 - x5) * (x4 - x5))) * ((x1 - x2) * ((x1 - x3) * ((x1 - x4) * ((x1 - x5)))))"
      by algebra
  qed
qed

lemma quartic_extrap_weight2:
  fixes x1 x2 x3 x4 x5 :: real
  assumes "distinct [x1, x2, x3, x4, x5]"
  shows "((0 - x1) / (x2 - x1)) * (((0 - x3) / (x2 - x3)) * (((0 - x4) / (x2 - x4)) * (((0 - x5) /
     (x2 - x5))))) =
     (- x1 * x3 * x4 * x5 * ((x1 - x3) * (x1 - x4) * (x1 - x5) * (x3 - x4) * (x3 - x5) * (x4 -
     x5))) /
     ((x1 - x2) * (x1 - x3) * (x1 - x4) * (x1 - x5) * (x2 - x3) * (x2 - x4) * (x2 - x5) * (x3 -
     x4) * (x3 - x5) * (x4 - x5))"
proof -
  have nz: "x2 - x1 \<noteq> 0" "x2 - x3 \<noteq> 0" "x2 - x4 \<noteq> 0" "x2 - x5 \<noteq> 0"
    using assms by auto
  have w: "((0 - x1) / (x2 - x1)) * (((0 - x3) / (x2 - x3)) * (((0 - x4) / (x2 - x4)) * (((0 - x5) /
     (x2 - x5))))) =
     ((0 - x1) * ((0 - x3) * ((0 - x4) * ((0 - x5))))) / ((x2 - x1) * ((x2 - x3) * ((x2 - x4) * ((x2 - x5)))))"
    by (simp only: times_divide_times_eq)
  show ?thesis
    unfolding w
  proof (rule iffD2[OF frac_eq_eq])
    show "(x2 - x1) * ((x2 - x3) * ((x2 - x4) * ((x2 - x5)))) \<noteq> 0"
      using nz by simp
    show "(x1 - x2) * (x1 - x3) * (x1 - x4) * (x1 - x5) * (x2 - x3) * (x2 - x4) * (x2 - x5) * (x3 -
     x4) * (x3 - x5) * (x4 - x5) \<noteq> 0"
      using assms by simp
    show "((0 - x1) * ((0 - x3) * ((0 - x4) * ((0 - x5))))) * ((x1 - x2) * (x1 - x3) * (x1 - x4) * (x1 - x5) * (x2 - x3) * (x2 - x4) * (x2 - x5) * (x3 -
     x4) * (x3 - x5) * (x4 - x5)) =
      (- x1 * x3 * x4 * x5 * ((x1 - x3) * (x1 - x4) * (x1 - x5) * (x3 - x4) * (x3 - x5) * (x4 -
     x5))) * ((x2 - x1) * ((x2 - x3) * ((x2 - x4) * ((x2 - x5)))))"
      by algebra
  qed
qed

lemma quartic_extrap_weight3:
  fixes x1 x2 x3 x4 x5 :: real
  assumes "distinct [x1, x2, x3, x4, x5]"
  shows "((0 - x1) / (x3 - x1)) * (((0 - x2) / (x3 - x2)) * (((0 - x4) / (x3 - x4)) * (((0 - x5) /
     (x3 - x5))))) =
     (x1 * x2 * x4 * x5 * ((x1 - x2) * (x1 - x4) * (x1 - x5) * (x2 - x4) * (x2 - x5) * (x4 - x5))) /
     ((x1 - x2) * (x1 - x3) * (x1 - x4) * (x1 - x5) * (x2 - x3) * (x2 - x4) * (x2 - x5) * (x3 -
     x4) * (x3 - x5) * (x4 - x5))"
proof -
  have nz: "x3 - x1 \<noteq> 0" "x3 - x2 \<noteq> 0" "x3 - x4 \<noteq> 0" "x3 - x5 \<noteq> 0"
    using assms by auto
  have w: "((0 - x1) / (x3 - x1)) * (((0 - x2) / (x3 - x2)) * (((0 - x4) / (x3 - x4)) * (((0 - x5) /
     (x3 - x5))))) =
     ((0 - x1) * ((0 - x2) * ((0 - x4) * ((0 - x5))))) / ((x3 - x1) * ((x3 - x2) * ((x3 - x4) * ((x3 - x5)))))"
    by (simp only: times_divide_times_eq)
  show ?thesis
    unfolding w
  proof (rule iffD2[OF frac_eq_eq])
    show "(x3 - x1) * ((x3 - x2) * ((x3 - x4) * ((x3 - x5)))) \<noteq> 0"
      using nz by simp
    show "(x1 - x2) * (x1 - x3) * (x1 - x4) * (x1 - x5) * (x2 - x3) * (x2 - x4) * (x2 - x5) * (x3 -
     x4) * (x3 - x5) * (x4 - x5) \<noteq> 0"
      using assms by simp
    show "((0 - x1) * ((0 - x2) * ((0 - x4) * ((0 - x5))))) * ((x1 - x2) * (x1 - x3) * (x1 - x4) * (x1 - x5) * (x2 - x3) * (x2 - x4) * (x2 - x5) * (x3 -
     x4) * (x3 - x5) * (x4 - x5)) =
      (x1 * x2 * x4 * x5 * ((x1 - x2) * (x1 - x4) * (x1 - x5) * (x2 - x4) * (x2 - x5) * (x4 - x5))) * ((x3 - x1) * ((x3 - x2) * ((x3 - x4) * ((x3 - x5)))))"
      by algebra
  qed
qed

lemma quartic_extrap_weight4:
  fixes x1 x2 x3 x4 x5 :: real
  assumes "distinct [x1, x2, x3, x4, x5]"
  shows "((0 - x1) / (x4 - x1)) * (((0 - x2) / (x4 - x2)) * (((0 - x3) / (x4 - x3)) * (((0 - x5) /
     (x4 - x5))))) =
     (- x1 * x2 * x3 * x5 * ((x1 - x2) * (x1 - x3) * (x1 - x5) * (x2 - x3) * (x2 - x5) * (x3 -
     x5))) /
     ((x1 - x2) * (x1 - x3) * (x1 - x4) * (x1 - x5) * (x2 - x3) * (x2 - x4) * (x2 - x5) * (x3 -
     x4) * (x3 - x5) * (x4 - x5))"
proof -
  have nz: "x4 - x1 \<noteq> 0" "x4 - x2 \<noteq> 0" "x4 - x3 \<noteq> 0" "x4 - x5 \<noteq> 0"
    using assms by auto
  have w: "((0 - x1) / (x4 - x1)) * (((0 - x2) / (x4 - x2)) * (((0 - x3) / (x4 - x3)) * (((0 - x5) /
     (x4 - x5))))) =
     ((0 - x1) * ((0 - x2) * ((0 - x3) * ((0 - x5))))) / ((x4 - x1) * ((x4 - x2) * ((x4 - x3) * ((x4 - x5)))))"
    by (simp only: times_divide_times_eq)
  show ?thesis
    unfolding w
  proof (rule iffD2[OF frac_eq_eq])
    show "(x4 - x1) * ((x4 - x2) * ((x4 - x3) * ((x4 - x5)))) \<noteq> 0"
      using nz by simp
    show "(x1 - x2) * (x1 - x3) * (x1 - x4) * (x1 - x5) * (x2 - x3) * (x2 - x4) * (x2 - x5) * (x3 -
     x4) * (x3 - x5) * (x4 - x5) \<noteq> 0"
      using assms by simp
    show "((0 - x1) * ((0 - x2) * ((0 - x3) * ((0 - x5))))) * ((x1 - x2) * (x1 - x3) * (x1 - x4) * (x1 - x5) * (x2 - x3) * (x2 - x4) * (x2 - x5) * (x3 -
     x4) * (x3 - x5) * (x4 - x5)) =
      (- x1 * x2 * x3 * x5 * ((x1 - x2) * (x1 - x3) * (x1 - x5) * (x2 - x3) * (x2 - x5) * (x3 -
     x5))) * ((x4 - x1) * ((x4 - x2) * ((x4 - x3) * ((x4 - x5)))))"
      by algebra
  qed
qed

lemma quartic_extrap_weight5:
  fixes x1 x2 x3 x4 x5 :: real
  assumes "distinct [x1, x2, x3, x4, x5]"
  shows "((0 - x1) / (x5 - x1)) * (((0 - x2) / (x5 - x2)) * (((0 - x3) / (x5 - x3)) * (((0 - x4) /
     (x5 - x4))))) =
     (x1 * x2 * x3 * x4 * ((x1 - x2) * (x1 - x3) * (x1 - x4) * (x2 - x3) * (x2 - x4) * (x3 - x4))) /
     ((x1 - x2) * (x1 - x3) * (x1 - x4) * (x1 - x5) * (x2 - x3) * (x2 - x4) * (x2 - x5) * (x3 -
     x4) * (x3 - x5) * (x4 - x5))"
proof -
  have nz: "x5 - x1 \<noteq> 0" "x5 - x2 \<noteq> 0" "x5 - x3 \<noteq> 0" "x5 - x4 \<noteq> 0"
    using assms by auto
  have w: "((0 - x1) / (x5 - x1)) * (((0 - x2) / (x5 - x2)) * (((0 - x3) / (x5 - x3)) * (((0 - x4) /
     (x5 - x4))))) =
     ((0 - x1) * ((0 - x2) * ((0 - x3) * ((0 - x4))))) / ((x5 - x1) * ((x5 - x2) * ((x5 - x3) * ((x5 - x4)))))"
    by (simp only: times_divide_times_eq)
  show ?thesis
    unfolding w
  proof (rule iffD2[OF frac_eq_eq])
    show "(x5 - x1) * ((x5 - x2) * ((x5 - x3) * ((x5 - x4)))) \<noteq> 0"
      using nz by simp
    show "(x1 - x2) * (x1 - x3) * (x1 - x4) * (x1 - x5) * (x2 - x3) * (x2 - x4) * (x2 - x5) * (x3 -
     x4) * (x3 - x5) * (x4 - x5) \<noteq> 0"
      using assms by simp
    show "((0 - x1) * ((0 - x2) * ((0 - x3) * ((0 - x4))))) * ((x1 - x2) * (x1 - x3) * (x1 - x4) * (x1 - x5) * (x2 - x3) * (x2 - x4) * (x2 - x5) * (x3 -
     x4) * (x3 - x5) * (x4 - x5)) =
      (x1 * x2 * x3 * x4 * ((x1 - x2) * (x1 - x3) * (x1 - x4) * (x2 - x3) * (x2 - x4) * (x3 - x4))) * ((x5 - x1) * ((x5 - x2) * ((x5 - x3) * ((x5 - x4)))))"
      by algebra
  qed
qed

lemma quartic_extrap_sum_div:
  fixes V :: real
  shows "(y1 * A1 + y2 * A2 + y3 * A3 + y4 * A4 + y5 * A5) / V =
     y1 * (A1 / V) + (y2 * (A2 / V) + (y3 * (A3 / V) + (y4 * (A4 / V) + (y5 * (A5 / V)))))"
  by (simp add: add_divide_distrib)

lemma quartic_extrap_lagrange:
  fixes x1 x2 x3 x4 x5 y1 y2 y3 y4 y5 :: real
  assumes "distinct [x1, x2, x3, x4, x5]"
  shows "quartic_extrap (y1, y2, y3, y4, y5) (x1, x2, x3, x4, x5) = lagrange_at_zero [x1, x2, x3, x4, x5] [y1, y2, y3, y4, y5]"
  unfolding quartic_extrap.simps quartic_extrap_numer quartic_extrap_denom lagrange_at_zero_5
    quartic_extrap_weight1[OF assms] quartic_extrap_weight2[OF assms] quartic_extrap_weight3[OF
    assms] quartic_extrap_weight4[OF assms] quartic_extrap_weight5[OF assms]
  by (simp only: minus_divide_divide quartic_extrap_sum_div)

lemma lagrange_at_zero_6:
  "lagrange_at_zero [x1, x2, x3, x4, x5, x6] [y1, y2, y3, y4, y5, y6] =
     y1 * (((0 - x2) / (x1 - x2)) * (((0 - x3) / (x1 - x3)) * (((0 - x4) / (x1 - x4)) * (((0 -
     x5) / (x1 - x5)) * (((0 - x6) / (x1 - x6))))))) + (y2 * (((0 - x1) / (x2 - x1)) * (((0 - x3)
     / (x2 - x3)) * (((0 - x4) / (x2 - x4)) * (((0 - x5) / (x2 - x5)) * (((0 - x6) / (x2 -
     x6))))))) + (y3 * (((0 - x1) / (x3 - x1)) * (((0 - x2) / (x3 - x2)) * (((0 - x4) / (x3 -
     x4)) * (((0 - x5) / (x3 - x5)) * (((0 - x6) / (x3 - x6))))))) + (y4 * (((0 - x1) / (x4 -
     x1)) * (((0 - x2) / (x4 - x2)) * (((0 - x3) / (x4 - x3)) * (((0 - x5) / (x4 - x5)) * (((0 -
     x6) / (x4 - x6))))))) + (y5 * (((0 - x1) / (x5 - x1)) * (((0 - x2) / (x5 - x2)) * (((0 - x3)
     / (x5 - x3)) * (((0 - x4) / (x5 - x4)) * (((0 - x6) / (x5 - x6))))))) + (y6 * (((0 - x1) /
     (x6 - x1)) * (((0 - x2) / (x6 - x2)) * (((0 - x3) / (x6 - x3)) * (((0 - x4) / (x6 - x4)) *
     (((0 - x5) / (x6 - x5))))))))))))"
  by (simp add: lagrange_at_zero_def lagrange_weight_def upt_rec)

lemma quintic_extrap_weight1:
  fixes x1 x2 x3 x4 x5 x6 :: real
  assumes "distinct [x1, x2, x3, x4, x5, x6]"
  shows "((0 - x2) / (x1 - x2)) * (((0 - x3) / (x1 - x3)) * (((0 - x4) / (x1 - x4)) * (((0 - x5) /
     (x1 - x5)) * (((0 - x6) / (x1 - x6)))))) =
     (- x2 * x3 * x4 * x5 * x6 * ((x2 - x3) * (x2 - x4) * (x2 - x5) * (x2 - x6) * (x3 - x4) * (x3
     - x5) * (x3 - x6) * (x4 - x5) * (x4 - x6) * (x5 - x6))) /
     ((x1 - x2) * (x1 - x3) * (x1 - x4) * (x1 - x5) * (x1 - x6) * (x2 - x3) * (x2 - x4) * (x2 -
     x5) * (x2 - x6) * (x3 - x4) * (x3 - x5) * (x3 - x6) * (x4 - x5) * (x4 - x6) * (x5 - x6))"
proof -
  have nz: "x1 - x2 \<noteq> 0" "x1 - x3 \<noteq> 0" "x1 - x4 \<noteq> 0" "x1 - x5 \<noteq> 0" "x1 - x6 \<noteq> 0"
    using assms by auto
  have w: "((0 - x2) / (x1 - x2)) * (((0 - x3) / (x1 - x3)) * (((0 - x4) / (x1 - x4)) * (((0 - x5) /
     (x1 - x5)) * (((0 - x6) / (x1 - x6)))))) =
     ((0 - x2) * ((0 - x3) * ((0 - x4) * ((0 - x5) * ((0 - x6)))))) / ((x1 - x2) * ((x1 - x3) * ((x1 - x4) * ((x1 - x5) * ((x1 - x6))))))"
    by (simp only: times_divide_times_eq)
  show ?thesis
    unfolding w
  proof (rule iffD2[OF frac_eq_eq])
    show "(x1 - x2) * ((x1 - x3) * ((x1 - x4) * ((x1 - x5) * ((x1 - x6))))) \<noteq> 0"
      using nz by simp
    show "(x1 - x2) * (x1 - x3) * (x1 - x4) * (x1 - x5) * (x1 - x6) * (x2 - x3) * (x2 - x4) * (x2 -
     x5) * (x2 - x6) * (x3 - x4) * (x3 - x5) * (x3 - x6) * (x4 - x5) * (x4 - x6) * (x5 - x6) \<noteq> 0"
      using assms by simp
    show "((0 - x2) * ((0 - x3) * ((0 - x4) * ((0 - x5) * ((0 - x6)))))) * ((x1 - x2) * (x1 - x3) * (x1 - x4) * (x1 - x5) * (x1 - x6) * (x2 - x3) * (x2 - x4) * (x2 -
     x5) * (x2 - x6) * (x3 - x4) * (x3 - x5) * (x3 - x6) * (x4 - x5) * (x4 - x6) * (x5 - x6)) =
      (- x2 * x3 * x4 * x5 * x6 * ((x2 - x3) * (x2 - x4) * (x2 - x5) * (x2 - x6) * (x3 - x4) * (x3
     - x5) * (x3 - x6) * (x4 - x5) * (x4 - x6) * (x5 - x6))) * ((x1 - x2) * ((x1 - x3) * ((x1 - x4) * ((x1 - x5) * ((x1 - x6))))))"
      by algebra
  qed
qed

lemma quintic_extrap_weight2:
  fixes x1 x2 x3 x4 x5 x6 :: real
  assumes "distinct [x1, x2, x3, x4, x5, x6]"
  shows "((0 - x1) / (x2 - x1)) * (((0 - x3) / (x2 - x3)) * (((0 - x4) / (x2 - x4)) * (((0 - x5) /
     (x2 - x5)) * (((0 - x6) / (x2 - x6)))))) =
     (x1 * x3 * x4 * x5 * x6 * ((x1 - x3) * (x1 - x4) * (x1 - x5) * (x1 - x6) * (x3 - x4) * (x3 -
     x5) * (x3 - x6) * (x4 - x5) * (x4 - x6) * (x5 - x6))) /
     ((x1 - x2) * (x1 - x3) * (x1 - x4) * (x1 - x5) * (x1 - x6) * (x2 - x3) * (x2 - x4) * (x2 -
     x5) * (x2 - x6) * (x3 - x4) * (x3 - x5) * (x3 - x6) * (x4 - x5) * (x4 - x6) * (x5 - x6))"
proof -
  have nz: "x2 - x1 \<noteq> 0" "x2 - x3 \<noteq> 0" "x2 - x4 \<noteq> 0" "x2 - x5 \<noteq> 0" "x2 - x6 \<noteq> 0"
    using assms by auto
  have w: "((0 - x1) / (x2 - x1)) * (((0 - x3) / (x2 - x3)) * (((0 - x4) / (x2 - x4)) * (((0 - x5) /
     (x2 - x5)) * (((0 - x6) / (x2 - x6)))))) =
     ((0 - x1) * ((0 - x3) * ((0 - x4) * ((0 - x5) * ((0 - x6)))))) / ((x2 - x1) * ((x2 - x3) * ((x2 - x4) * ((x2 - x5) * ((x2 - x6))))))"
    by (simp only: times_divide_times_eq)
  show ?thesis
    unfolding w
  proof (rule iffD2[OF frac_eq_eq])
    show "(x2 - x1) * ((x2 - x3) * ((x2 - x4) * ((x2 - x5) * ((x2 - x6))))) \<noteq> 0"
      using nz by simp
    show "(x1 - x2) * (x1 - x3) * (x1 - x4) * (x1 - x5) * (x1 - x6) * (x2 - x3) * (x2 - x4) * (x2 -
     x5) * (x2 - x6) * (x3 - x4) * (x3 - x5) * (x3 - x6) * (x4 - x5) * (x4 - x6) * (x5 - x6) \<noteq> 0"
      using assms by simp
    show "((0 - x1) * ((0 - x3) * ((0 - x4) * ((0 - x5) * ((0 - x6)))))) * ((x1 - x2) * (x1 - x3) * (x1 - x4) * (x1 - x5) * (x1 - x6) * (x2 - x3) * (x2 - x4) * (x2 -
     x5) * (x2 - x6) * (x3 - x4) * (x3 - x5) * (x3 - x6) * (x4 - x5) * (x4 - x6) * (x5 - x6)) =
      (x1 * x3 * x4 * x5 * x6 * ((x1 - x3) * (x1 - x4) * (x1 - x5) * (x1 - x6) * (x3 - x4) * (x3 -
     x5) * (x3 - x6) * (x4 - x5) * (x4 - x6) * (x5 - x6))) * ((x2 - x1) * ((x2 - x3) * ((x2 - x4) * ((x2 - x5) * ((x2 - x6))))))"
      by algebra
  qed
qed

lemma quintic_extrap_weight3:
  fixes x1 x2 x3 x4 x5 x6 :: real
  assumes "distinct [x1, x2, x3, x4, x5, x6]"
  shows "((0 - x1) / (x3 - x1)) * (((0 - x2) / (x3 - x2)) * (((0 - x4) / (x3 - x4)) * (((0 - x5) /
     (x3 - x5)) * (((0 - x6) / (x3 - x6)))))) =
     (- x1 * x2 * x4 * x5 * x6 * ((x1 - x2) * (x1 - x4) * (x1 - x5) * (x1 - x6) * (x2 - x4) * (x2
     - x5) * (x2 - x6) * (x4 - x5) * (x4 - x6) * (x5 - x6))) /
     ((x1 - x2) * (x1 - x3) * (x1 - x4) * (x1 - x5) * (x1 - x6) * (x2 - x3) * (x2 - x4) * (x2 -
     x5) * (x2 - x6) * (x3 - x4) * (x3 - x5) * (x3 - x6) * (x4 - x5) * (x4 - x6) * (x5 - x6))"
proof -
  have nz: "x3 - x1 \<noteq> 0" "x3 - x2 \<noteq> 0" "x3 - x4 \<noteq> 0" "x3 - x5 \<noteq> 0" "x3 - x6 \<noteq> 0"
    using assms by auto
  have w: "((0 - x1) / (x3 - x1)) * (((0 - x2) / (x3 - x2)) * (((0 - x4) / (x3 - x4)) * (((0 - x5) /
     (x3 - x5)) * (((0 - x6) / (x3 - x6)))))) =
     ((0 - x1) * ((0 - x2) * ((0 - x4) * ((0 - x5) * ((0 - x6)))))) / ((x3 - x1) * ((x3 - x2) * ((x3 - x4) * ((x3 - x5) * ((x3 - x6))))))"
    by (simp only: times_divide_times_eq)
  show ?thesis
    unfolding w
  proof (rule iffD2[OF frac_eq_eq])
    show "(x3 - x1) * ((x3 - x2) * ((x3 - x4) * ((x3 - x5) * ((x3 - x6))))) \<noteq> 0"
      using nz by simp
    show "(x1 - x2) * (x1 - x3) * (x1 - x4) * (x1 - x5) * (x1 - x6) * (x2 - x3) * (x2 - x4) * (x2 -
     x5) * (x2 - x6) * (x3 - x4) * (x3 - x5) * (x3 - x6) * (x4 - x5) * (x4 - x6) * (x5 - x6) \<noteq> 0"
      using assms by simp
    show "((0 - x1) * ((0 - x2) * ((0 - x4) * ((0 - x5) * ((0 - x6)))))) * ((x1 - x2) * (x1 - x3) * (x1 - x4) * (x1 - x5) * (x1 - x6) * (x2 - x3) * (x2 - x4) * (x2 -
     x5) * (x2 - x6) * (x3 - x4) * (x3 - x5) * (x3 - x6) * (x4 - x5) * (x4 - x6) * (x5 - x6)) =
      (- x1 * x2 * x4 * x5 * x6 * ((x1 - x2) * (x1 - x4) * (x1 - x5) * (x1 - x6) * (x2 - x4) * (x2
     - x5) * (x2 - x6) * (x4 - x5) * (x4 - x6) * (x5 - x6))) * ((x3 - x1) * ((x3 - x2) * ((x3 - x4) * ((x3 - x5) * ((x3 - x6))))))"
      by algebra
  qed
qed

lemma quintic_extrap_weight4:
  fixes x1 x2 x3 x4 x5 x6 :: real
  assumes "distinct [x1, x2, x3, x4, x5, x6]"
  shows "((0 - x1) / (x4 - x1)) * (((0 - x2) / (x4 - x2)) * (((0 - x3) / (x4 - x3)) * (((0 - x5) /
     (x4 - x5)) * (((0 - x6) / (x4 - x6)))))) =
     (x1 * x2 * x3 * x5 * x6 * ((x1 - x2) * (x1 - x3) * (x1 - x5) * (x1 - x6) * (x2 - x3) * (x2 -
     x5) * (x2 - x6) * (x3 - x5) * (x3 - x6) * (x5 - x6))) /
     ((x1 - x2) * (x1 - x3) * (x1 - x4) * (x1 - x5) * (x1 - x6) * (x2 - x3) * (x2 - x4) * (x2 -
     x5) * (x2 - x6) * (x3 - x4) * (x3 - x5) * (x3 - x6) * (x4 - x5) * (x4 - x6) * (x5 - x6))"
proof -
  have nz: "x4 - x1 \<noteq> 0" "x4 - x2 \<noteq> 0" "x4 - x3 \<noteq> 0" "x4 - x5 \<noteq> 0" "x4 - x6 \<noteq> 0"
    using assms by auto
  have w: "((0 - x1) / (x4 - x1)) * (((0 - x2) / (x4 - x2)) * (((0 - x3) / (x4 - x3)) * (((0 - x5) /
     (x4 - x5)) * (((0 - x6) / (x4 - x6)))))) =
     ((0 - x1) * ((0 - x2) * ((0 - x3) * ((0 - x5) * ((0 - x6)))))) / ((x4 - x1) * ((x4 - x2) * ((x4 - x3) * ((x4 - x5) * ((x4 - x6))))))"
    by (simp only: times_divide_times_eq)
  show ?thesis
    unfolding w
  proof (rule iffD2[OF frac_eq_eq])
    show "(x4 - x1) * ((x4 - x2) * ((x4 - x3) * ((x4 - x5) * ((x4 - x6))))) \<noteq> 0"
      using nz by simp
    show "(x1 - x2) * (x1 - x3) * (x1 - x4) * (x1 - x5) * (x1 - x6) * (x2 - x3) * (x2 - x4) * (x2 -
     x5) * (x2 - x6) * (x3 - x4) * (x3 - x5) * (x3 - x6) * (x4 - x5) * (x4 - x6) * (x5 - x6) \<noteq> 0"
      using assms by simp
    show "((0 - x1) * ((0 - x2) * ((0 - x3) * ((0 - x5) * ((0 - x6)))))) * ((x1 - x2) * (x1 - x3) * (x1 - x4) * (x1 - x5) * (x1 - x6) * (x2 - x3) * (x2 - x4) * (x2 -
     x5) * (x2 - x6) * (x3 - x4) * (x3 - x5) * (x3 - x6) * (x4 - x5) * (x4 - x6) * (x5 - x6)) =
      (x1 * x2 * x3 * x5 * x6 * ((x1 - x2) * (x1 - x3) * (x1 - x5) * (x1 - x6) * (x2 - x3) * (x2 -
     x5) * (x2 - x6) * (x3 - x5) * (x3 - x6) * (x5 - x6))) * ((x4 - x1) * ((x4 - x2) * ((x4 - x3) * ((x4 - x5) * ((x4 - x6))))))"
      by algebra
  qed
qed

lemma quintic_extrap_weight5:
  fixes x1 x2 x3 x4 x5 x6 :: real
  assumes "distinct [x1, x2, x3, x4, x5, x6]"
  shows "((0 - x1) / (x5 - x1)) * (((0 - x2) / (x5 - x2)) * (((0 - x3) / (x5 - x3)) * (((0 - x4) /
     (x5 - x4)) * (((0 - x6) / (x5 - x6)))))) =
     (- x1 * x2 * x3 * x4 * x6 * ((x1 - x2) * (x1 - x3) * (x1 - x4) * (x1 - x6) * (x2 - x3) * (x2
     - x4) * (x2 - x6) * (x3 - x4) * (x3 - x6) * (x4 - x6))) /
     ((x1 - x2) * (x1 - x3) * (x1 - x4) * (x1 - x5) * (x1 - x6) * (x2 - x3) * (x2 - x4) * (x2 -
     x5) * (x2 - x6) * (x3 - x4) * (x3 - x5) * (x3 - x6) * (x4 - x5) * (x4 - x6) * (x5 - x6))"
proof -
  have nz: "x5 - x1 \<noteq> 0" "x5 - x2 \<noteq> 0" "x5 - x3 \<noteq> 0" "x5 - x4 \<noteq> 0" "x5 - x6 \<noteq> 0"
    using assms by auto
  have w: "((0 - x1) / (x5 - x1)) * (((0 - x2) / (x5 - x2)) * (((0 - x3) / (x5 - x3)) * (((0 - x4) /
     (x5 - x4)) * (((0 - x6) / (x5 - x6)))))) =
     ((0 - x1) * ((0 - x2) * ((0 - x3) * ((0 - x4) * ((0 - x6)))))) / ((x5 - x1) * ((x5 - x2) * ((x5 - x3) * ((x5 - x4) * ((x5 - x6))))))"
    by (simp only: times_divide_times_eq)
  show ?thesis
    unfolding w
  proof (rule iffD2[OF frac_eq_eq])
    show "(x5 - x1) * ((x5 - x2) * ((x5 - x3) * ((x5 - x4) * ((x5 - x6))))) \<noteq> 0"
      using nz by simp
    show "(x1 - x2) * (x1 - x3) * (x1 - x4) * (x1 - x5) * (x1 - x6) * (x2 - x3) * (x2 - x4) * (x2 -
     x5) * (x2 - x6) * (x3 - x4) * (x3 - x5) * (x3 - x6) * (x4 - x5) * (x4 - x6) * (x5 - x6) \<noteq> 0"
      using assms by simp
    show "((0 - x1) * ((0 - x2) * ((0 - x3) * ((0 - x4) * ((0 - x6)))))) * ((x1 - x2) * (x1 - x3) * (x1 - x4) * (x1 - x5) * (x1 - x6) * (x2 - x3) * (x2 - x4) * (x2 -
     x5) * (x2 - x6) * (x3 - x4) * (x3 - x5) * (x3 - x6) * (x4 - x5) * (x4 - x6) * (x5 - x6)) =
      (- x1 * x2 * x3 * x4 * x6 * ((x1 - x2) * (x1 - x3) * (x1 - x4) * (x1 - x6) * (x2 - x3) * (x2
     - x4) * (x2 - x6) * (x3 - x4) * (x3 - x6) * (x4 - x6))) * ((x5 - x1) * ((x5 - x2) * ((x5 - x3) * ((x5 - x4) * ((x5 - x6))))))"
      by algebra
  qed
qed

lemma quintic_extrap_weight6:
  fixes x1 x2 x3 x4 x5 x6 :: real
  assumes "distinct [x1, x2, x3, x4, x5, x6]"
  shows "((0 - x1) / (x6 - x1)) * (((0 - x2) / (x6 - x2)) * (((0 - x3) / (x6 - x3)) * (((0 - x4) /
     (x6 - x4)) * (((0 - x5) / (x6 - x5)))))) =
     (x1 * x2 * x3 * x4 * x5 * ((x1 - x2) * (x1 - x3) * (x1 - x4) * (x1 - x5) * (x2 - x3) * (x2 -
     x4) * (x2 - x5) * (x3 - x4) * (x3 - x5) * (x4 - x5))) /
     ((x1 - x2) * (x1 - x3) * (x1 - x4) * (x1 - x5) * (x1 - x6) * (x2 - x3) * (x2 - x4) * (x2 -
     x5) * (x2 - x6) * (x3 - x4) * (x3 - x5) * (x3 - x6) * (x4 - x5) * (x4 - x6) * (x5 - x6))"
proof -
  have nz: "x6 - x1 \<noteq> 0" "x6 - x2 \<noteq> 0" "x6 - x3 \<noteq> 0" "x6 - x4 \<noteq> 0" "x6 - x5 \<noteq> 0"
    using assms by auto
  have w: "((0 - x1) / (x6 - x1)) * (((0 - x2) / (x6 - x2)) * (((0 - x3) / (x6 - x3)) * (((0 - x4) /
     (x6 - x4)) * (((0 - x5) / (x6 - x5)))))) =
     ((0 - x1) * ((0 - x2) * ((0 - x3) * ((0 - x4) * ((0 - x5)))))) / ((x6 - x1) * ((x6 - x2) * ((x6 - x3) * ((x6 - x4) * ((x6 - x5))))))"
    by (simp only: times_divide_times_eq)
  show ?thesis
    unfolding w
  proof (rule iffD2[OF frac_eq_eq])
    show "(x6 - x1) * ((x6 - x2) * ((x6 - x3) * ((x6 - x4) * ((x6 - x5))))) \<noteq> 0"
      using nz by simp
    show "(x1 - x2) * (x1 - x3) * (x1 - x4) * (x1 - x5) * (x1 - x6) * (x2 - x3) * (x2 - x4) * (x2 -
     x5) * (x2 - x6) * (x3 - x4) * (x3 - x5) * (x3 - x6) * (x4 - x5) * (x4 - x6) * (x5 - x6) \<noteq> 0"
      using assms by simp
    show "((0 - x1) * ((0 - x2) * ((0 - x3) * ((0 - x4) * ((0 - x5)))))) * ((x1 - x2) * (x1 - x3) * (x1 - x4) * (x1 - x5) * (x1 - x6) * (x2 - x3) * (x2 - x4) * (x2 -
     x5) * (x2 - x6) * (x3 - x4) * (x3 - x5) * (x3 - x6) * (x4 - x5) * (x4 - x6) * (x5 - x6)) =
      (x1 * x2 * x3 * x4 * x5 * ((x1 - x2) * (x1 - x3) * (x1 - x4) * (x1 - x5) * (x2 - x3) * (x2 -
     x4) * (x2 - x5) * (x3 - x4) * (x3 - x5) * (x4 - x5))) * ((x6 - x1) * ((x6 - x2) * ((x6 - x3) * ((x6 - x4) * ((x6 - x5))))))"
      by algebra
  qed
qed

lemma quintic_extrap_sum_div:
  fixes V :: real
  shows "(y1 * A1 + y2 * A2 + y3 * A3 + y4 * A4 + y5 * A5 + y6 * A6) / V =
     y1 * (A1 / V) + (y2 * (A2 / V) + (y3 * (A3 / V) + (y4 * (A4 / V) + (y5 * (A5 / V) + (y6 *
     (A6 / V))))))"
  by (simp add: add_divide_distrib)

lemma quintic_extrap_lagrange:
  fixes x1 x2 x3 x4 x5 x6 y1 y2 y3 y4 y5 y6 :: real
  assumes "distinct [x1, x2, x3, x4, x5, x6]"
  shows "quintic_extrap (y1, y2, y3, y4, y5, y6) (x1, x2, x3, x4, x5, x6) = lagrange_at_zero [x1, x2, x3, x4, x5, x6] [y1, y2, y3, y4, y5, y6]"
  unfolding quintic_extrap.simps quintic_extrap_numer quintic_extrap_denom lagrange_at_zero_6
    quintic_extrap_weight1[OF assms] quintic_extrap_weight2[OF assms] quintic_extrap_weight3[OF
    assms] quintic_extrap_weight4[OF assms] quintic_extrap_weight5[OF assms]
    quintic_extrap_weight6[OF assms]
  by (simp only: minus_divide_divide quintic_extrap_sum_div)

lemma list_of_length_2:
  "length ys = 2 \<Longrightarrow> \<exists>a b. ys = [a, b]"
  by (auto simp add: eval_nat_numeral length_Suc_conv)

lemma list_of_length_3:
  "length ys = 3 \<Longrightarrow> \<exists>a b c. ys = [a, b, c]"
  by (auto simp add: eval_nat_numeral length_Suc_conv)

lemma list_of_length_4:
  "length ys = 4 \<Longrightarrow> \<exists>a b c d. ys = [a, b, c, d]"
  by (auto simp add: eval_nat_numeral length_Suc_conv)

lemma list_of_length_5:
  "length ys = 5 \<Longrightarrow> \<exists>a b c d e. ys = [a, b, c, d, e]"
  by (auto simp add: eval_nat_numeral length_Suc_conv)

lemma list_of_length_6:
  "length ys = 6 \<Longrightarrow> \<exists>a b c d e f. ys = [a, b, c, d, e, f]"
  by (auto simp add: eval_nat_numeral length_Suc_conv)

lemma linear_extrap_poly:
  fixes cs :: "real list" and x1 x2 :: real
  assumes len: "length cs \<le> 2" and dist: "distinct [x1, x2]"
  shows "linear_extrap (polyval cs x1, polyval cs x2)
     (x1, x2) = polyval cs 0"
proof -
  have "length (cs @ replicate (2 - length cs) 0) = 2"
    using len by simp
  then obtain c0 c1 where c: "cs @ replicate (2 - length cs) 0 = [c0, c1]"
    using list_of_length_2 by blast
  have p: "polyval cs x = polyval [c0, c1] x" for x
    unfolding c[symmetric] by (simp add: polyval_pad)
  have e0: "polyval cs 0 = c0"
    by (simp add: p)
  have "linear_extrap (polyval cs x1, polyval cs x2)
     (x1, x2) =
     linear_extrap (polyval [c0, c1] x1, polyval [c0, c1] x2)
     (x1, x2)"
    by (simp only: p)
  also have "\<dots> = c0"
    by (rule linear_extrap_coeffs[OF dist])
  finally show ?thesis
    by (simp only: e0)
qed

lemma quadratic_extrap_poly:
  fixes cs :: "real list" and x1 x2 x3 :: real
  assumes len: "length cs \<le> 3" and dist: "distinct [x1, x2, x3]"
  shows "quadratic_extrap (polyval cs x1, polyval cs x2, polyval cs x3)
     (x1, x2, x3) = polyval cs 0"
proof -
  have "length (cs @ replicate (3 - length cs) 0) = 3"
    using len by simp
  then obtain c0 c1 c2 where c: "cs @ replicate (3 - length cs) 0 = [c0, c1, c2]"
    using list_of_length_3 by blast
  have p: "polyval cs x = polyval [c0, c1, c2] x" for x
    unfolding c[symmetric] by (simp add: polyval_pad)
  have e0: "polyval cs 0 = c0"
    by (simp add: p)
  have "quadratic_extrap (polyval cs x1, polyval cs x2, polyval cs x3)
     (x1, x2, x3) =
     quadratic_extrap (polyval [c0, c1, c2] x1, polyval [c0, c1, c2] x2, polyval [c0, c1, c2] x3)
     (x1, x2, x3)"
    by (simp only: p)
  also have "\<dots> = c0"
    by (rule quadratic_extrap_coeffs[OF dist])
  finally show ?thesis
    by (simp only: e0)
qed

lemma cubic_extrap_poly:
  fixes cs :: "real list" and x1 x2 x3 x4 :: real
  assumes len: "length cs \<le> 4" and dist: "distinct [x1, x2, x3, x4]"
  shows "cubic_extrap (polyval cs x1, polyval cs x2, polyval cs x3, polyval cs x4)
     (x1, x2, x3, x4) = polyval cs 0"
proof -
  have "length (cs @ replicate (4 - length cs) 0) = 4"
    using len by simp
  then obtain c0 c1 c2 c3 where c: "cs @ replicate (4 - length cs) 0 = [c0, c1, c2, c3]"
    using list_of_length_4 by blast
  have p: "polyval cs x = polyval [c0, c1, c2, c3] x" for x
    unfolding c[symmetric] by (simp add: polyval_pad)
  have e0: "polyval cs 0 = c0"
    by (simp add: p)
  have "cubic_extrap (polyval cs x1, polyval cs x2, polyval cs x3, polyval cs x4)
     (x1, x2, x3, x4) =
     cubic_extrap (polyval [c0, c1, c2, c3] x1, polyval [c0, c1, c2, c3] x2, polyval [c0, c1, c2, c3] x3, polyval [c0, c1, c2, c3] x4)
     (x1, x2, x3, x4)"
    by (simp only: p)
  also have "\<dots> = c0"
    by (rule cubic_extrap_coeffs[OF dist])
  finally show ?thesis
    by (simp only: e0)
qed

lemma quartic_extrap_poly:
  fixes cs :: "real list" and x1 x2 x3 x4 x5 :: real
  assumes len: "length cs \<le> 5" and dist: "distinct [x1, x2, x3, x4, x5]"
  shows "quartic_extrap (polyval cs x1, polyval cs x2, polyval cs x3, polyval cs x4, polyval cs x5)
     (x1, x2, x3, x4, x5) = polyval cs 0"
proof -
  have "length (cs @ replicate (5 - length cs) 0) = 5"
    using len by simp
  then obtain c0 c1 c2 c3 c4 where c: "cs @ replicate (5 - length cs) 0 = [c0, c1, c2, c3, c4]"
    using list_of_length_5 by blast
  have p: "polyval cs x = polyval [c0, c1, c2, c3, c4] x" for x
    unfolding c[symmetric] by (simp add: polyval_pad)
  have e0: "polyval cs 0 = c0"
    by (simp add: p)
  have "quartic_extrap (polyval cs x1, polyval cs x2, polyval cs x3, polyval cs x4, polyval cs x5)
     (x1, x2, x3, x4, x5) =
     quartic_extrap (polyval [c0, c1, c2, c3, c4] x1, polyval [c0, c1, c2, c3, c4] x2, polyval [c0, c1, c2, c3, c4] x3, polyval [c0, c1, c2, c3, c4] x4, polyval [c0, c1, c2, c3, c4] x5)
     (x1, x2, x3, x4, x5)"
    by (simp only: p)
  also have "\<dots> = c0"
    by (rule quartic_extrap_coeffs[OF dist])
  finally show ?thesis
    by (simp only: e0)
qed

lemma quintic_extrap_poly:
  fixes cs :: "real list" and x1 x2 x3 x4 x5 x6 :: real
  assumes len: "length cs \<le> 6" and dist: "distinct [x1, x2, x3, x4, x5, x6]"
  shows "quintic_extrap (polyval cs x1, polyval cs x2, polyval cs x3, polyval cs x4, polyval cs x5, polyval cs x6)
     (x1, x2, x3, x4, x5, x6) = polyval cs 0"
proof -
  have "length (cs @ replicate (6 - length cs) 0) = 6"
    using len by simp
  then obtain c0 c1 c2 c3 c4 c5 where c: "cs @ replicate (6 - length cs) 0 = [c0, c1, c2, c3, c4, c5]"
    using list_of_length_6 by blast
  have p: "polyval cs x = polyval [c0, c1, c2, c3, c4, c5] x" for x
    unfolding c[symmetric] by (simp add: polyval_pad)
  have e0: "polyval cs 0 = c0"
    by (simp add: p)
  have "quintic_extrap (polyval cs x1, polyval cs x2, polyval cs x3, polyval cs x4, polyval cs x5, polyval cs x6)
     (x1, x2, x3, x4, x5, x6) =
     quintic_extrap (polyval [c0, c1, c2, c3, c4, c5] x1, polyval [c0, c1, c2, c3, c4, c5] x2, polyval [c0, c1, c2, c3, c4, c5] x3, polyval [c0, c1, c2, c3, c4, c5] x4, polyval [c0, c1, c2, c3, c4, c5] x5, polyval [c0, c1, c2, c3, c4, c5] x6)
     (x1, x2, x3, x4, x5, x6)"
    by (simp only: p)
  also have "\<dots> = c0"
    by (rule quintic_extrap_coeffs[OF dist])
  finally show ?thesis
    by (simp only: e0)
qed

lemma extrapolators_nd_poly:
  fixes cs :: "'i \<Rightarrow> real list" and x1 x2 x3 x4 x5 x6 :: real
  shows
  "((\<forall>i. length (cs i) \<le> 2) \<and> distinct [x1, x2] \<longrightarrow>
      linear_extrap_nd [\<lambda>i. polyval (cs i) x1, \<lambda>i. polyval (cs i) x2]
        [x1, x2] = Inr (\<lambda>i. polyval (cs i) 0)) \<and>
   ((\<forall>i. length (cs i) \<le> 3) \<and> distinct [x1, x2, x3] \<longrightarrow>
      quadratic_extrap_nd [\<lambda>i. polyval (cs i) x1, \<lambda>i. polyval (cs i) x2, \<lambda>i. polyval (cs i) x3]
        [x1, x2, x3] = Inr (\<lambda>i. polyval (cs i) 0)) \<and>
   ((\<forall>i. length (cs i) \<le> 4) \<and> distinct [x1, x2, x3, x4] \<longrightarrow>
      cubic_extrap_nd [\<lambda>i. polyval (cs i) x1, \<lambda>i. polyval (cs i) x2, \<lambda>i. polyval (cs i) x3, \<lambda>i. polyval (cs i) x4]
        [x1, x2, x3, x4] = Inr (\<lambda>i. polyval (cs i) 0)) \<and>
   ((\<forall>i. length (cs i) \<le> 5) \<and> distinct [x1, x2, x3, x4, x5] \<longrightarrow>
      quartic_extrap_nd [\<lambda>i. polyval (cs i) x1, \<lambda>i. polyval (cs i) x2, \<lambda>i. polyval (cs i) x3, \<lambda>i. polyval (cs i) x4, \<lambda>i. polyval (cs i) x5]
        [x1, x2, x3, x4, x5] = Inr (\<lambda>i. polyval (cs i) 0)) \<and>
   ((\<forall>i. length (cs i) \<le> 6) \<and> distinct [x1, x2, x3, x4, x5, x6] \<longrightarrow>
      quintic_extrap_nd [\<lambda>i. polyval (cs i) x1, \<lambda>i. polyval (cs i) x2, \<lambda>i. polyval (cs i) x3, \<lambda>i. polyval (cs i) x4, \<lambda>i. polyval (cs i) x5, \<lambda>i. polyval (cs i) x6]
        [x1, x2, x3, x4, x5, x6] = Inr (\<lambda>i. polyval (cs i) 0))"
  by (simp add: linear_extrap_nd_def quadratic_extrap_nd_def cubic_extrap_nd_def
      quartic_extrap_nd_def quintic_extrap_nd_def linear_extrap_poly quadratic_extrap_poly
      cubic_extrap_poly quartic_extrap_poly quintic_extrap_poly del: distinct.simps polyval.simps)

lemma extrapolators_nd_lagrange:
  fixes y1 y2 y3 y4 y5 y6 :: "'i ndarray" and x1 x2 x3 x4 x5 x6 :: real
  shows
  "(distinct [x1, x2] \<longrightarrow>
      linear_extrap_nd [y1, y2] [x1, x2] =
        Inr (\<lambda>i. lagrange_at_zero [x1, x2] [y1 i, y2 i])) \<and>
   (distinct [x1, x2, x3] \<longrightarrow>
      quadratic_extrap_nd [y1, y2, y3] [x1, x2, x3] =
        Inr (\<lambda>i. lagrange_at_zero [x1, x2, x3] [y1 i, y2 i, y3 i])) \<and>
   (distinct [x1, x2, x3, x4] \<longrightarrow>
      cubic_extrap_nd [y1, y2, y3, y4] [x1, x2, x3, x4] =
        Inr (\<lambda>i. lagrange_at_zero [x1, x2, x3, x4] [y1 i, y2 i, y3 i, y4 i])) \<and>
   (distinct [x1, x2, x3, x4, x5] \<longrightarrow>
      quartic_extrap_nd [y1, y2, y3, y4, y5] [x1, x2, x3, x4, x5] =
        Inr (\<lambda>i. lagrange_at_zero [x1, x2, x3, x4, x5] [y1 i, y2 i, y3 i, y4 i, y5 i])) \<and>
   (distinct [x1, x2, x3, x4, x5, x6] \<longrightarrow>
      quintic_extrap_nd [y1, y2, y3, y4, y5, y6] [x1, x2, x3, x4, x5, x6] =
        Inr (\<lambda>i. lagrange_at_zero [x1, x2, x3, x4, x5, x6] [y1 i, y2 i, y3 i, y4 i, y5 i, y6 i]))"
  by (simp add: linear_extrap_nd_def quadratic_extrap_nd_def cubic_extrap_nd_def
      quartic_extrap_nd_def quintic_extrap_nd_def linear_extrap_lagrange quadratic_extrap_lagrange
      cubic_extrap_lagrange quartic_extrap_lagrange quintic_extrap_lagrange del: distinct.simps)

text \<open>
  C1. In exact arithmetic, for each order \<open>k\<close> from 2 to 6 and pairwise distinct
  positions \<open>x1, ..., xk\<close>: if the values are those of a polynomial of degree at most
  \<open>k - 1\<close> at the positions (for arrays, of one such polynomial \<open>cs i\<close> for each element
  \<open>i\<close>), the extrapolator of order \<open>k\<close> returns the value of the polynomial at 0; and
  for any values, it returns the value at 0 of the interpolating polynomial of Lagrange
  through the \<open>k\<close> points, element by element. A list of at most \<open>k\<close> coefficients is a
  polynomial of degree at most \<open>k - 1\<close>; a scalar is the array with a single element.
\<close>

theorem extrapolators_exact_on_polynomials:
  fixes cs :: "'i \<Rightarrow> real list" and y1 y2 y3 y4 y5 y6 :: "'i ndarray"
    and x1 x2 x3 x4 x5 x6 :: real
  shows
  "(((\<forall>i. length (cs i) \<le> 2) \<and> distinct [x1, x2] \<longrightarrow>
      linear_extrap_nd [\<lambda>i. polyval (cs i) x1, \<lambda>i. polyval (cs i) x2]
        [x1, x2] = Inr (\<lambda>i. polyval (cs i) 0)) \<and>
   ((\<forall>i. length (cs i) \<le> 3) \<and> distinct [x1, x2, x3] \<longrightarrow>
      quadratic_extrap_nd [\<lambda>i. polyval (cs i) x1, \<lambda>i. polyval (cs i) x2, \<lambda>i. polyval (cs i) x3]
        [x1, x2, x3] = Inr (\<lambda>i. polyval (cs i) 0)) \<and>
   ((\<forall>i. length (cs i) \<le> 4) \<and> distinct [x1, x2, x3, x4] \<longrightarrow>
      cubic_extrap_nd [\<lambda>i. polyval (cs i) x1, \<lambda>i. polyval (cs i) x2, \<lambda>i. polyval (cs i) x3, \<lambda>i. polyval (cs i) x4]
        [x1, x2, x3, x4] = Inr (\<lambda>i. polyval (cs i) 0)) \<and>
   ((\<forall>i. length (cs i) \<le> 5) \<and> distinct [x1, x2, x3, x4, x5] \<longrightarrow>
      quartic_extrap_nd [\<lambda>i. polyval (cs i) x1, \<lambda>i. polyval (cs i) x2, \<lambda>i. polyval (cs i) x3, \<lambda>i. polyval (cs i) x4, \<lambda>i. polyval (cs i) x5]
        [x1, x2, x3, x4, x5] = Inr (\<lambda>i. polyval (cs i) 0)) \<and>
   ((\<forall>i. length (cs i) \<le> 6) \<and> distinct [x1, x2, x3, x4, x5, x6] \<longrightarrow>
      quintic_extrap_nd [\<lambda>i. polyval (cs i) x1, \<lambda>i. polyval (cs i) x2, \<lambda>i. polyval (cs i) x3, \<lambda>i. polyval (cs i) x4, \<lambda>i. polyval (cs i) x5, \<lambda>i. polyval (cs i) x6]
        [x1, x2, x3, x4, x5, x6] = Inr (\<lambda>i. polyval (cs i) 0))) \<and>
   ((distinct [x1, x2] \<longrightarrow>
      linear_extrap_nd [y1, y2] [x1, x2] =
        Inr (\<lambda>i. lagrange_at_zero [x1, x2] [y1 i, y2 i])) \<and>
   (distinct [x1, x2, x3] \<longrightarrow>
      quadratic_extrap_nd [y1, y2, y3] [x1, x2, x3] =
        Inr (\<lambda>i. lagrange_at_zero [x1, x2, x3] [y1 i, y2 i, y3 i])) \<and>
   (distinct [x1, x2, x3, x4] \<longrightarrow>
      cubic_extrap_nd [y1, y2, y3, y4] [x1, x2, x3, x4] =
        Inr (\<lambda>i. lagrange_at_zero [x1, x2, x3, x4] [y1 i, y2 i, y3 i, y4 i])) \<and>
   (distinct [x1, x2, x3, x4, x5] \<longrightarrow>
      quartic_extrap_nd [y1, y2, y3, y4, y5] [x1, x2, x3, x4, x5] =
        Inr (\<lambda>i. lagrange_at_zero [x1, x2, x3, x4, x5] [y1 i, y2 i, y3 i, y4 i, y5 i])) \<and>
   (distinct [x1, x2, x3, x4, x5, x6] \<longrightarrow>
      quintic_extrap_nd [y1, y2, y3, y4, y5, y6] [x1, x2, x3, x4, x5, x6] =
        Inr (\<lambda>i. lagrange_at_zero [x1, x2, x3, x4, x5, x6] [y1 i, y2 i, y3 i, y4 i, y5 i, y6 i])))"
  using extrapolators_nd_poly[of cs x1 x2 x3 x4 x5 x6]
    extrapolators_nd_lagrange[of x1 x2 y1 y2 x3 y3 x4 y4 x5 y5 x6 y6]
  by (rule conjI)

theorem extrapolators_exact_on_polynomials_witness:
  "distinct [1, 2, 3, 4, 5, 6 :: real] \<and>
   linear_extrap_nd [\<lambda>i. polyval [real i, 2] 1, \<lambda>i. polyval [real i, 2] 2]
        [1, 2] = Inr (\<lambda>i::nat. polyval [real i, 2] 0) \<and>
   quadratic_extrap_nd [\<lambda>i. polyval [real i, 2] 1, \<lambda>i. polyval [real i, 2] 2, \<lambda>i. polyval [real i, 2] 3]
        [1, 2, 3] = Inr (\<lambda>i::nat. polyval [real i, 2] 0) \<and>
   cubic_extrap_nd [\<lambda>i. polyval [real i, 2] 1, \<lambda>i. polyval [real i, 2] 2, \<lambda>i. polyval [real i, 2] 3, \<lambda>i. polyval [real i, 2] 4]
        [1, 2, 3, 4] = Inr (\<lambda>i::nat. polyval [real i, 2] 0) \<and>
   quartic_extrap_nd [\<lambda>i. polyval [real i, 2] 1, \<lambda>i. polyval [real i, 2] 2, \<lambda>i. polyval [real i, 2] 3, \<lambda>i. polyval [real i, 2] 4, \<lambda>i. polyval [real i, 2] 5]
        [1, 2, 3, 4, 5] = Inr (\<lambda>i::nat. polyval [real i, 2] 0) \<and>
   quintic_extrap_nd [\<lambda>i. polyval [real i, 2] 1, \<lambda>i. polyval [real i, 2] 2, \<lambda>i. polyval [real i, 2] 3, \<lambda>i. polyval [real i, 2] 4, \<lambda>i. polyval [real i, 2] 5, \<lambda>i. polyval [real i, 2] 6]
        [1, 2, 3, 4, 5, 6] = Inr (\<lambda>i::nat. polyval [real i, 2] 0) \<and>
   linear_extrap_nd [\<lambda>i. real (i + 1), \<lambda>i. real (i + 2)] [1, 2] =
        Inr (\<lambda>i::nat. lagrange_at_zero [1, 2] [real (i + 1), real (i + 2)]) \<and>
   quadratic_extrap_nd [\<lambda>i. real (i + 1), \<lambda>i. real (i + 2), \<lambda>i. real (i + 3)] [1, 2, 3] =
        Inr (\<lambda>i::nat. lagrange_at_zero [1, 2, 3] [real (i + 1), real (i + 2), real (i + 3)]) \<and>
   cubic_extrap_nd [\<lambda>i. real (i + 1), \<lambda>i. real (i + 2), \<lambda>i. real (i + 3), \<lambda>i. real (i + 4)] [1, 2, 3, 4] =
        Inr (\<lambda>i::nat. lagrange_at_zero [1, 2, 3, 4] [real (i + 1), real (i + 2), real (i + 3), real (i + 4)]) \<and>
   quartic_extrap_nd [\<lambda>i. real (i + 1), \<lambda>i. real (i + 2), \<lambda>i. real (i + 3), \<lambda>i. real (i + 4), \<lambda>i. real (i + 5)] [1, 2, 3, 4, 5] =
        Inr (\<lambda>i::nat. lagrange_at_zero [1, 2, 3, 4, 5] [real (i + 1), real (i + 2), real (i + 3), real (i + 4), real (i + 5)]) \<and>
   quintic_extrap_nd [\<lambda>i. real (i + 1), \<lambda>i. real (i + 2), \<lambda>i. real (i + 3), \<lambda>i. real (i + 4), \<lambda>i. real (i + 5), \<lambda>i. real (i + 6)] [1, 2, 3, 4, 5, 6] =
        Inr (\<lambda>i::nat. lagrange_at_zero [1, 2, 3, 4, 5, 6] [real (i + 1), real (i + 2), real (i + 3), real (i + 4), real (i + 5), real (i + 6)])"
proof -
  have l: "\<forall>i::nat. length [real i, 2] \<le> 2" "\<forall>i::nat. length [real i, 2] \<le> 3"
    "\<forall>i::nat. length [real i, 2] \<le> 4" "\<forall>i::nat. length [real i, 2] \<le> 5"
    "\<forall>i::nat. length [real i, 2] \<le> 6" by simp_all
  have d: "distinct [1, 2 :: real]" "distinct [1, 2, 3 :: real]" "distinct [1, 2, 3, 4 :: real]"
    "distinct [1, 2, 3, 4, 5 :: real]" "distinct [1, 2, 3, 4, 5, 6 :: real]" by simp_all
  show ?thesis
    using extrapolators_exact_on_polynomials[of "\<lambda>i::nat. [real i, 2]" 1 2 3 4 5 6
        "\<lambda>i. real (i + 1)" "\<lambda>i. real (i + 2)" "\<lambda>i. real (i + 3)"
        "\<lambda>i. real (i + 4)" "\<lambda>i. real (i + 5)" "\<lambda>i. real (i + 6)"] l d
    by blast
qed

end
